theory Spec2Isabelle
  imports Main "HOL-Library.Word" "HOL-Library.Signed_Division"
begin

section \<open>Undo chunks\<close>

text \<open>
  The undo types of the source, in the order of its \<^verbatim>\<open>enum\<close> (the table
  \<^verbatim>\<open>undo_actions\<close> is indexed by it).
\<close>

datatype undo_type =
    UNDO_TYPE_OPEN
  | UNDO_TYPE_CLOSE
  | UNDO_TYPE_DATA
  | UNDO_TYPE_IMAGE
  | UNDO_TYPE_FLIP
  | UNDO_TYPE_DIRTY
  | UNDO_TYPE_ADD_IMAGE
  | UNDO_TYPE_REMOVE_IMAGE
  | UNDO_TYPE_REPLACE_IMAGE
  | UNDO_TYPE_ADD_CEL
  | UNDO_TYPE_REMOVE_CEL
  | UNDO_TYPE_SET_LAYER_NAME
  | UNDO_TYPE_ADD_LAYER
  | UNDO_TYPE_REMOVE_LAYER
  | UNDO_TYPE_MOVE_LAYER
  | UNDO_TYPE_SET_LAYER
  | UNDO_TYPE_ADD_PALETTE
  | UNDO_TYPE_REMOVE_PALETTE
  | UNDO_TYPE_SET_PALETTE_COLORS
  | UNDO_TYPE_REMAP_PALETTE
  | UNDO_TYPE_SET_MASK
  | UNDO_TYPE_SET_IMGTYPE
  | UNDO_TYPE_SET_SIZE
  | UNDO_TYPE_SET_FRAME
  | UNDO_TYPE_SET_FRAMES
  | UNDO_TYPE_SET_FRLEN

type_synonym byte = "8 word"
type_synonym ObjectId = "32 word"

text \<open>The image types with a byte size per pixel (section 6.1 of the specification).\<close>

datatype imgtype = IMAGE_RGB | IMAGE_GRAYSCALE | IMAGE_INDEXED

text \<open>
  What follows the header \<^verbatim>\<open>UndoChunk head\<close> in the chunk structs of the source, one
  constructor for each struct, with the fields in their order; the bytes of a
  \<^verbatim>\<open>data[0]\<close> at the end of a struct are the last field. OPEN and CLOSE chunks have the
  header only.
\<close>

datatype chunk_data =
    NoData
  | DataData ObjectId "32 word" "32 word" "byte list"
  | ImageData ObjectId imgtype "16 word" "16 word" "16 word" "16 word" "byte list"
  | FlipData ObjectId imgtype "16 word" "16 word" "16 word" "16 word" byte
  | DirtyData ObjectId "byte list"
  | AddImageData ObjectId "32 word"
  | RemoveImageData ObjectId "32 word" "byte list"
  | ReplaceImageData ObjectId "32 word" "byte list"
  | AddCelData ObjectId ObjectId
  | RemoveCelData ObjectId "byte list"
  | SetLayerNameData ObjectId "16 word" "byte list"
  | AddLayerData ObjectId ObjectId
  | RemoveLayerData ObjectId ObjectId "byte list"
  | MoveLayerData ObjectId ObjectId ObjectId
  | SetLayerData ObjectId ObjectId
  | AddPaletteData ObjectId ObjectId
  | RemovePaletteData ObjectId "byte list"
  | SetPaletteColorsData ObjectId "32 word" byte byte "byte list"
  | RemapPaletteData ObjectId "32 word" "32 word" "byte list"
  | SetMaskData ObjectId "byte list"
  | SetImgTypeData ObjectId "32 word"
  | SetSizeData ObjectId "32 word" "32 word"
  | SetFrameData ObjectId "32 word"
  | SetFramesData ObjectId "32 word"
  | SetFrlenData ObjectId "32 word" "32 word"

text \<open>\<^verbatim>\<open>struct UndoChunk { int type; int size; const char *label; }\<close> and its tail.\<close>

record UndoChunk =
  chunk_type :: undo_type
  chunk_size :: int
  chunk_label :: string
  chunk_data :: chunk_data

section \<open>UndoStream\<close>

text \<open>
  Modelled from the spec: the class \<^verbatim>\<open>UndoStream\<close> (undo_stream.h) is not among the
  sources. Section 4.1 gives it as an ordered list of chunks with a running
  \<^verbatim>\<open>memSize\<close>, the sum of the sizes, updated on every push and pop; a pop on an empty
  stream gives nil; \<^verbatim>\<open>clear\<close> empties it and resets the size. The list is kept head
  first. Section 4.1 calls the push an append; which end it adds to follows from what the
  history does with the two ends: \<^verbatim>\<open>doUndo\<close> pops the head and undoes the newest
  recording, and the budget drops the oldest groups from the tail (sections 2 and 4.3). So a
  pushed chunk becomes the new head.
\<close>

record UndoStream =
  chunks :: "UndoChunk list"
  memSize :: int

definition stream_new :: UndoStream where
  "stream_new = \<lparr>chunks = [], memSize = 0\<rparr>"

definition stream_empty :: "UndoStream \<Rightarrow> bool" where
  "stream_empty s = (chunks s = [])"

definition stream_clear :: "UndoStream \<Rightarrow> UndoStream" where
  "stream_clear s = s\<lparr>chunks := [], memSize := 0\<rparr>"

definition getMemSize :: "UndoStream \<Rightarrow> int" where
  "getMemSize s = memSize s"

definition pushChunk :: "UndoChunk \<Rightarrow> UndoStream \<Rightarrow> UndoStream" where
  "pushChunk c s = s\<lparr>chunks := c # chunks s, memSize := memSize s + chunk_size c\<rparr>"

text \<open>\<^verbatim>\<open>popChunk(tail)\<close>: from the tail when the flag is set, from the head otherwise.\<close>

definition popChunk :: "bool \<Rightarrow> UndoStream \<Rightarrow> UndoChunk option \<times> UndoStream" where
  "popChunk tail s =
     (if chunks s = [] then (None, s)
      else if \<not> tail then
        (Some (hd (chunks s)),
         s\<lparr>chunks := tl (chunks s), memSize := memSize s - chunk_size (hd (chunks s))\<rparr>)
      else
        (Some (last (chunks s)),
         s\<lparr>chunks := butlast (chunks s), memSize := memSize s - chunk_size (last (chunks s))\<rparr>))"

section \<open>Counting groups\<close>

text \<open>The step both counters make on a chunk: OPEN raises the level, CLOSE lowers it.\<close>

definition level_step :: "int \<Rightarrow> UndoChunk \<Rightarrow> int" where
  "level_step level chunk =
     (if chunk_type chunk = UNDO_TYPE_OPEN then level + 1
      else if chunk_type chunk = UNDO_TYPE_CLOSE then level - 1
      else level)"

text \<open>
  The inner \<^verbatim>\<open>do { chunk = *it; ++it; ... } while (level && it != end)\<close> of
  \<^verbatim>\<open>count_undo_groups\<close> and of \<^verbatim>\<open>out_of_group\<close>. The iterator is the list of the
  chunks still ahead; the result is the level and the iterator at the exit. The loop is
  entered only with a chunk ahead.
\<close>

fun walk_group :: "int \<Rightarrow> UndoChunk list \<Rightarrow> int \<times> UndoChunk list" where
  "walk_group level [] = (level, [])"
| "walk_group level (chunk # it) =
     (let level' = level_step level chunk
      in if level' \<noteq> 0 \<and> it \<noteq> [] then walk_group level' it else (level', it))"

lemma walk_group_shorter: "it \<noteq> [] \<Longrightarrow> length (snd (walk_group level it)) < length it"
proof (induction it arbitrary: level)
  case Nil
  then show ?case by simp
next
  case (Cons c it)
  show ?case
  proof (cases "level_step level c \<noteq> 0 \<and> it \<noteq> []")
    case True
    with Cons.IH [of "level_step level c"] show ?thesis by (simp add: Let_def)
  next
    case False
    then show ?thesis by (auto simp: Let_def)
  qed
qed

function count_groups_loop :: "int \<Rightarrow> UndoChunk list \<Rightarrow> int" where
  "count_groups_loop groups it =
     (if it \<noteq> [] then
        (case walk_group 0 it of
           (level, it') \<Rightarrow> count_groups_loop (if level = 0 then groups + 1 else groups) it')
      else groups)"
  by pat_completeness auto
termination
proof (relation "measure (\<lambda>(groups, it). length it)")
  show "wf (measure (\<lambda>(groups, it). length it))" by simp
next
  fix groups :: int and it x :: "UndoChunk list" and level :: int and y
  assume "it \<noteq> []" and "(level, x) = walk_group 0 it"
  then have "length x < length it"
    using walk_group_shorter [of it 0] by (metis snd_conv)
  then show "((if level = 0 then groups + 1 else groups, x), groups, it)
      \<in> measure (\<lambda>(groups, it). length it)" by simp
qed

declare count_groups_loop.simps [simp del]

definition count_undo_groups :: "UndoStream \<Rightarrow> int" where
  "count_undo_groups undo_stream = count_groups_loop 0 (chunks undo_stream)"

function out_of_group_loop :: "int \<Rightarrow> UndoChunk list \<Rightarrow> int" where
  "out_of_group_loop level it =
     (if it \<noteq> [] then
        (case walk_group 0 it of (level', it') \<Rightarrow> out_of_group_loop level' it')
      else level)"
  by pat_completeness auto
termination
proof (relation "measure (\<lambda>(level, it). length it)")
  show "wf (measure (\<lambda>(level, it). length it))" by simp
next
  fix level :: int and it x :: "UndoChunk list" and level' :: int
  assume "it \<noteq> []" and "(level', x) = walk_group 0 it"
  then have "length x < length it"
    using walk_group_shorter [of it 0] by (metis snd_conv)
  then show "((level', x), level, it) \<in> measure (\<lambda>(level, it). length it)" by simp
qed

declare out_of_group_loop.simps [simp del]

definition out_of_group :: "UndoStream \<Rightarrow> bool" where
  "out_of_group undo_stream = (out_of_group_loop 0 (chunks undo_stream) = 0)"

section \<open>Live objects\<close>

text \<open>
  What an inverter or an encoder can end with besides returning: the exception of the
  source (\<^verbatim>\<open>throw UndoException(...)\<close>), a failed \<^verbatim>\<open>ASSERT\<close> (as a debug build stops
  on it), the use of a null pointer, and a chunk whose tail is not the struct that its type
  names or whose data end before a reader is done with them (no encoder builds one).
\<close>

datatype undo_error = UndoException string | AssertFailed | NullPointer | BadChunk

text \<open>
  Modelled from the spec: the classes \<^verbatim>\<open>Image\<close> and \<^verbatim>\<open>Sprite\<close> (raster/image.h,
  raster/sprite.h) are not among the sources. Section 6.1: an image has an
  \<^verbatim>\<open>imgtype\<close> with 4 (RGB), 2 (grayscale) or 1 (indexed) bytes per pixel, a size and
  lines of pixels read and written by rectangle and a mask color; \<^verbatim>\<open>line_size(w)\<close> is
  the byte size of \<open>w\<close> pixels; a sprite has a size, an image type (the number of
  \<^verbatim>\<open>getImgType\<close>), a current frame, a number of frames with their durations, a current
  layer (or none), palettes by frame and a stock. An image of the editor has as many
  lines as its height and each line has the byte size of its width (\<open>image_ok\<close> below);
  on such an image the reads and writes below stay inside the lines once the asserts of
  the encoder hold.
\<close>

record Image =
  img_imgtype :: imgtype
  img_w :: int
  img_h :: int
  img_mask_color :: "32 word"
  img_line :: "byte list list"

record Sprite =
  spr_width :: int
  spr_height :: int
  spr_imgtype :: int
  spr_frame :: int
  spr_frames :: int
  spr_frlen :: "int \<Rightarrow> int"
  spr_layer :: "ObjectId option"
  spr_palettes :: "int \<Rightarrow> ObjectId option"
  spr_stock :: ObjectId

definition bytes_per_pixel :: "imgtype \<Rightarrow> int" where
  "bytes_per_pixel t = (case t of IMAGE_RGB \<Rightarrow> 4 | IMAGE_GRAYSCALE \<Rightarrow> 2 | IMAGE_INDEXED \<Rightarrow> 1)"

definition image_line_size :: "Image \<Rightarrow> int \<Rightarrow> int" where
  "image_line_size img w = bytes_per_pixel (img_imgtype img) * w"

text \<open>
  \<^verbatim>\<open>memcpy(ptr, image_address(image, x, y), size)\<close>: the \<open>size\<close> bytes of line \<open>y\<close>
  from pixel \<open>x\<close> on; and \<^verbatim>\<open>memcpy(image_address(image, x, y), ptr, size)\<close>, which
  writes them.
\<close>

definition image_read :: "Image \<Rightarrow> int \<Rightarrow> int \<Rightarrow> int \<Rightarrow> byte list" where
  "image_read img x y sz =
     take (nat sz) (drop (nat (bytes_per_pixel (img_imgtype img) * x)) (img_line img ! nat y))"

definition image_write :: "Image \<Rightarrow> int \<Rightarrow> int \<Rightarrow> byte list \<Rightarrow> Image" where
  "image_write img x y bytes =
     (let off = nat (bytes_per_pixel (img_imgtype img) * x);
          row = img_line img ! nat y
      in img\<lparr>img_line := (img_line img)
           [nat y := take off row @ bytes @ drop (off + length bytes) row]\<rparr>)"

text \<open>
  Modelled from the spec: the classes \<^verbatim>\<open>Palette\<close>, \<^verbatim>\<open>Mask\<close>, \<^verbatim>\<open>Document\<close> and
  \<^verbatim>\<open>Dirty\<close> (raster/palette.h, raster/mask.h, document.h, raster/dirty.h) are not among
  the sources. Section 6.1: a palette has a frame, a size and an entry at each index; a
  mask has a position, a size and a bitmap, or none, of \<open>(w+7)/8\<close> bytes per row; a
  document has a mask. Section 4.2: a dirty is a bounding box and rows, each with its
  \<open>y\<close> and its columns, each with its \<open>x\<close>, its width and its pixels.
\<close>

record Palette =
  pal_frame :: int
  pal_size :: int
  pal_entry :: "int \<Rightarrow> 32 word"

definition Palette_setEntry :: "Palette \<Rightarrow> int \<Rightarrow> 32 word \<Rightarrow> Palette" where
  "Palette_setEntry palette i color = palette\<lparr>pal_entry := (pal_entry palette)(i := color)\<rparr>"

record Mask =
  mask_x :: int
  mask_y :: int
  mask_w :: int
  mask_h :: int
  mask_bitmap :: "byte list list option"

record Document =
  doc_mask :: Mask

type_synonym DirtyCol = "int \<times> int \<times> byte list"
type_synonym DirtyRow = "int \<times> DirtyCol list"

record Dirty =
  dirty_imgtype :: imgtype
  dirty_x1 :: int
  dirty_y1 :: int
  dirty_x2 :: int
  dirty_y2 :: int
  dirty_rows :: "DirtyRow list"

definition Dirty_getLineSize :: "Dirty \<Rightarrow> int \<Rightarrow> int" where
  "Dirty_getLineSize dirty w = bytes_per_pixel (dirty_imgtype dirty) * w"

text \<open>
  \<^verbatim>\<open>Dirty::swapImagePixels\<close> (section 4.2): the pixels of each column go to the image
  and the pixels of the image that they overwrite go to the column.
\<close>

fun swap_cols :: "Dirty \<Rightarrow> int \<Rightarrow> DirtyCol list \<Rightarrow> Image \<Rightarrow> DirtyCol list \<times> Image" where
  "swap_cols dirty y [] img = ([], img)"
| "swap_cols dirty y ((x, w, pixels) # cols) img =
     (let old = image_read img x y (Dirty_getLineSize dirty w);
          img' = image_write img x y pixels
      in case swap_cols dirty y cols img' of (cols', img'') \<Rightarrow> ((x, w, old) # cols', img''))"

fun swap_rows :: "Dirty \<Rightarrow> DirtyRow list \<Rightarrow> Image \<Rightarrow> DirtyRow list \<times> Image" where
  "swap_rows dirty [] img = ([], img)"
| "swap_rows dirty ((y, cols) # rows) img =
     (case swap_cols dirty y cols img of
        (cols', img') \<Rightarrow>
          (case swap_rows dirty rows img' of (rows', img'') \<Rightarrow> ((y, cols') # rows', img'')))"

definition Dirty_swapImagePixels :: "Dirty \<Rightarrow> Image \<Rightarrow> Dirty \<times> Image" where
  "Dirty_swapImagePixels dirty img =
     (case swap_rows dirty (dirty_rows dirty) img of
        (rows', img') \<Rightarrow> (dirty\<lparr>dirty_rows := rows'\<rparr>, img'))"

section \<open>Raw layer data\<close>

text \<open>
  Modelled from the spec: the classes \<^verbatim>\<open>Cel\<close>, \<^verbatim>\<open>Layer\<close> and \<^verbatim>\<open>Stock\<close> (raster/cel.h,
  raster/layer.h, raster/stock.h) are not among the sources. Section 6.1: a cel has a
  frame, an image (an index into the stock), a position and an opacity; a layer has a name,
  flags, a sprite and is an image layer with cels or a folder with children; the stock
  gives the image at an index, or none. Each object comes with the id under which the
  container holds it. The layers of a tree belong to one sprite, whose stock is \<open>stock\<close>.
\<close>

record Cel =
  cel_id :: ObjectId
  cel_frame :: int
  cel_image :: int
  cel_x :: int
  cel_y :: int
  cel_opacity :: int

datatype Layer =
    LayerImage ObjectId string int ObjectId "Cel list"
  | LayerFolder ObjectId string int ObjectId "Layer list"

type_synonym Stock = "int \<Rightarrow> (ObjectId \<times> Image) option"

text \<open>
  The numbers of \<^verbatim>\<open>GFXOBJ_LAYER_IMAGE\<close>, \<^verbatim>\<open>GFXOBJ_LAYER_FOLDER\<close> and of the image
  types are in headers that are not among the sources; they enter as a parameter.
\<close>

record gfx_codes =
  code_layer_image :: "16 word"
  code_layer_folder :: "16 word"
  code_imgtype :: "imgtype \<Rightarrow> byte"

text \<open>
  The write macros copy a value to \<^verbatim>\<open>raw_data\<close> and move \<^verbatim>\<open>raw_data\<close> past it. Each
  is given by the bytes it writes, low byte first (section 6.2); the pointer a writer
  returns is its start moved by the length of what it wrote.
\<close>

definition write_raw_uint32 :: "32 word \<Rightarrow> byte list" where
  "write_raw_uint32 src = [ucast src, ucast (drop_bit 8 src), ucast (drop_bit 16 src),
     ucast (drop_bit 24 src)]"

definition write_raw_uint16 :: "16 word \<Rightarrow> byte list" where
  "write_raw_uint16 src = [ucast src, ucast (drop_bit 8 src)]"

definition write_raw_int16 :: "int \<Rightarrow> byte list" where
  "write_raw_int16 src = write_raw_uint16 (word_of_int src)"

definition write_raw_uint8 :: "byte \<Rightarrow> byte list" where
  "write_raw_uint8 src = [src]"

definition write_raw_data :: "byte list \<Rightarrow> int \<Rightarrow> byte list" where
  "write_raw_data src sz = take (nat sz) src"

definition write_raw_image :: "gfx_codes \<Rightarrow> ObjectId \<times> Image \<Rightarrow> byte list" where
  "write_raw_image gfx im =
     (let image_id = fst im; img = snd im; sz = image_line_size img (img_w img)
      in write_raw_uint32 image_id
         @ write_raw_uint8 (code_imgtype gfx (img_imgtype img))
         @ write_raw_uint16 (word_of_int (img_w img))
         @ write_raw_uint16 (word_of_int (img_h img))
         @ write_raw_uint32 (img_mask_color img)
         @ concat (map (\<lambda>c. write_raw_data (img_line img ! c) sz) [0..<nat (img_h img)]))"

definition get_raw_image_size :: "Image \<Rightarrow> int" where
  "get_raw_image_size img = 4 + 1 + 2 + 2 + 4 + image_line_size img (img_w img) * img_h img"

definition write_raw_cel :: "Cel \<Rightarrow> byte list" where
  "write_raw_cel cel =
     write_raw_uint32 (cel_id cel)
     @ write_raw_uint16 (word_of_int (cel_frame cel))
     @ write_raw_uint16 (word_of_int (cel_image cel))
     @ write_raw_int16 (cel_x cel)
     @ write_raw_int16 (cel_y cel)
     @ write_raw_uint16 (word_of_int (cel_opacity cel))"

definition get_raw_cel_size :: "Cel \<Rightarrow> int" where
  "get_raw_cel_size cel = 4 + 2 * 5"

text \<open>
  The head that \<^verbatim>\<open>write_raw_layer\<close> writes for every layer: id, length of the name, name,
  flags, type and sprite.
\<close>

definition write_layer_head :: "ObjectId \<Rightarrow> string \<Rightarrow> int \<Rightarrow> 16 word \<Rightarrow> ObjectId \<Rightarrow> byte list" where
  "write_layer_head layer_id name flags type_code sprite_id =
     write_raw_uint32 layer_id
     @ write_raw_uint16 (of_nat (length name))
     @ (if name \<noteq> [] then write_raw_data (map (\<lambda>c. of_nat (of_char c)) name) (int (length name))
        else [])
     @ write_raw_uint8 (word_of_int flags)
     @ write_raw_uint16 type_code
     @ write_raw_uint32 sprite_id"

text \<open>
  The loop over the cels of an image layer in \<^verbatim>\<open>write_raw_layer\<close>: the cel, the image of
  the stock (asserted to be there), a byte 1 and the image.
\<close>

fun write_raw_cels :: "gfx_codes \<Rightarrow> Stock \<Rightarrow> Cel list \<Rightarrow> undo_error + byte list" where
  "write_raw_cels gfx stock [] = Inr []"
| "write_raw_cels gfx stock (cel # cels) =
     (case stock (cel_image cel) of
        None \<Rightarrow> Inl AssertFailed
      | Some im \<Rightarrow>
          (case write_raw_cels gfx stock cels of
             Inl e \<Rightarrow> Inl e
           | Inr bytes \<Rightarrow>
               Inr (write_raw_cel cel @ write_raw_uint8 1 @ write_raw_image gfx im @ bytes)))"

fun write_raw_layer :: "gfx_codes \<Rightarrow> Stock \<Rightarrow> Layer \<Rightarrow> undo_error + byte list"
  and write_raw_layers :: "gfx_codes \<Rightarrow> Stock \<Rightarrow> Layer list \<Rightarrow> undo_error + byte list" where
  "write_raw_layer gfx stock (LayerImage layer_id name flags sprite_id cels) =
     (case write_raw_cels gfx stock cels of
        Inl e \<Rightarrow> Inl e
      | Inr bytes \<Rightarrow>
          Inr (write_layer_head layer_id name flags (code_layer_image gfx) sprite_id
               @ write_raw_uint16 (of_nat (length cels)) @ bytes))"
| "write_raw_layer gfx stock (LayerFolder layer_id name flags sprite_id layers) =
     (case write_raw_layers gfx stock layers of
        Inl e \<Rightarrow> Inl e
      | Inr bytes \<Rightarrow>
          Inr (write_layer_head layer_id name flags (code_layer_folder gfx) sprite_id
               @ write_raw_uint16 (of_nat (length layers)) @ bytes))"
| "write_raw_layers gfx stock [] = Inr []"
| "write_raw_layers gfx stock (layer # layers) =
     (case write_raw_layer gfx stock layer of
        Inl e \<Rightarrow> Inl e
      | Inr bytes \<Rightarrow>
          (case write_raw_layers gfx stock layers of
             Inl e \<Rightarrow> Inl e
           | Inr others \<Rightarrow> Inr (bytes @ others)))"

text \<open>The loop over the cels in \<^verbatim>\<open>get_raw_layer_size\<close>, from the size so far.\<close>

fun get_raw_cels_size :: "Stock \<Rightarrow> Cel list \<Rightarrow> int \<Rightarrow> undo_error + int" where
  "get_raw_cels_size stock [] sz = Inr sz"
| "get_raw_cels_size stock (cel # cels) sz =
     (case stock (cel_image cel) of
        None \<Rightarrow> Inl AssertFailed
      | Some im \<Rightarrow>
          get_raw_cels_size stock cels (sz + get_raw_cel_size cel + 1 + get_raw_image_size (snd im)))"

fun get_raw_layer_size :: "Stock \<Rightarrow> Layer \<Rightarrow> undo_error + int"
  and get_raw_layers_size :: "Stock \<Rightarrow> Layer list \<Rightarrow> int \<Rightarrow> undo_error + int" where
  "get_raw_layer_size stock (LayerImage layer_id name flags sprite_id cels) =
     (let sz = 4 + 2 + int (length name) + 1 + 2 + 4;
          sz = sz + 1;
          sz = sz + 2
      in get_raw_cels_size stock cels sz)"
| "get_raw_layer_size stock (LayerFolder layer_id name flags sprite_id layers) =
     (let sz = 4 + 2 + int (length name) + 1 + 2 + 4;
          sz = sz + 2
      in get_raw_layers_size stock layers sz)"
| "get_raw_layers_size stock [] sz = Inr sz"
| "get_raw_layers_size stock (layer # layers) sz =
     (case get_raw_layer_size stock layer of
        Inl e \<Rightarrow> Inl e
      | Inr n \<Rightarrow> get_raw_layers_size stock layers (sz + n))"

text \<open>The image layers of a tree of layers.\<close>

fun image_layers :: "Layer \<Rightarrow> int"
  and image_layers_list :: "Layer list \<Rightarrow> int" where
  "image_layers (LayerImage layer_id name flags sprite_id cels) = 1"
| "image_layers (LayerFolder layer_id name flags sprite_id layers) = image_layers_list layers"
| "image_layers_list [] = 0"
| "image_layers_list (layer # layers) = image_layers layer + image_layers_list layers"

section \<open>Raw data of palettes, masks and dirties\<close>

text \<open>
  The read macros copy a value from \<^verbatim>\<open>raw_data\<close> and move \<^verbatim>\<open>raw_data\<close> past it. Each
  gives the value, low byte first, and the data that follow it; it gives nothing when the
  data end before the value does (the source then reads past the chunk).
  \<^verbatim>\<open>read_raw_int16\<close> is \<^verbatim>\<open>read_raw_uint16\<close> with the value taken as signed.
\<close>

definition read_raw_uint8 :: "byte list \<Rightarrow> (byte \<times> byte list) option" where
  "read_raw_uint8 raw_data = (case raw_data of [] \<Rightarrow> None | b # rest \<Rightarrow> Some (b, rest))"

definition read_raw_uint16 :: "byte list \<Rightarrow> (16 word \<times> byte list) option" where
  "read_raw_uint16 raw_data =
     (case raw_data of
        b0 # b1 # rest \<Rightarrow> Some (ucast b0 + push_bit 8 (ucast b1), rest)
      | _ \<Rightarrow> None)"

definition read_raw_uint32 :: "byte list \<Rightarrow> (32 word \<times> byte list) option" where
  "read_raw_uint32 raw_data =
     (case raw_data of
        b0 # b1 # b2 # b3 # rest \<Rightarrow>
          Some (ucast b0 + push_bit 8 (ucast b1) + push_bit 16 (ucast b2) + push_bit 24 (ucast b3),
                rest)
      | _ \<Rightarrow> None)"

definition read_raw_data :: "int \<Rightarrow> byte list \<Rightarrow> (byte list \<times> byte list) option" where
  "read_raw_data sz raw_data =
     (if int (length raw_data) < sz then None
      else Some (take (nat sz) raw_data, drop (nat sz) raw_data))"

text \<open>A reader goes on with the value read and the data after it, or ends on the chunk.\<close>

definition on_read ::
  "('a \<times> byte list) option \<Rightarrow> ('a \<Rightarrow> byte list \<Rightarrow> undo_error + 'b) \<Rightarrow> undo_error + 'b" where
  "on_read r f = (case r of None \<Rightarrow> Inl BadChunk | Some (x, raw_data) \<Rightarrow> f x raw_data)"

text \<open>\<open>n\<close> lines of \<open>sz\<close> bytes each, read one after the other.\<close>

fun read_raw_lines :: "nat \<Rightarrow> int \<Rightarrow> byte list \<Rightarrow> (byte list list \<times> byte list) option" where
  "read_raw_lines 0 sz raw_data = Some ([], raw_data)"
| "read_raw_lines (Suc n) sz raw_data =
     (case read_raw_data sz raw_data of
        None \<Rightarrow> None
      | Some (line, rest) \<Rightarrow>
          (case read_raw_lines n sz rest of
             None \<Rightarrow> None
           | Some (lines, rest') \<Rightarrow> Some (line # lines, rest')))"

text \<open>The image type that a number of the header stands for, if any.\<close>

definition imgtype_of_code :: "gfx_codes \<Rightarrow> byte \<Rightarrow> imgtype option" where
  "imgtype_of_code gfx b =
     (if b = code_imgtype gfx IMAGE_RGB then Some IMAGE_RGB
      else if b = code_imgtype gfx IMAGE_GRAYSCALE then Some IMAGE_GRAYSCALE
      else if b = code_imgtype gfx IMAGE_INDEXED then Some IMAGE_INDEXED
      else None)"

text \<open>\<^verbatim>\<open>write_raw_palette\<close>, \<^verbatim>\<open>get_raw_palette_size\<close> and \<^verbatim>\<open>read_raw_palette\<close>.\<close>

definition write_raw_palette :: "Palette \<Rightarrow> byte list" where
  "write_raw_palette palette =
     write_raw_uint16 (word_of_int (pal_frame palette))
     @ write_raw_uint16 (word_of_int (pal_size palette))
     @ concat (map (\<lambda>c. write_raw_uint32 (pal_entry palette (int c))) [0..<nat (pal_size palette)])"

definition get_raw_palette_size :: "Palette \<Rightarrow> int" where
  "get_raw_palette_size palette = 2 * 2 + 4 * pal_size palette"

text \<open>
  The loop \<^verbatim>\<open>read_raw_uint32(color); palette->setEntry(i, color)\<close> over the indices
  \<open>is\<close>, which \<^verbatim>\<open>read_raw_palette\<close> and \<^verbatim>\<open>chunk_set_palette_colors_invert\<close> share.
\<close>

fun read_palette_entries :: "int list \<Rightarrow> byte list \<Rightarrow> Palette \<Rightarrow> Palette option" where
  "read_palette_entries [] raw_data palette = Some palette"
| "read_palette_entries (i # is) raw_data palette =
     (case read_raw_uint32 raw_data of
        None \<Rightarrow> None
      | Some (color, rest) \<Rightarrow> read_palette_entries is rest (Palette_setEntry palette i color))"

definition read_raw_palette :: "byte list \<Rightarrow> undo_error + Palette" where
  "read_raw_palette raw_data =
     on_read (read_raw_uint16 raw_data) (\<lambda>frame raw_data.
     on_read (read_raw_uint16 raw_data) (\<lambda>ncolors raw_data.
       case read_palette_entries (map int [0..<unat ncolors]) raw_data
              \<lparr>pal_frame = uint frame, pal_size = uint ncolors, pal_entry = (\<lambda>i. 0)\<rparr> of
         None \<Rightarrow> Inl BadChunk
       | Some palette \<Rightarrow> Inr palette))"

text \<open>
  \<^verbatim>\<open>write_raw_mask\<close>, \<^verbatim>\<open>get_raw_mask_size\<close> and \<^verbatim>\<open>read_raw_mask\<close>. The line size
  is \<^verbatim>\<open>(mask->w+7)/8\<close>, a division of \<^verbatim>\<open>int\<close>s. \<^verbatim>\<open>mask_new\<close> gives the empty mask, to
  which \<^verbatim>\<open>mask->add\<close> gives the rectangle and a bitmap.
\<close>

definition mask_line_size :: "int \<Rightarrow> int" where
  "mask_line_size w = (w + 7) sdiv 8"

definition write_raw_mask :: "Mask \<Rightarrow> byte list" where
  "write_raw_mask msk =
     write_raw_uint16 (word_of_int (mask_x msk))
     @ write_raw_uint16 (word_of_int (mask_y msk))
     @ write_raw_uint16 (case mask_bitmap msk of Some lines \<Rightarrow> word_of_int (mask_w msk) | None \<Rightarrow> 0)
     @ write_raw_uint16 (case mask_bitmap msk of Some lines \<Rightarrow> word_of_int (mask_h msk) | None \<Rightarrow> 0)
     @ (case mask_bitmap msk of
          Some lines \<Rightarrow>
            concat (map (\<lambda>c. write_raw_data (lines ! c) (mask_line_size (mask_w msk)))
              [0..<nat (mask_h msk)])
        | None \<Rightarrow> [])"

definition get_raw_mask_size :: "Mask \<Rightarrow> int" where
  "get_raw_mask_size msk =
     2 * 4 + (case mask_bitmap msk of
                Some lines \<Rightarrow> mask_h msk * mask_line_size (mask_w msk)
              | None \<Rightarrow> 0)"

definition mask_new :: Mask where
  "mask_new = \<lparr>mask_x = 0, mask_y = 0, mask_w = 0, mask_h = 0, mask_bitmap = None\<rparr>"

definition read_raw_mask :: "byte list \<Rightarrow> undo_error + Mask" where
  "read_raw_mask raw_data =
     on_read (read_raw_uint16 raw_data) (\<lambda>x raw_data.
     on_read (read_raw_uint16 raw_data) (\<lambda>y raw_data.
     on_read (read_raw_uint16 raw_data) (\<lambda>w raw_data.
     on_read (read_raw_uint16 raw_data) (\<lambda>h raw_data.
       if uint w > 0 \<and> uint h > 0 then
         on_read (read_raw_lines (unat h) (mask_line_size (uint w)) raw_data) (\<lambda>lines raw_data.
           Inr \<lparr>mask_x = uint x, mask_y = uint y, mask_w = uint w, mask_h = uint h,
                mask_bitmap = Some lines\<rparr>)
       else Inr mask_new))))"

text \<open>
  \<^verbatim>\<open>write_raw_dirty\<close>, \<^verbatim>\<open>get_raw_dirty_size\<close> and \<^verbatim>\<open>read_raw_dirty\<close>, with their
  loops over the rows and over the columns of a row.
\<close>

definition write_raw_dirty_col :: "Dirty \<Rightarrow> DirtyCol \<Rightarrow> byte list" where
  "write_raw_dirty_col dirty col =
     (case col of (x, w, pixels) \<Rightarrow>
        write_raw_uint16 (word_of_int x) @ write_raw_uint16 (word_of_int w)
        @ write_raw_data pixels (Dirty_getLineSize dirty w))"

definition write_raw_dirty_row :: "Dirty \<Rightarrow> DirtyRow \<Rightarrow> byte list" where
  "write_raw_dirty_row dirty row =
     (case row of (y, cols) \<Rightarrow>
        write_raw_uint16 (word_of_int y) @ write_raw_uint16 (of_nat (length cols))
        @ concat (map (write_raw_dirty_col dirty) cols))"

definition write_raw_dirty :: "gfx_codes \<Rightarrow> Dirty \<Rightarrow> byte list" where
  "write_raw_dirty gfx dirty =
     write_raw_uint8 (code_imgtype gfx (dirty_imgtype dirty))
     @ write_raw_uint16 (word_of_int (dirty_x1 dirty))
     @ write_raw_uint16 (word_of_int (dirty_y1 dirty))
     @ write_raw_uint16 (word_of_int (dirty_x2 dirty))
     @ write_raw_uint16 (word_of_int (dirty_y2 dirty))
     @ write_raw_uint16 (of_nat (length (dirty_rows dirty)))
     @ concat (map (write_raw_dirty_row dirty) (dirty_rows dirty))"

definition get_raw_dirty_size :: "Dirty \<Rightarrow> int" where
  "get_raw_dirty_size dirty =
     fold (\<lambda>row sz.
             fold (\<lambda>col sz. sz + 4 + Dirty_getLineSize dirty (fst (snd col))) (snd row) (sz + 4))
       (dirty_rows dirty) (1 + 2 * 4 + 2)"

fun read_raw_dirty_cols ::
  "imgtype \<Rightarrow> nat \<Rightarrow> byte list \<Rightarrow> undo_error + (DirtyCol list \<times> byte list)" where
  "read_raw_dirty_cols t 0 raw_data = Inr ([], raw_data)"
| "read_raw_dirty_cols t (Suc u) raw_data =
     (case read_raw_uint16 raw_data of
        None \<Rightarrow> Inl BadChunk
      | Some (x, raw1) \<Rightarrow>
          (case read_raw_uint16 raw1 of
             None \<Rightarrow> Inl BadChunk
           | Some (w, raw2) \<Rightarrow>
               if \<not> bytes_per_pixel t * uint w > 0 then Inl AssertFailed
               else
                 (case read_raw_data (bytes_per_pixel t * uint w) raw2 of
                    None \<Rightarrow> Inl BadChunk
                  | Some (pixels, raw3) \<Rightarrow>
                      (case read_raw_dirty_cols t u raw3 of
                         Inl e \<Rightarrow> Inl e
                       | Inr (cols, rest) \<Rightarrow> Inr ((uint x, uint w, pixels) # cols, rest)))))"

fun read_raw_dirty_rows ::
  "imgtype \<Rightarrow> nat \<Rightarrow> byte list \<Rightarrow> undo_error + (DirtyRow list \<times> byte list)" where
  "read_raw_dirty_rows t 0 raw_data = Inr ([], raw_data)"
| "read_raw_dirty_rows t (Suc v) raw_data =
     (case read_raw_uint16 raw_data of
        None \<Rightarrow> Inl BadChunk
      | Some (y, raw1) \<Rightarrow>
          (case read_raw_uint16 raw1 of
             None \<Rightarrow> Inl BadChunk
           | Some (noCols, raw2) \<Rightarrow>
               (case read_raw_dirty_cols t (unat noCols) raw2 of
                  Inl e \<Rightarrow> Inl e
                | Inr (cols, raw3) \<Rightarrow>
                    (case read_raw_dirty_rows t v raw3 of
                       Inl e \<Rightarrow> Inl e
                     | Inr (rows, rest) \<Rightarrow> Inr ((uint y, cols) # rows, rest)))))"

definition read_raw_dirty :: "gfx_codes \<Rightarrow> byte list \<Rightarrow> undo_error + Dirty" where
  "read_raw_dirty gfx raw_data =
     on_read (read_raw_uint8 raw_data) (\<lambda>code raw_data.
     on_read (read_raw_uint16 raw_data) (\<lambda>x1 raw_data.
     on_read (read_raw_uint16 raw_data) (\<lambda>y1 raw_data.
     on_read (read_raw_uint16 raw_data) (\<lambda>x2 raw_data.
     on_read (read_raw_uint16 raw_data) (\<lambda>y2 raw_data.
     on_read (read_raw_uint16 raw_data) (\<lambda>noRows raw_data.
       case imgtype_of_code gfx code of
         None \<Rightarrow> Inl BadChunk
       | Some t \<Rightarrow>
           (case read_raw_dirty_rows t (unat noRows) raw_data of
              Inl e \<Rightarrow> Inl e
            | Inr (rows, rest) \<Rightarrow>
                Inr \<lparr>dirty_imgtype = t, dirty_x1 = uint x1, dirty_y1 = uint y1,
                     dirty_x2 = uint x2, dirty_y2 = uint y2, dirty_rows = rows\<rparr>)))))))"

section \<open>The objects container\<close>

text \<open>
  Modelled from the spec: \<^verbatim>\<open>ObjectsContainer\<close> (undo/objects_container.h) is not among
  the sources. Section 3: a map between live objects and their \<^verbatim>\<open>ObjectId\<close>;
  \<^verbatim>\<open>get<T>(id)\<close> gives the typed object or nil, \<^verbatim>\<open>insert(id, obj)\<close> attaches an object
  to a known id and \<^verbatim>\<open>remove(id)\<close> detaches it; the id zero denotes no object. A live
  object is named here by the id under which the container holds it (\<^verbatim>\<open>add(obj)\<close>
  returns the id of an object it already holds), so a pointer to an object is its id, a
  null pointer is no id, and an object that is deleted, or that a writer of raw data has
  detached before it is deleted, is an id without entry. The objects of the classes that
  are not modelled are of the type \<open>'o\<close>.

  A layer is held with its tree (section 6.1: name, flags, sprite, cels or children), its
  parent and its previous sibling (\<^verbatim>\<open>get_parent\<close>, \<^verbatim>\<open>get_prev\<close>); a stock is held as
  the image at each index, or none. A cel and a layer carry their id, and the container
  holds them under it.
\<close>

record LayerObj =
  layer_tree :: Layer
  layer_parent :: "ObjectId option"
  layer_prev :: "ObjectId option"

datatype 'o object =
    ObjImage Image
  | ObjSprite Sprite
  | ObjStock "int \<Rightarrow> ObjectId option"
  | ObjLayer LayerObj
  | ObjCel Cel
  | ObjPalette Palette
  | ObjDocument Document
  | ObjOther 'o

type_synonym 'o ObjectsContainer = "ObjectId \<Rightarrow> 'o object option"

definition getImage :: "'o ObjectsContainer \<Rightarrow> ObjectId \<Rightarrow> Image option" where
  "getImage objects oid = (case objects oid of Some (ObjImage img) \<Rightarrow> Some img | _ \<Rightarrow> None)"

definition getSprite :: "'o ObjectsContainer \<Rightarrow> ObjectId \<Rightarrow> Sprite option" where
  "getSprite objects oid = (case objects oid of Some (ObjSprite sprite) \<Rightarrow> Some sprite | _ \<Rightarrow> None)"

definition getStock :: "'o ObjectsContainer \<Rightarrow> ObjectId \<Rightarrow> (int \<Rightarrow> ObjectId option) option" where
  "getStock objects oid = (case objects oid of Some (ObjStock stock) \<Rightarrow> Some stock | _ \<Rightarrow> None)"

definition getLayer :: "'o ObjectsContainer \<Rightarrow> ObjectId \<Rightarrow> LayerObj option" where
  "getLayer objects oid = (case objects oid of Some (ObjLayer layer) \<Rightarrow> Some layer | _ \<Rightarrow> None)"

definition getLayerImage :: "'o ObjectsContainer \<Rightarrow> ObjectId \<Rightarrow> LayerObj option" where
  "getLayerImage objects oid =
     (case getLayer objects oid of
        Some layer \<Rightarrow>
          (case layer_tree layer of
             LayerImage layer_id name flags sprite_id cels \<Rightarrow> Some layer
           | LayerFolder layer_id name flags sprite_id layers \<Rightarrow> None)
      | None \<Rightarrow> None)"

definition getLayerFolder :: "'o ObjectsContainer \<Rightarrow> ObjectId \<Rightarrow> LayerObj option" where
  "getLayerFolder objects oid =
     (case getLayer objects oid of
        Some layer \<Rightarrow>
          (case layer_tree layer of
             LayerImage layer_id name flags sprite_id cels \<Rightarrow> None
           | LayerFolder layer_id name flags sprite_id layers \<Rightarrow> Some layer)
      | None \<Rightarrow> None)"

definition getCel :: "'o ObjectsContainer \<Rightarrow> ObjectId \<Rightarrow> Cel option" where
  "getCel objects oid = (case objects oid of Some (ObjCel cel) \<Rightarrow> Some cel | _ \<Rightarrow> None)"

definition getPalette :: "'o ObjectsContainer \<Rightarrow> ObjectId \<Rightarrow> Palette option" where
  "getPalette objects oid = (case objects oid of Some (ObjPalette palette) \<Rightarrow> Some palette | _ \<Rightarrow> None)"

definition getDocument :: "'o ObjectsContainer \<Rightarrow> ObjectId \<Rightarrow> Document option" where
  "getDocument objects oid =
     (case objects oid of Some (ObjDocument document) \<Rightarrow> Some document | _ \<Rightarrow> None)"

definition insertObject :: "ObjectId \<Rightarrow> 'o object \<Rightarrow> 'o ObjectsContainer \<Rightarrow> 'o ObjectsContainer" where
  "insertObject oid obj objects = objects(oid \<mapsto> obj)"

definition removeObject :: "ObjectId \<Rightarrow> 'o ObjectsContainer \<Rightarrow> 'o ObjectsContainer" where
  "removeObject oid objects = objects(oid := None)"

text \<open>
  \<^verbatim>\<open>addObject\<close> on a pointer that may be null: the id of the object, and zero, the id
  of no object, for the null pointer. The pointer that the lookup of an id gives: the id
  when the container holds a layer under it, null otherwise; the source does not look up
  the id zero.
\<close>

definition addObject :: "ObjectId option \<Rightarrow> ObjectId" where
  "addObject pointer = (case pointer of Some oid \<Rightarrow> oid | None \<Rightarrow> 0)"

definition layer_pointer :: "'o ObjectsContainer \<Rightarrow> ObjectId \<Rightarrow> ObjectId option" where
  "layer_pointer objects oid =
     (if oid \<noteq> 0 \<and> getLayer objects oid \<noteq> None then Some oid else None)"

text \<open>\<^verbatim>\<open>image_free\<close>, \<^verbatim>\<open>cel_free\<close> and \<^verbatim>\<open>delete\<close>: the object is gone.\<close>

definition free_object :: "ObjectId \<Rightarrow> 'o ObjectsContainer \<Rightarrow> 'o ObjectsContainer" where
  "free_object oid objects = objects(oid := None)"

text \<open>
  \<^verbatim>\<open>Stock::replaceImage\<close> and \<^verbatim>\<open>Stock::removeImage\<close> (section 6.1): the image at an
  index is replaced, by an image or by none; an image is taken out of every index that has
  it.
\<close>

definition Stock_replaceImage ::
  "ObjectId \<Rightarrow> int \<Rightarrow> ObjectId option \<Rightarrow> 'o ObjectsContainer \<Rightarrow> 'o ObjectsContainer" where
  "Stock_replaceImage stock_id index im objects =
     (case getStock objects stock_id of
        Some stock \<Rightarrow> objects(stock_id \<mapsto> ObjStock (stock(index := im)))
      | None \<Rightarrow> objects)"

definition Stock_removeImage ::
  "ObjectId \<Rightarrow> ObjectId \<Rightarrow> 'o ObjectsContainer \<Rightarrow> 'o ObjectsContainer" where
  "Stock_removeImage stock_id im objects =
     (case getStock objects stock_id of
        Some stock \<Rightarrow>
          objects(stock_id \<mapsto> ObjStock (\<lambda>index. if stock index = Some im then None else stock index))
      | None \<Rightarrow> objects)"

text \<open>
  The stock of a sprite as the writers of raw layer data use it,
  \<^verbatim>\<open>layer->getSprite()->getStock()->getImage(cel->image)\<close>: the image at an index with its
  id. A sprite or a stock that is gone has no image at any index.
\<close>

definition sprite_stock :: "'o ObjectsContainer \<Rightarrow> ObjectId \<Rightarrow> Stock" where
  "sprite_stock objects sprite_id = (\<lambda>index.
     case getSprite objects sprite_id of
       None \<Rightarrow> None
     | Some sprite \<Rightarrow>
         (case getStock objects (spr_stock sprite) of
            None \<Rightarrow> None
          | Some stock \<Rightarrow>
              (case stock index of
                 None \<Rightarrow> None
               | Some im \<Rightarrow>
                   (case getImage objects im of
                      None \<Rightarrow> None
                    | Some img \<Rightarrow> Some (im, img)))))"

definition layer_sprite :: "Layer \<Rightarrow> ObjectId" where
  "layer_sprite layer =
     (case layer of
        LayerImage layer_id name flags sprite_id cels \<Rightarrow> sprite_id
      | LayerFolder layer_id name flags sprite_id layers \<Rightarrow> sprite_id)"

definition layer_name :: "Layer \<Rightarrow> string" where
  "layer_name layer =
     (case layer of
        LayerImage layer_id name flags sprite_id cels \<Rightarrow> name
      | LayerFolder layer_id name flags sprite_id layers \<Rightarrow> name)"

text \<open>
  The objects that \<^verbatim>\<open>write_raw_layer\<close> detaches from the container
  (\<^verbatim>\<open>objects->removeObject\<close> at the end of \<^verbatim>\<open>write_raw_layer\<close>, \<^verbatim>\<open>write_raw_cel\<close> and
  \<^verbatim>\<open>write_raw_image\<close>): the layers of the tree, their cels and the images of the cels.
\<close>

fun raw_cels_objects :: "Stock \<Rightarrow> Cel list \<Rightarrow> ObjectId list" where
  "raw_cels_objects stock [] = []"
| "raw_cels_objects stock (cel # cels) =
     cel_id cel # (case stock (cel_image cel) of Some im \<Rightarrow> [fst im] | None \<Rightarrow> [])
     @ raw_cels_objects stock cels"

fun raw_layer_objects :: "Stock \<Rightarrow> Layer \<Rightarrow> ObjectId list"
  and raw_layers_objects :: "Stock \<Rightarrow> Layer list \<Rightarrow> ObjectId list" where
  "raw_layer_objects stock (LayerImage layer_id name flags sprite_id cels) =
     raw_cels_objects stock cels @ [layer_id]"
| "raw_layer_objects stock (LayerFolder layer_id name flags sprite_id layers) =
     raw_layers_objects stock layers @ [layer_id]"
| "raw_layers_objects stock [] = []"
| "raw_layers_objects stock (layer # layers) =
     raw_layer_objects stock layer @ raw_layers_objects stock layers"

text \<open>
  \<^verbatim>\<open>read_raw_image\<close> and \<^verbatim>\<open>read_raw_cel\<close>: the object read is attached to the id read
  with it; \<^verbatim>\<open>read_raw_image\<close> returns null for the id zero.
\<close>

definition read_raw_image ::
  "gfx_codes \<Rightarrow> byte list \<Rightarrow> 'o ObjectsContainer
     \<Rightarrow> undo_error + (ObjectId option \<times> 'o ObjectsContainer)" where
  "read_raw_image gfx raw_data objects =
     on_read (read_raw_uint32 raw_data) (\<lambda>image_id raw_data.
       if image_id = 0 then Inr (None, objects)
       else
         on_read (read_raw_uint8 raw_data) (\<lambda>code raw_data.
         on_read (read_raw_uint16 raw_data) (\<lambda>width raw_data.
         on_read (read_raw_uint16 raw_data) (\<lambda>height raw_data.
         on_read (read_raw_uint32 raw_data) (\<lambda>mask_color raw_data.
           case imgtype_of_code gfx code of
             None \<Rightarrow> Inl BadChunk
           | Some t \<Rightarrow>
               on_read (read_raw_lines (unat height) (bytes_per_pixel t * uint width) raw_data)
                 (\<lambda>lines raw_data.
                    Inr (Some image_id,
                         insertObject image_id
                           (ObjImage \<lparr>img_imgtype = t, img_w = uint width, img_h = uint height,
                              img_mask_color = mask_color, img_line = lines\<rparr>)
                           objects)))))))"

definition read_raw_cel ::
  "byte list \<Rightarrow> 'o ObjectsContainer \<Rightarrow> undo_error + (ObjectId \<times> 'o ObjectsContainer)" where
  "read_raw_cel raw_data objects =
     on_read (read_raw_uint32 raw_data) (\<lambda>cid raw_data.
     on_read (read_raw_uint16 raw_data) (\<lambda>frame raw_data.
     on_read (read_raw_uint16 raw_data) (\<lambda>image_index raw_data.
     on_read (read_raw_uint16 raw_data) (\<lambda>x raw_data.
     on_read (read_raw_uint16 raw_data) (\<lambda>y raw_data.
     on_read (read_raw_uint16 raw_data) (\<lambda>opacity raw_data.
       Inr (cid,
            insertObject cid
              (ObjCel \<lparr>cel_id = cid, cel_frame = uint frame, cel_image = uint image_index,
                 cel_x = sint x, cel_y = sint y, cel_opacity = uint opacity\<rparr>)
              objects)))))))"

text \<open>
  \<^verbatim>\<open>read_raw_layer\<close>. The head of a layer is its id, its name, its flags, its type and
  its sprite; the name goes to \<^verbatim>\<open>setName\<close> as a C string, which ends at the first zero.
  The sprite is the pointer that the lookup of its id gives, null for a sprite that is gone.
\<close>

definition layer_ident :: "Layer \<Rightarrow> ObjectId" where
  "layer_ident layer =
     (case layer of
        LayerImage layer_id name flags sprite_id cels \<Rightarrow> layer_id
      | LayerFolder layer_id name flags sprite_id layers \<Rightarrow> layer_id)"

definition read_layer_head ::
  "byte list \<Rightarrow> ((ObjectId \<times> string \<times> int \<times> 16 word \<times> ObjectId) \<times> byte list) option" where
  "read_layer_head raw_data =
     (case read_raw_uint32 raw_data of
        None \<Rightarrow> None
      | Some (layer_id, raw_data) \<Rightarrow>
     (case read_raw_uint16 raw_data of
        None \<Rightarrow> None
      | Some (name_length, raw_data) \<Rightarrow>
     (case (if 0 < uint name_length then read_raw_data (uint name_length) raw_data
            else Some ([], raw_data)) of
        None \<Rightarrow> None
      | Some (name, raw_data) \<Rightarrow>
     (case read_raw_uint8 raw_data of
        None \<Rightarrow> None
      | Some (flags, raw_data) \<Rightarrow>
     (case read_raw_uint16 raw_data of
        None \<Rightarrow> None
      | Some (layer_type, raw_data) \<Rightarrow>
     (case read_raw_uint32 raw_data of
        None \<Rightarrow> None
      | Some (sprite_id, raw_data) \<Rightarrow>
          Some ((layer_id,
                 takeWhile (\<lambda>c. c \<noteq> CHR 0x00) (map (\<lambda>b. char_of (unat b)) name),
                 uint flags, layer_type, sprite_id),
                raw_data)))))))"

definition sprite_pointer :: "'o ObjectsContainer \<Rightarrow> ObjectId \<Rightarrow> ObjectId option" where
  "sprite_pointer objects oid = (if getSprite objects oid \<noteq> None then Some oid else None)"

text \<open>
  The loop over the cels of an image layer: \<^verbatim>\<open>read_raw_cel\<close>, the byte \<^verbatim>\<open>has_image\<close>
  and, when it is not zero, \<^verbatim>\<open>read_raw_image\<close>, whose image (asserted to be there by
  \<^verbatim>\<open>get_raw_image_size\<close>) goes to the stock of the sprite at the index of the cel. The
  data go on after the 14 bytes of the cel and after the size of the image.

  Modelled from the spec: the layer that \<^verbatim>\<open>read_raw_layer\<close> builds with the constructors
  of \<^verbatim>\<open>LayerImage\<close> and \<^verbatim>\<open>LayerFolder\<close> (raster/layer.h, not among the sources) is
  the tree of section 6.1, an image layer with its cels or a folder with its children;
  \<^verbatim>\<open>addCel\<close> and \<^verbatim>\<open>add_layer\<close> on it put the cel or the child after those that the
  layer has, and the child has the folder as its parent and the child before it as its
  previous sibling.
\<close>

definition add_cel :: "Cel \<Rightarrow> 'e + (Cel list \<times> 's) \<Rightarrow> 'e + (Cel list \<times> 's)" where
  "add_cel cel r = (case r of Inl e \<Rightarrow> Inl e | Inr (cels, objects) \<Rightarrow> Inr (cel # cels, objects))"

fun read_raw_cels ::
  "gfx_codes \<Rightarrow> ObjectId option \<Rightarrow> nat \<Rightarrow> byte list \<Rightarrow> 'o ObjectsContainer
     \<Rightarrow> (undo_error \<times> 'o ObjectsContainer) + (Cel list \<times> 'o ObjectsContainer)" where
  "read_raw_cels gfx sprite 0 raw_data objects = Inr ([], objects)"
| "read_raw_cels gfx sprite (Suc c) raw_data objects =
     (case read_raw_cel raw_data objects of
        Inl e \<Rightarrow> Inl (e, objects)
      | Inr (cid, objects) \<Rightarrow>
          (case getCel objects cid of
             None \<Rightarrow> Inl (NullPointer, objects)
           | Some cel \<Rightarrow>
               (case read_raw_uint8 (drop (nat (get_raw_cel_size cel)) raw_data) of
                  None \<Rightarrow> Inl (BadChunk, objects)
                | Some (has_image, raw_data) \<Rightarrow>
                    if has_image \<noteq> 0 then
                      (case read_raw_image gfx raw_data objects of
                         Inl e \<Rightarrow> Inl (e, objects)
                       | Inr (None, objects) \<Rightarrow> Inl (AssertFailed, objects)
                       | Inr (Some im, objects) \<Rightarrow>
                           (case getImage objects im of
                              None \<Rightarrow> Inl (NullPointer, objects)
                            | Some img \<Rightarrow>
                                (case sprite of
                                   None \<Rightarrow> Inl (NullPointer, objects)
                                 | Some sprite_id \<Rightarrow>
                                     (case getSprite objects sprite_id of
                                        None \<Rightarrow> Inl (NullPointer, objects)
                                      | Some spr \<Rightarrow>
                                          (case getStock objects (spr_stock spr) of
                                             None \<Rightarrow> Inl (NullPointer, objects)
                                           | Some stock \<Rightarrow>
                                               add_cel cel
                                                 (read_raw_cels gfx sprite c
                                                    (drop (nat (get_raw_image_size img)) raw_data)
                                                    (Stock_replaceImage (spr_stock spr)
                                                       (cel_image cel) (Some im) objects)))))))
                    else add_cel cel (read_raw_cels gfx sprite c raw_data objects))))"

definition attach_layer ::
  "ObjectId \<Rightarrow> ObjectId option \<Rightarrow> ObjectId \<Rightarrow> 'o ObjectsContainer \<Rightarrow> 'o ObjectsContainer" where
  "attach_layer folder prev child objects =
     (case getLayer objects child of
        None \<Rightarrow> objects
      | Some l \<Rightarrow> objects(child \<mapsto> ObjLayer (l\<lparr>layer_parent := Some folder, layer_prev := prev\<rparr>)))"

text \<open>
  \<^verbatim>\<open>read_raw_layer\<close> and its loop over the children of a folder, which ends at a child
  of a type that is not known (\<^verbatim>\<open>read_raw_layer\<close> returns null for it) and goes on after
  \<^verbatim>\<open>get_raw_layer_size(child)\<close> bytes. The layer is attached to its id at the end. A
  reader ends with the layer and the live objects, or with an error and the live objects
  as they were at the error.
\<close>

lemma read_layer_head_shorter:
  assumes "read_layer_head raw_data = Some (head, rest)"
  shows "length rest < length raw_data"
proof -
  have r8: "length r < length d" if "read_raw_uint8 d = Some (x, r)" for d r and x :: byte
    using that by (auto simp: read_raw_uint8_def split: list.splits)
  have r16: "length r < length d" if "read_raw_uint16 d = Some (x, r)" for d r and x :: "16 word"
    using that by (auto simp: read_raw_uint16_def split: list.splits)
  have r32: "length r < length d" if "read_raw_uint32 d = Some (x, r)" for d r and x :: "32 word"
    using that by (auto simp: read_raw_uint32_def split: list.splits)
  have rd: "length r \<le> length d" if "read_raw_data sz d = Some (x, r)" for d r sz x
    using that by (auto simp: read_raw_data_def split: if_splits)
  show ?thesis
    using assms unfolding read_layer_head_def
    by (auto split: option.splits if_splits dest!: r8 r16 r32 rd)
qed

function read_raw_layer ::
  "gfx_codes \<Rightarrow> byte list \<Rightarrow> 'o ObjectsContainer
     \<Rightarrow> (undo_error \<times> 'o ObjectsContainer) + (Layer option \<times> 'o ObjectsContainer)"
  and read_raw_layers ::
  "gfx_codes \<Rightarrow> ObjectId \<Rightarrow> ObjectId option \<Rightarrow> nat \<Rightarrow> byte list \<Rightarrow> 'o ObjectsContainer
     \<Rightarrow> (undo_error \<times> 'o ObjectsContainer) + (Layer list \<times> 'o ObjectsContainer)" where
  "read_raw_layer gfx raw_data objects =
     (case read_layer_head raw_data of
        None \<Rightarrow> Inl (BadChunk, objects)
      | Some ((layer_id, name, flags, layer_type, sprite_id), rest) \<Rightarrow>
          (let sprite = sprite_pointer objects sprite_id
           in if layer_type = code_layer_image gfx then
                (case read_raw_uint16 rest of
                   None \<Rightarrow> Inl (BadChunk, objects)
                 | Some (cels, rest') \<Rightarrow>
                     (case read_raw_cels gfx sprite (unat cels) rest' objects of
                        Inl e \<Rightarrow> Inl e
                      | Inr (cs, objects') \<Rightarrow>
                          (let layer = LayerImage layer_id name flags (addObject sprite) cs
                           in Inr (Some layer,
                                   insertObject layer_id
                                     (ObjLayer \<lparr>layer_tree = layer, layer_parent = None,
                                        layer_prev = None\<rparr>)
                                     objects'))))
              else if layer_type = code_layer_folder gfx then
                (case read_raw_uint16 rest of
                   None \<Rightarrow> Inl (BadChunk, objects)
                 | Some (layers, rest') \<Rightarrow>
                     (case read_raw_layers gfx layer_id None (unat layers) rest' objects of
                        Inl e \<Rightarrow> Inl e
                      | Inr (children, objects') \<Rightarrow>
                          (let layer = LayerFolder layer_id name flags (addObject sprite) children
                           in Inr (Some layer,
                                   insertObject layer_id
                                     (ObjLayer \<lparr>layer_tree = layer, layer_parent = None,
                                        layer_prev = None\<rparr>)
                                     objects'))))
              else Inr (None, objects)))"
| "read_raw_layers gfx folder prev 0 raw_data objects = Inr ([], objects)"
| "read_raw_layers gfx folder prev (Suc c) raw_data objects =
     (case read_raw_layer gfx raw_data objects of
        Inl e \<Rightarrow> Inl e
      | Inr (None, objects') \<Rightarrow> Inr ([], objects')
      | Inr (Some child, objects') \<Rightarrow>
          (let objects' = attach_layer folder prev (layer_ident child) objects'
           in case get_raw_layer_size (sprite_stock objects' (layer_sprite child)) child of
                Inl e \<Rightarrow> Inl (e, objects')
              | Inr sz \<Rightarrow>
                  (case read_raw_layers gfx folder (Some (layer_ident child)) c
                          (drop (nat sz) raw_data) objects' of
                     Inl e \<Rightarrow> Inl e
                   | Inr (children, objects'') \<Rightarrow> Inr (child # children, objects''))))"
  by pat_completeness auto

termination
proof (relation "inv_image (less_than <*lex*> less_than)
    (\<lambda>x. case x of
       Inl (gfx, raw_data, objects) \<Rightarrow> (length raw_data, 0)
     | Inr (gfx, folder, prev, c, raw_data, objects) \<Rightarrow> (length raw_data, Suc c))", goal_cases)
  case 1
  show ?case by (intro wf_inv_image wf_lex_prod wf_less_than)
next
  case 2
  then show ?case
    by (auto simp: read_raw_uint16_def split: list.splits dest!: read_layer_head_shorter)
next
  case 3
  then show ?case by simp
next
  case 4
  then show ?case by (auto simp: le_less)
qed

declare read_raw_layer.simps [simp del]

text \<open>
  The methods of the live objects that are not among the sources and of which the
  specification gives the name only enter as the parameter \<open>env\<close>, each by the change it
  makes to the live objects: \<^verbatim>\<open>Sprite::remapImages\<close>, \<^verbatim>\<open>Sprite::deletePalette\<close>,
  \<^verbatim>\<open>Sprite::setPalette\<close>, \<^verbatim>\<open>LayerImage::addCel\<close>, \<^verbatim>\<open>LayerImage::removeCel\<close>,
  \<^verbatim>\<open>Layer::setName\<close>, \<^verbatim>\<open>LayerFolder::add_layer\<close>, \<^verbatim>\<open>LayerFolder::remove_layer\<close> and
  \<^verbatim>\<open>LayerFolder::move_layer\<close>. With them enter the bytes of a field of an object, given by
  the object, the offset of the field and its size (\<^verbatim>\<open>memcpy\<close> from the field), the
  write to such a field (\<^verbatim>\<open>memcpy\<close> to it), and the id that \<^verbatim>\<open>addObject\<close> gives to an
  object that the container does not hold yet.
\<close>

record 'o env =
  env_remapImages :: "ObjectId \<Rightarrow> int \<Rightarrow> int \<Rightarrow> int list \<Rightarrow> 'o ObjectsContainer \<Rightarrow> 'o ObjectsContainer"
  env_deletePalette :: "ObjectId \<Rightarrow> ObjectId \<Rightarrow> 'o ObjectsContainer \<Rightarrow> 'o ObjectsContainer"
  env_setPalette :: "ObjectId \<Rightarrow> Palette \<Rightarrow> bool \<Rightarrow> 'o ObjectsContainer \<Rightarrow> 'o ObjectsContainer"
  env_addCel :: "ObjectId \<Rightarrow> ObjectId \<Rightarrow> 'o ObjectsContainer \<Rightarrow> 'o ObjectsContainer"
  env_removeCel :: "ObjectId \<Rightarrow> ObjectId \<Rightarrow> 'o ObjectsContainer \<Rightarrow> 'o ObjectsContainer"
  env_setName :: "ObjectId \<Rightarrow> string \<Rightarrow> 'o ObjectsContainer \<Rightarrow> 'o ObjectsContainer"
  env_add_layer :: "ObjectId \<Rightarrow> ObjectId option \<Rightarrow> 'o ObjectsContainer \<Rightarrow> 'o ObjectsContainer"
  env_remove_layer :: "ObjectId \<Rightarrow> ObjectId \<Rightarrow> 'o ObjectsContainer \<Rightarrow> 'o ObjectsContainer"
  env_move_layer ::
    "ObjectId \<Rightarrow> ObjectId option \<Rightarrow> ObjectId option \<Rightarrow> 'o ObjectsContainer \<Rightarrow> 'o ObjectsContainer"
  env_field :: "'o ObjectsContainer \<Rightarrow> ObjectId \<Rightarrow> 32 word \<Rightarrow> int \<Rightarrow> byte list"
  env_set_field :: "ObjectId \<Rightarrow> 32 word \<Rightarrow> byte list \<Rightarrow> 'o ObjectsContainer \<Rightarrow> 'o ObjectsContainer"
  env_new_id :: "'o ObjectsContainer \<Rightarrow> ObjectId"

section \<open>Encoders and inverters\<close>

text \<open>
  An \<^verbatim>\<open>UndoStream*\<close> gives an encoder the stream it appends to, the objects
  (\<^verbatim>\<open>stream->getObjects()\<close>) and the label of the history
  (\<^verbatim>\<open>stream->getUndo()->getLabel()\<close>, null or a text). It ends with the stream and the
  objects as it leaves them, or with an error and the two as they were at the error.
\<close>

type_synonym 'o stream_ctx = "UndoStream \<times> 'o ObjectsContainer"
type_synonym 'o result = "(undo_error \<times> 'o stream_ctx) + 'o stream_ctx"
type_synonym 'o encoder = "string option \<Rightarrow> 'o stream_ctx \<Rightarrow> 'o result"
type_synonym 'o inverter = "string option \<Rightarrow> UndoChunk \<Rightarrow> 'o stream_ctx \<Rightarrow> 'o result"

text \<open>The names of \<^verbatim>\<open>undo_actions\<close> (\<^verbatim>\<open>DECL_UNDO_ACTION(name)\<close>).\<close>

definition undo_action_name :: "undo_type \<Rightarrow> string" where
  "undo_action_name t = (case t of
       UNDO_TYPE_OPEN \<Rightarrow> ''open''
     | UNDO_TYPE_CLOSE \<Rightarrow> ''close''
     | UNDO_TYPE_DATA \<Rightarrow> ''data''
     | UNDO_TYPE_IMAGE \<Rightarrow> ''image''
     | UNDO_TYPE_FLIP \<Rightarrow> ''flip''
     | UNDO_TYPE_DIRTY \<Rightarrow> ''dirty''
     | UNDO_TYPE_ADD_IMAGE \<Rightarrow> ''add_image''
     | UNDO_TYPE_REMOVE_IMAGE \<Rightarrow> ''remove_image''
     | UNDO_TYPE_REPLACE_IMAGE \<Rightarrow> ''replace_image''
     | UNDO_TYPE_ADD_CEL \<Rightarrow> ''add_cel''
     | UNDO_TYPE_REMOVE_CEL \<Rightarrow> ''remove_cel''
     | UNDO_TYPE_SET_LAYER_NAME \<Rightarrow> ''set_layer_name''
     | UNDO_TYPE_ADD_LAYER \<Rightarrow> ''add_layer''
     | UNDO_TYPE_REMOVE_LAYER \<Rightarrow> ''remove_layer''
     | UNDO_TYPE_MOVE_LAYER \<Rightarrow> ''move_layer''
     | UNDO_TYPE_SET_LAYER \<Rightarrow> ''set_layer''
     | UNDO_TYPE_ADD_PALETTE \<Rightarrow> ''add_palette''
     | UNDO_TYPE_REMOVE_PALETTE \<Rightarrow> ''remove_palette''
     | UNDO_TYPE_SET_PALETTE_COLORS \<Rightarrow> ''set_palette_colors''
     | UNDO_TYPE_REMAP_PALETTE \<Rightarrow> ''remap_palette''
     | UNDO_TYPE_SET_MASK \<Rightarrow> ''set_mask''
     | UNDO_TYPE_SET_IMGTYPE \<Rightarrow> ''set_imgtype''
     | UNDO_TYPE_SET_SIZE \<Rightarrow> ''set_size''
     | UNDO_TYPE_SET_FRAME \<Rightarrow> ''set_frame''
     | UNDO_TYPE_SET_FRAMES \<Rightarrow> ''set_frames''
     | UNDO_TYPE_SET_FRLEN \<Rightarrow> ''set_frlen'')"

text \<open>
  The \<^verbatim>\<open>sizeof\<close> of the chunk structs, for a build with 4-byte \<^verbatim>\<open>int\<close>, 8-byte
  pointers and natural alignment. The results below use of them only that a chunk struct
  is not smaller than its head.
\<close>

definition sizeof_UndoChunk :: int where "sizeof_UndoChunk = 16"
definition sizeof_UndoChunkData :: int where "sizeof_UndoChunkData = 32"
definition sizeof_UndoChunkImage :: int where "sizeof_UndoChunkImage = 32"
definition sizeof_UndoChunkFlip :: int where "sizeof_UndoChunkFlip = 32"
definition sizeof_UndoChunkDirty :: int where "sizeof_UndoChunkDirty = 24"
definition sizeof_UndoChunkAddImage :: int where "sizeof_UndoChunkAddImage = 24"
definition sizeof_UndoChunkRemoveImage :: int where "sizeof_UndoChunkRemoveImage = 24"
definition sizeof_UndoChunkReplaceImage :: int where "sizeof_UndoChunkReplaceImage = 24"
definition sizeof_UndoChunkAddCel :: int where "sizeof_UndoChunkAddCel = 24"
definition sizeof_UndoChunkRemoveCel :: int where "sizeof_UndoChunkRemoveCel = 24"
definition sizeof_UndoChunkSetLayerName :: int where "sizeof_UndoChunkSetLayerName = 24"
definition sizeof_UndoChunkAddLayer :: int where "sizeof_UndoChunkAddLayer = 24"
definition sizeof_UndoChunkRemoveLayer :: int where "sizeof_UndoChunkRemoveLayer = 24"
definition sizeof_UndoChunkMoveLayer :: int where "sizeof_UndoChunkMoveLayer = 32"
definition sizeof_UndoChunkSetLayer :: int where "sizeof_UndoChunkSetLayer = 24"
definition sizeof_UndoChunkAddPalette :: int where "sizeof_UndoChunkAddPalette = 24"
definition sizeof_UndoChunkRemovePalette :: int where "sizeof_UndoChunkRemovePalette = 24"
definition sizeof_UndoChunkSetPaletteColors :: int where "sizeof_UndoChunkSetPaletteColors = 32"
definition sizeof_UndoChunkRemapPalette :: int where "sizeof_UndoChunkRemapPalette = 288"
definition sizeof_UndoChunkSetMask :: int where "sizeof_UndoChunkSetMask = 24"
definition sizeof_UndoChunkSetImgType :: int where "sizeof_UndoChunkSetImgType = 24"
definition sizeof_UndoChunkSetSize :: int where "sizeof_UndoChunkSetSize = 32"
definition sizeof_UndoChunkSetFrame :: int where "sizeof_UndoChunkSetFrame = 24"
definition sizeof_UndoChunkSetFrames :: int where "sizeof_UndoChunkSetFrames = 24"
definition sizeof_UndoChunkSetFrlen :: int where "sizeof_UndoChunkSetFrlen = 32"

text \<open>
  \<^verbatim>\<open>undo_chunk_new\<close>: the new chunk gets its type, its size and the label of the history
  (the name of the action when there is none) and is pushed; the caller then fills the
  tail, given here as \<open>tail\<close>. The allocation is taken to succeed.
\<close>

definition undo_chunk_new ::
  "string option \<Rightarrow> undo_type \<Rightarrow> int \<Rightarrow> chunk_data \<Rightarrow> 'o stream_ctx \<Rightarrow> 'o result" where
  "undo_chunk_new label t sz tail ctx =
     (if \<not> sz \<ge> sizeof_UndoChunk then Inl (AssertFailed, ctx)
      else
        (let chunk = \<lparr>chunk_type = t, chunk_size = sz,
               chunk_label = (case label of Some l \<Rightarrow> l | None \<Rightarrow> undo_action_name t),
               chunk_data = tail\<rparr>
         in Inr (pushChunk chunk (fst ctx), snd ctx)))"

definition chunk_open_new :: "'o encoder" where
  "chunk_open_new label ctx = undo_chunk_new label UNDO_TYPE_OPEN sizeof_UndoChunk NoData ctx"

definition chunk_close_new :: "'o encoder" where
  "chunk_close_new label ctx = undo_chunk_new label UNDO_TYPE_CLOSE sizeof_UndoChunk NoData ctx"

definition chunk_open_invert :: "'o inverter" where
  "chunk_open_invert label chunk ctx = chunk_close_new label ctx"

definition chunk_close_invert :: "'o inverter" where
  "chunk_close_invert label chunk ctx = chunk_open_new label ctx"

text \<open>
  An encoder that has pushed its chunk and then stops, on a null pointer or on a failed
  assertion, before it has filled the tail: the chunk is on the stream with an empty tail.
  And a call followed by a change of the live objects, made when the call has returned.
\<close>

definition stopped :: "undo_error \<Rightarrow> 'o result \<Rightarrow> 'o result" where
  "stopped e r = (case r of Inl x \<Rightarrow> Inl x | Inr ctx \<Rightarrow> Inl (e, ctx))"

definition and_then ::
  "'o result \<Rightarrow> ('o ObjectsContainer \<Rightarrow> 'o ObjectsContainer) \<Rightarrow> 'o result" where
  "and_then r f = (case r of Inl x \<Rightarrow> Inl x | Inr (stream, objects) \<Rightarrow> Inr (stream, f objects))"

text \<open>
  \<^verbatim>\<open>chunk_data_new\<close> and \<^verbatim>\<open>chunk_data_invert\<close>. The field is given by its offset in
  the object. The inverter uses the object without a test.
\<close>

definition chunk_data_new :: "'o env \<Rightarrow> ObjectId \<Rightarrow> 32 word \<Rightarrow> int \<Rightarrow> 'o encoder" where
  "chunk_data_new env object fieldOffset fieldSize label ctx =
     (if \<not> fieldSize \<ge> 1 then Inl (AssertFailed, ctx)
      else
        (case snd ctx object of
           None \<Rightarrow>
             stopped NullPointer
               (undo_chunk_new label UNDO_TYPE_DATA (sizeof_UndoChunkData + fieldSize) NoData ctx)
         | Some obj \<Rightarrow>
             undo_chunk_new label UNDO_TYPE_DATA (sizeof_UndoChunkData + fieldSize)
               (DataData object fieldOffset (word_of_int fieldSize)
                  (env_field env (snd ctx) object fieldOffset fieldSize))
               ctx))"

definition chunk_data_invert :: "'o env \<Rightarrow> 'o inverter" where
  "chunk_data_invert env label chunk ctx =
     (case chunk_data chunk of
        DataData oid fieldOffset fieldSize fieldData \<Rightarrow>
          and_then (chunk_data_new env oid fieldOffset (sint fieldSize) label ctx)
            (env_set_field env oid fieldOffset (take (unat fieldSize) fieldData))
      | _ \<Rightarrow> Inl (BadChunk, ctx))"

text \<open>
  The rows of a rectangle of an image, as the loop of \<^verbatim>\<open>chunk_image_new\<close> reads them:
  \<^verbatim>\<open>for (v=0; v<h; ++v) memcpy(ptr, image_address(image, x, y+v), size)\<close>.
\<close>

definition image_rect :: "Image \<Rightarrow> int \<Rightarrow> int \<Rightarrow> int \<Rightarrow> int \<Rightarrow> byte list list" where
  "image_rect img x y w h =
     map (\<lambda>v. image_read img x (y + int v) (image_line_size img w)) [0..<nat h]"

text \<open>
  \<^verbatim>\<open>chunk_image_new\<close>. The rows of the rectangle are copied one after the other into
  the tail.
\<close>

definition chunk_image_new ::
  "ObjectId \<Rightarrow> int \<Rightarrow> int \<Rightarrow> int \<Rightarrow> int \<Rightarrow> 'o encoder" where
  "chunk_image_new image_id x y w h label ctx =
     (if \<not> (w \<ge> 1 \<and> h \<ge> 1) then Inl (AssertFailed, ctx)
      else
        (case getImage (snd ctx) image_id of
           None \<Rightarrow> Inl (NullPointer, ctx)
         | Some img \<Rightarrow>
             if \<not> (x \<ge> 0 \<and> y \<ge> 0 \<and> x + w \<le> img_w img \<and> y + h \<le> img_h img)
             then Inl (AssertFailed, ctx)
             else
               (let sz = image_line_size img w
                in undo_chunk_new label UNDO_TYPE_IMAGE (sizeof_UndoChunkImage + sz * h)
                     (ImageData image_id (img_imgtype img)
                        (word_of_int x) (word_of_int y) (word_of_int w) (word_of_int h)
                        (concat (image_rect img x y w h)))
                     ctx)))"

text \<open>
  The rows stored in the tail of an IMAGE chunk, \<open>sz\<close> bytes each, and the loop of
  \<^verbatim>\<open>chunk_image_invert\<close> that copies them back:
  \<^verbatim>\<open>for (v=0; v<h; ++v) { memcpy(image_address(image, x, y+v), ptr, size); ptr += size; }\<close>.
\<close>

definition chunk_row :: "byte list \<Rightarrow> int \<Rightarrow> nat \<Rightarrow> byte list" where
  "chunk_row bytes sz v = take (nat sz) (drop (v * nat sz) bytes)"

definition image_restore :: "Image \<Rightarrow> int \<Rightarrow> int \<Rightarrow> int \<Rightarrow> int \<Rightarrow> byte list \<Rightarrow> Image" where
  "image_restore img x y w h bytes =
     (let sz = image_line_size img w
      in fold (\<lambda>v img. image_write img x (y + int v) (chunk_row bytes sz v)) [0..<nat h] img)"

definition chunk_image_invert :: "'o inverter" where
  "chunk_image_invert label chunk ctx =
     (case chunk_data chunk of
        ImageData oid imgtype cx cy cw ch bytes \<Rightarrow>
          (case getImage (snd ctx) oid of
             None \<Rightarrow> Inl (NullPointer, ctx)
           | Some img \<Rightarrow>
               if img_imgtype img \<noteq> imgtype
               then Inl (UndoException ''Image type does not match'', ctx)
               else
                 (let x = uint cx; y = uint cy; w = uint cw; h = uint ch
                  in case chunk_image_new oid x y w h label ctx of
                       Inl e \<Rightarrow> Inl e
                     | Inr (stream, objects) \<Rightarrow>
                         Inr (stream,
                              objects(oid \<mapsto> ObjImage (image_restore img x y w h bytes)))))
      | _ \<Rightarrow> Inl (BadChunk, ctx))"

text \<open>
  \<^verbatim>\<open>chunk_flip_new\<close> and \<^verbatim>\<open>chunk_flip_invert\<close>, which skips an image that is gone or
  that has another type. \<^verbatim>\<open>image_crop\<close> gives the rectangle as an image of its own, and
  the two loops put each of its pixels back, mirrored (\<^verbatim>\<open>image_getpixel\<close>,
  \<^verbatim>\<open>image_putpixel\<close>: the bytes of one pixel).
\<close>

definition chunk_flip_new ::
  "ObjectId \<Rightarrow> int \<Rightarrow> int \<Rightarrow> int \<Rightarrow> int \<Rightarrow> bool \<Rightarrow> 'o encoder" where
  "chunk_flip_new im x1 y1 x2 y2 horz label ctx =
     (case getImage (snd ctx) im of
        None \<Rightarrow>
          stopped NullPointer (undo_chunk_new label UNDO_TYPE_FLIP sizeof_UndoChunkFlip NoData ctx)
      | Some img \<Rightarrow>
          undo_chunk_new label UNDO_TYPE_FLIP sizeof_UndoChunkFlip
            (FlipData im (img_imgtype img) (word_of_int x1) (word_of_int y1)
               (word_of_int x2) (word_of_int y2) (if horz then 1 else 0))
            ctx)"

definition image_flip :: "Image \<Rightarrow> int \<Rightarrow> int \<Rightarrow> int \<Rightarrow> int \<Rightarrow> bool \<Rightarrow> Image" where
  "image_flip img x1 y1 x2 y2 horz =
     (let area = image_rect img x1 y1 (x2 - x1 + 1) (y2 - y1 + 1);
          bpp = nat (bytes_per_pixel (img_imgtype img))
      in fold (\<lambda>y img'.
           fold (\<lambda>x img''.
                  image_write img''
                    (if horz then x2 - int x else x1 + int x)
                    (if \<not> horz then y2 - int y else y1 + int y)
                    (take bpp (drop (x * bpp) (area ! y))))
             [0..<nat (x2 - x1 + 1)] img')
           [0..<nat (y2 - y1 + 1)] img)"

definition chunk_flip_invert :: "'o inverter" where
  "chunk_flip_invert label chunk ctx =
     (case chunk_data chunk of
        FlipData oid t cx1 cy1 cx2 cy2 chorz \<Rightarrow>
          (case getImage (snd ctx) oid of
             Some img \<Rightarrow>
               if img_imgtype img = t then
                 and_then (chunk_flip_new oid (uint cx1) (uint cy1) (uint cx2) (uint cy2)
                             (chorz \<noteq> 0) label ctx)
                   (\<lambda>objects. objects(oid \<mapsto> ObjImage
                      (image_flip img (uint cx1) (uint cy1) (uint cx2) (uint cy2) (chorz \<noteq> 0))))
               else Inr ctx
           | None \<Rightarrow> Inr ctx)
      | _ \<Rightarrow> Inl (BadChunk, ctx))"

text \<open>
  \<^verbatim>\<open>chunk_dirty_new\<close> and \<^verbatim>\<open>chunk_dirty_invert\<close>, which skips an image that is gone.
  The pixels are swapped before the new chunk is made of the dirty.
\<close>

definition chunk_dirty_new :: "gfx_codes \<Rightarrow> ObjectId \<Rightarrow> Dirty \<Rightarrow> 'o encoder" where
  "chunk_dirty_new gfx im dirty label ctx =
     undo_chunk_new label UNDO_TYPE_DIRTY (sizeof_UndoChunkDirty + get_raw_dirty_size dirty)
       (DirtyData im (write_raw_dirty gfx dirty)) ctx"

definition chunk_dirty_invert :: "gfx_codes \<Rightarrow> 'o inverter" where
  "chunk_dirty_invert gfx label chunk ctx =
     (case chunk_data chunk of
        DirtyData oid raw_data \<Rightarrow>
          (case getImage (snd ctx) oid of
             Some img \<Rightarrow>
               (case read_raw_dirty gfx raw_data of
                  Inl e \<Rightarrow> Inl (e, ctx)
                | Inr dirty \<Rightarrow>
                    (case Dirty_swapImagePixels dirty img of
                       (dirty', img') \<Rightarrow>
                         chunk_dirty_new gfx oid dirty' label
                           (fst ctx, (snd ctx)(oid \<mapsto> ObjImage img'))))
           | None \<Rightarrow> Inr ctx)
      | _ \<Rightarrow> Inl (BadChunk, ctx))"

text \<open>
  The encoders and the inverters of ADD_IMAGE, REMOVE_IMAGE and REPLACE_IMAGE. The
  inverters skip a stock that is gone, and that of ADD_IMAGE an index without image.
  \<^verbatim>\<open>chunk_remove_image_new\<close> and \<^verbatim>\<open>chunk_replace_image_new\<close> use the stock and its image
  (\<^verbatim>\<open>get_raw_image_size\<close> asserts that there is one) before they push the chunk, and
  \<^verbatim>\<open>write_raw_image\<close> detaches the image that it has written.
\<close>

definition chunk_add_image_new :: "ObjectId \<Rightarrow> int \<Rightarrow> 'o encoder" where
  "chunk_add_image_new stock image_index label ctx =
     undo_chunk_new label UNDO_TYPE_ADD_IMAGE sizeof_UndoChunkAddImage
       (AddImageData stock (word_of_int image_index)) ctx"

definition chunk_remove_image_new :: "gfx_codes \<Rightarrow> ObjectId \<Rightarrow> int \<Rightarrow> 'o encoder" where
  "chunk_remove_image_new gfx stock image_index label ctx =
     (case getStock (snd ctx) stock of
        None \<Rightarrow> Inl (NullPointer, ctx)
      | Some images \<Rightarrow>
          (case images image_index of
             None \<Rightarrow> Inl (AssertFailed, ctx)
           | Some im \<Rightarrow>
               (case getImage (snd ctx) im of
                  None \<Rightarrow> Inl (NullPointer, ctx)
                | Some img \<Rightarrow>
                    and_then
                      (undo_chunk_new label UNDO_TYPE_REMOVE_IMAGE
                         (sizeof_UndoChunkRemoveImage + get_raw_image_size img)
                         (RemoveImageData stock (word_of_int image_index)
                            (write_raw_image gfx (im, img)))
                         ctx)
                      (removeObject im))))"

definition chunk_replace_image_new :: "gfx_codes \<Rightarrow> ObjectId \<Rightarrow> int \<Rightarrow> 'o encoder" where
  "chunk_replace_image_new gfx stock image_index label ctx =
     (case getStock (snd ctx) stock of
        None \<Rightarrow> Inl (NullPointer, ctx)
      | Some images \<Rightarrow>
          (case images image_index of
             None \<Rightarrow> Inl (AssertFailed, ctx)
           | Some im \<Rightarrow>
               (case getImage (snd ctx) im of
                  None \<Rightarrow> Inl (NullPointer, ctx)
                | Some img \<Rightarrow>
                    and_then
                      (undo_chunk_new label UNDO_TYPE_REPLACE_IMAGE
                         (sizeof_UndoChunkReplaceImage + get_raw_image_size img)
                         (ReplaceImageData stock (word_of_int image_index)
                            (write_raw_image gfx (im, img)))
                         ctx)
                      (removeObject im))))"

definition chunk_add_image_invert :: "gfx_codes \<Rightarrow> 'o inverter" where
  "chunk_add_image_invert gfx label chunk ctx =
     (case chunk_data chunk of
        AddImageData stock_id image_index \<Rightarrow>
          (case getStock (snd ctx) stock_id of
             Some images \<Rightarrow>
               (case images (sint image_index) of
                  Some im \<Rightarrow>
                    and_then (chunk_remove_image_new gfx stock_id (sint image_index) label ctx)
                      (\<lambda>objects. free_object im (Stock_removeImage stock_id im objects))
                | None \<Rightarrow> Inr ctx)
           | None \<Rightarrow> Inr ctx)
      | _ \<Rightarrow> Inl (BadChunk, ctx))"

definition chunk_remove_image_invert :: "gfx_codes \<Rightarrow> 'o inverter" where
  "chunk_remove_image_invert gfx label chunk ctx =
     (case chunk_data chunk of
        RemoveImageData stock_id image_index raw_data \<Rightarrow>
          (case getStock (snd ctx) stock_id of
             Some images \<Rightarrow>
               (case read_raw_image gfx raw_data (snd ctx) of
                  Inl e \<Rightarrow> Inl (e, ctx)
                | Inr (im, objects) \<Rightarrow>
                    chunk_add_image_new stock_id (sint image_index) label
                      (fst ctx, Stock_replaceImage stock_id (sint image_index) im objects))
           | None \<Rightarrow> Inr ctx)
      | _ \<Rightarrow> Inl (BadChunk, ctx))"

definition chunk_replace_image_invert :: "gfx_codes \<Rightarrow> 'o inverter" where
  "chunk_replace_image_invert gfx label chunk ctx =
     (case chunk_data chunk of
        ReplaceImageData stock_id image_index raw_data \<Rightarrow>
          (case getStock (snd ctx) stock_id of
             Some images \<Rightarrow>
               (case read_raw_image gfx raw_data (snd ctx) of
                  Inl e \<Rightarrow> Inl (e, ctx)
                | Inr (im, objects) \<Rightarrow>
                    and_then
                      (chunk_replace_image_new gfx stock_id (sint image_index) label
                         (fst ctx, objects))
                      (\<lambda>objects'.
                         (case images (sint image_index) of
                            Some old_image \<Rightarrow> free_object old_image
                          | None \<Rightarrow> (\<lambda>objects''. objects''))
                           (Stock_replaceImage stock_id (sint image_index) im objects')))
           | None \<Rightarrow> Inr ctx)
      | _ \<Rightarrow> Inl (BadChunk, ctx))"

text \<open>
  The encoders and the inverters of ADD_CEL and REMOVE_CEL. The inverters use the layer
  and the cel without a test. \<^verbatim>\<open>write_raw_cel\<close> detaches the cel that it has written.
\<close>

definition chunk_add_cel_new :: "ObjectId \<Rightarrow> ObjectId \<Rightarrow> 'o encoder" where
  "chunk_add_cel_new layer cel label ctx =
     undo_chunk_new label UNDO_TYPE_ADD_CEL sizeof_UndoChunkAddCel (AddCelData layer cel) ctx"

definition chunk_remove_cel_new :: "ObjectId \<Rightarrow> ObjectId \<Rightarrow> 'o encoder" where
  "chunk_remove_cel_new layer cel label ctx =
     (case getCel (snd ctx) cel of
        None \<Rightarrow>
          stopped NullPointer
            (undo_chunk_new label UNDO_TYPE_REMOVE_CEL (sizeof_UndoChunkRemoveCel + (4 + 2 * 5))
               NoData ctx)
      | Some c \<Rightarrow>
          and_then
            (undo_chunk_new label UNDO_TYPE_REMOVE_CEL
               (sizeof_UndoChunkRemoveCel + get_raw_cel_size c)
               (RemoveCelData layer (write_raw_cel c)) ctx)
            (removeObject (cel_id c)))"

definition chunk_add_cel_invert :: "'o env \<Rightarrow> 'o inverter" where
  "chunk_add_cel_invert env label chunk ctx =
     (case chunk_data chunk of
        AddCelData layer_id cid \<Rightarrow>
          (case chunk_remove_cel_new layer_id cid label ctx of
             Inl e \<Rightarrow> Inl e
           | Inr (stream, objects) \<Rightarrow>
               (case getLayerImage (snd ctx) layer_id of
                  None \<Rightarrow> Inl (NullPointer, (stream, objects))
                | Some layer \<Rightarrow>
                    Inr (stream, free_object cid (env_removeCel env layer_id cid objects))))
      | _ \<Rightarrow> Inl (BadChunk, ctx))"

definition chunk_remove_cel_invert :: "'o env \<Rightarrow> 'o inverter" where
  "chunk_remove_cel_invert env label chunk ctx =
     (case chunk_data chunk of
        RemoveCelData layer_id raw_data \<Rightarrow>
          (case read_raw_cel raw_data (snd ctx) of
             Inl e \<Rightarrow> Inl (e, ctx)
           | Inr (cel, objects) \<Rightarrow>
               (case chunk_add_cel_new layer_id cel label (fst ctx, objects) of
                  Inl e \<Rightarrow> Inl e
                | Inr (stream, objects') \<Rightarrow>
                    (case getLayerImage (snd ctx) layer_id of
                       None \<Rightarrow> Inl (NullPointer, (stream, objects'))
                     | Some layer \<Rightarrow> Inr (stream, env_addCel env layer_id cel objects'))))
      | _ \<Rightarrow> Inl (BadChunk, ctx))"

text \<open>
  \<^verbatim>\<open>chunk_set_layer_name_new\<close> and its inverter, which skips a layer that is gone. The
  length of the name is stored in 16 bits and as many characters are stored; the inverter
  gives the stored characters to \<^verbatim>\<open>setName\<close> as a C string, which ends at the first
  zero.
\<close>

definition chunk_set_layer_name_new :: "ObjectId \<Rightarrow> 'o encoder" where
  "chunk_set_layer_name_new layer label ctx =
     (case getLayer (snd ctx) layer of
        None \<Rightarrow> Inl (NullPointer, ctx)
      | Some l \<Rightarrow>
          (let name = layer_name (layer_tree l);
               name_length = (of_nat (length name) :: 16 word)
           in undo_chunk_new label UNDO_TYPE_SET_LAYER_NAME
                (sizeof_UndoChunkSetLayerName + int (length name))
                (SetLayerNameData layer name_length
                   (map (\<lambda>c. of_nat (of_char c)) (take (unat name_length) name)))
                ctx))"

definition chunk_set_layer_name_invert :: "'o env \<Rightarrow> 'o inverter" where
  "chunk_set_layer_name_invert env label chunk ctx =
     (case chunk_data chunk of
        SetLayerNameData layer_id name_length name_text \<Rightarrow>
          (case getLayer (snd ctx) layer_id of
             Some layer \<Rightarrow>
               and_then (chunk_set_layer_name_new layer_id label ctx)
                 (env_setName env layer_id
                    (takeWhile (\<lambda>c. c \<noteq> CHR 0x00)
                       (map (\<lambda>b. char_of (unat b)) (take (unat name_length) name_text))))
           | None \<Rightarrow> Inr ctx)
      | _ \<Rightarrow> Inl (BadChunk, ctx))"

text \<open>
  The encoders and the inverters of ADD_LAYER, REMOVE_LAYER, MOVE_LAYER and SET_LAYER. The
  inverters use the folder, the layer and the sprite without a test.
  \<^verbatim>\<open>chunk_remove_layer_new\<close> takes the size of the raw data of the layer before it pushes
  the chunk, and \<^verbatim>\<open>write_raw_layer\<close> detaches what it has written;
  \<^verbatim>\<open>chunk_move_layer_new\<close> and \<^verbatim>\<open>chunk_set_layer_new\<close> push the chunk first.
\<close>

definition chunk_add_layer_new :: "ObjectId \<Rightarrow> ObjectId option \<Rightarrow> 'o encoder" where
  "chunk_add_layer_new folder layer label ctx =
     undo_chunk_new label UNDO_TYPE_ADD_LAYER sizeof_UndoChunkAddLayer
       (AddLayerData folder (addObject layer)) ctx"

definition chunk_remove_layer_new :: "gfx_codes \<Rightarrow> ObjectId \<Rightarrow> 'o encoder" where
  "chunk_remove_layer_new gfx layer label ctx =
     (case getLayer (snd ctx) layer of
        None \<Rightarrow> Inl (NullPointer, ctx)
      | Some l \<Rightarrow>
          (let stock = sprite_stock (snd ctx) (layer_sprite (layer_tree l))
           in case get_raw_layer_size stock (layer_tree l) of
                Inl e \<Rightarrow> Inl (e, ctx)
              | Inr sz \<Rightarrow>
                  (case write_raw_layer gfx stock (layer_tree l) of
                     Inl e \<Rightarrow>
                       stopped e
                         (undo_chunk_new label UNDO_TYPE_REMOVE_LAYER
                            (sizeof_UndoChunkRemoveLayer + sz) NoData ctx)
                   | Inr raw_data \<Rightarrow>
                       and_then
                         (undo_chunk_new label UNDO_TYPE_REMOVE_LAYER
                            (sizeof_UndoChunkRemoveLayer + sz)
                            (RemoveLayerData (addObject (layer_parent l)) (addObject (layer_prev l))
                               raw_data)
                            ctx)
                         (fold removeObject (raw_layer_objects stock (layer_tree l))))))"

definition chunk_move_layer_new :: "ObjectId \<Rightarrow> 'o encoder" where
  "chunk_move_layer_new layer label ctx =
     (case getLayer (snd ctx) layer of
        None \<Rightarrow>
          stopped NullPointer
            (undo_chunk_new label UNDO_TYPE_MOVE_LAYER sizeof_UndoChunkMoveLayer NoData ctx)
      | Some l \<Rightarrow>
          undo_chunk_new label UNDO_TYPE_MOVE_LAYER sizeof_UndoChunkMoveLayer
            (MoveLayerData (addObject (layer_parent l)) layer (addObject (layer_prev l))) ctx)"

definition chunk_set_layer_new :: "ObjectId \<Rightarrow> 'o encoder" where
  "chunk_set_layer_new sprite_id label ctx =
     (case getSprite (snd ctx) sprite_id of
        None \<Rightarrow>
          stopped NullPointer
            (undo_chunk_new label UNDO_TYPE_SET_LAYER sizeof_UndoChunkSetLayer NoData ctx)
      | Some sprite \<Rightarrow>
          undo_chunk_new label UNDO_TYPE_SET_LAYER sizeof_UndoChunkSetLayer
            (SetLayerData sprite_id (addObject (spr_layer sprite))) ctx)"

definition chunk_add_layer_invert :: "gfx_codes \<Rightarrow> 'o env \<Rightarrow> 'o inverter" where
  "chunk_add_layer_invert gfx env label chunk ctx =
     (case chunk_data chunk of
        AddLayerData folder_id layer_id \<Rightarrow>
          (case chunk_remove_layer_new gfx layer_id label ctx of
             Inl e \<Rightarrow> Inl e
           | Inr (stream, objects) \<Rightarrow>
               (case getLayerFolder (snd ctx) folder_id of
                  None \<Rightarrow> Inl (NullPointer, (stream, objects))
                | Some folder \<Rightarrow>
                    Inr (stream,
                         free_object layer_id (env_remove_layer env folder_id layer_id objects))))
      | _ \<Rightarrow> Inl (BadChunk, ctx))"

definition chunk_remove_layer_invert :: "gfx_codes \<Rightarrow> 'o env \<Rightarrow> 'o inverter" where
  "chunk_remove_layer_invert gfx env label chunk ctx =
     (case chunk_data chunk of
        RemoveLayerData folder_id after_id raw_data \<Rightarrow>
          (case read_raw_layer gfx raw_data (snd ctx) of
             Inl (e, objects) \<Rightarrow> Inl (e, (fst ctx, objects))
           | Inr (tree, objects) \<Rightarrow>
               (let layer = map_option layer_ident tree
                in case chunk_add_layer_new folder_id layer label (fst ctx, objects) of
                     Inl e \<Rightarrow> Inl e
                   | Inr (stream, objects') \<Rightarrow>
                       (case getLayerFolder (snd ctx) folder_id of
                          None \<Rightarrow> Inl (NullPointer, (stream, objects'))
                        | Some folder \<Rightarrow>
                            Inr (stream,
                                 env_move_layer env folder_id layer
                                   (layer_pointer objects after_id)
                                   (env_add_layer env folder_id layer objects')))))
      | _ \<Rightarrow> Inl (BadChunk, ctx))"

definition chunk_move_layer_invert :: "'o env \<Rightarrow> 'o inverter" where
  "chunk_move_layer_invert env label chunk ctx =
     (case chunk_data chunk of
        MoveLayerData folder_id layer_id after_id \<Rightarrow>
          (case chunk_move_layer_new layer_id label ctx of
             Inl e \<Rightarrow> Inl e
           | Inr (stream, objects) \<Rightarrow>
               (case getLayerFolder (snd ctx) folder_id of
                  None \<Rightarrow> Inl (NullPointer, (stream, objects))
                | Some folder \<Rightarrow>
                    Inr (stream,
                         env_move_layer env folder_id (Some layer_id)
                           (layer_pointer (snd ctx) after_id) objects)))
      | _ \<Rightarrow> Inl (BadChunk, ctx))"

definition chunk_set_layer_invert :: "'o inverter" where
  "chunk_set_layer_invert label chunk ctx =
     (case chunk_data chunk of
        SetLayerData sprite_id layer_id \<Rightarrow>
          (case chunk_set_layer_new sprite_id label ctx of
             Inl e \<Rightarrow> Inl e
           | Inr (stream, objects) \<Rightarrow>
               (case getSprite (snd ctx) sprite_id of
                  None \<Rightarrow> Inl (NullPointer, (stream, objects))
                | Some sprite \<Rightarrow>
                    Inr (stream,
                         objects(sprite_id \<mapsto> ObjSprite
                           (sprite\<lparr>spr_layer := layer_pointer (snd ctx) layer_id\<rparr>)))))
      | _ \<Rightarrow> Inl (BadChunk, ctx))"

text \<open>
  The encoders and the inverters of ADD_PALETTE, REMOVE_PALETTE and SET_PALETTE_COLORS.
  The inverters use the sprite and the palette without a test; that of SET_PALETTE_COLORS
  raises the exception of the source when the sprite has no palette at the stored frame.
  The palette that \<^verbatim>\<open>chunk_remove_palette_invert\<close> reads is not held by the container
  when \<^verbatim>\<open>chunk_add_palette_new\<close> asks for its id, and is deleted at the end. The loops over
  the entries from \<open>from\<close> to \<open>to\<close> use the palette only when there is an entry.
\<close>

definition chunk_add_palette_new :: "ObjectId \<Rightarrow> ObjectId \<Rightarrow> 'o encoder" where
  "chunk_add_palette_new sprite palette label ctx =
     undo_chunk_new label UNDO_TYPE_ADD_PALETTE sizeof_UndoChunkAddPalette
       (AddPaletteData sprite palette) ctx"

definition chunk_remove_palette_new :: "ObjectId \<Rightarrow> ObjectId \<Rightarrow> 'o encoder" where
  "chunk_remove_palette_new sprite palette label ctx =
     (case getPalette (snd ctx) palette of
        None \<Rightarrow> Inl (NullPointer, ctx)
      | Some p \<Rightarrow>
          undo_chunk_new label UNDO_TYPE_REMOVE_PALETTE
            (sizeof_UndoChunkRemovePalette + get_raw_palette_size p)
            (RemovePaletteData sprite (write_raw_palette p)) ctx)"

definition chunk_set_palette_colors_new ::
  "ObjectId \<Rightarrow> ObjectId \<Rightarrow> int \<Rightarrow> int \<Rightarrow> 'o encoder" where
  "chunk_set_palette_colors_new sprite_id palette from to label ctx =
     (case getSprite (snd ctx) sprite_id of
        None \<Rightarrow>
          stopped NullPointer
            (undo_chunk_new label UNDO_TYPE_SET_PALETTE_COLORS
               (sizeof_UndoChunkSetPaletteColors + 4 * (to - from + 1)) NoData ctx)
      | Some sprite \<Rightarrow>
          (case getPalette (snd ctx) palette of
             None \<Rightarrow>
               if from \<le> to then
                 stopped NullPointer
                   (undo_chunk_new label UNDO_TYPE_SET_PALETTE_COLORS
                      (sizeof_UndoChunkSetPaletteColors + 4 * (to - from + 1)) NoData ctx)
               else
                 undo_chunk_new label UNDO_TYPE_SET_PALETTE_COLORS
                   (sizeof_UndoChunkSetPaletteColors + 4 * (to - from + 1))
                   (SetPaletteColorsData sprite_id (word_of_int (spr_frame sprite))
                      (word_of_int from) (word_of_int to) [])
                   ctx
           | Some p \<Rightarrow>
               undo_chunk_new label UNDO_TYPE_SET_PALETTE_COLORS
                 (sizeof_UndoChunkSetPaletteColors + 4 * (to - from + 1))
                 (SetPaletteColorsData sprite_id (word_of_int (spr_frame sprite))
                    (word_of_int from) (word_of_int to)
                    (concat (map (\<lambda>i. write_raw_uint32 (pal_entry p i)) [from..to])))
                 ctx))"

definition chunk_add_palette_invert :: "'o env \<Rightarrow> 'o inverter" where
  "chunk_add_palette_invert env label chunk ctx =
     (case chunk_data chunk of
        AddPaletteData sprite_id palette_id \<Rightarrow>
          (case chunk_remove_palette_new sprite_id palette_id label ctx of
             Inl e \<Rightarrow> Inl e
           | Inr (stream, objects) \<Rightarrow>
               (case getSprite (snd ctx) sprite_id of
                  None \<Rightarrow> Inl (NullPointer, (stream, objects))
                | Some sprite \<Rightarrow> Inr (stream, env_deletePalette env sprite_id palette_id objects)))
      | _ \<Rightarrow> Inl (BadChunk, ctx))"

definition chunk_remove_palette_invert :: "'o env \<Rightarrow> 'o inverter" where
  "chunk_remove_palette_invert env label chunk ctx =
     (case chunk_data chunk of
        RemovePaletteData sprite_id raw_data \<Rightarrow>
          (case read_raw_palette raw_data of
             Inl e \<Rightarrow> Inl (e, ctx)
           | Inr palette \<Rightarrow>
               (case chunk_add_palette_new sprite_id (env_new_id env (snd ctx)) label ctx of
                  Inl e \<Rightarrow> Inl e
                | Inr (stream, objects) \<Rightarrow>
                    (case getSprite (snd ctx) sprite_id of
                       None \<Rightarrow> Inl (NullPointer, (stream, objects))
                     | Some sprite \<Rightarrow> Inr (stream, env_setPalette env sprite_id palette True objects))))
      | _ \<Rightarrow> Inl (BadChunk, ctx))"

definition chunk_set_palette_colors_invert :: "'o inverter" where
  "chunk_set_palette_colors_invert label chunk ctx =
     (case chunk_data chunk of
        SetPaletteColorsData sprite_id frame cfrom cto raw_data \<Rightarrow>
          (case getSprite (snd ctx) sprite_id of
             None \<Rightarrow> Inl (NullPointer, ctx)
           | Some sprite \<Rightarrow>
               (case spr_palettes sprite (sint frame) of
                  None \<Rightarrow>
                    Inl (UndoException ''chunk_set_palette_colors_invert: palette not found'', ctx)
                | Some palette \<Rightarrow>
                    (case chunk_set_palette_colors_new sprite_id palette (uint cfrom) (uint cto)
                            label ctx of
                       Inl e \<Rightarrow> Inl e
                     | Inr (stream, objects) \<Rightarrow>
                         (case getPalette (snd ctx) palette of
                            None \<Rightarrow>
                              if uint cfrom \<le> uint cto then Inl (NullPointer, (stream, objects))
                              else Inr (stream, objects)
                          | Some p \<Rightarrow>
                              (case read_palette_entries [uint cfrom..uint cto] raw_data p of
                                 None \<Rightarrow> Inl (BadChunk, (stream, objects))
                               | Some p' \<Rightarrow> Inr (stream, objects(palette \<mapsto> ObjPalette p')))))))
      | _ \<Rightarrow> Inl (BadChunk, ctx))"

text \<open>
  The table that \<^verbatim>\<open>chunk_remap_palette_new\<close> stores for a table of numbers:
  \<^verbatim>\<open>for (c=0; c<256; c++) chunk->mapping[c] = mapping[c]\<close>.
\<close>

definition stored_mapping :: "int list \<Rightarrow> byte list" where
  "stored_mapping mapping = map (\<lambda>c. word_of_int (mapping ! c)) [0..<256]"

text \<open>
  \<^verbatim>\<open>chunk_remap_palette_new\<close>: the chunk is pushed before the size of the table is
  asserted; the table of a pushed chunk is zero until it is filled.
\<close>

definition chunk_remap_palette_new ::
  "ObjectId \<Rightarrow> int \<Rightarrow> int \<Rightarrow> int list \<Rightarrow> 'o encoder" where
  "chunk_remap_palette_new sprite_id frame_from frame_to mapping label ctx =
     (if \<not> length mapping = 256 then
        (case undo_chunk_new label UNDO_TYPE_REMAP_PALETTE sizeof_UndoChunkRemapPalette
                (RemapPaletteData sprite_id (word_of_int frame_from) (word_of_int frame_to)
                   (replicate 256 0)) ctx of
           Inl e \<Rightarrow> Inl e
         | Inr ctx' \<Rightarrow> Inl (AssertFailed, ctx'))
      else
        undo_chunk_new label UNDO_TYPE_REMAP_PALETTE sizeof_UndoChunkRemapPalette
          (RemapPaletteData sprite_id (word_of_int frame_from) (word_of_int frame_to)
             (stored_mapping mapping)) ctx)"

text \<open>
  The loop \<^verbatim>\<open>for (c=0; c<256; ++c) inverse_mapping[chunk->mapping[c]] = c\<close> on the vector
  of 256 zeros.
\<close>

definition inverse_mapping :: "byte list \<Rightarrow> int list" where
  "inverse_mapping mapping =
     fold (\<lambda>c tbl. tbl[unat (mapping ! c) := int c]) [0..<256] (replicate 256 0)"

text \<open>
  \<^verbatim>\<open>chunk_remap_palette_invert\<close>. \<^verbatim>\<open>Sprite::remapImages\<close> is not among the sources: it
  enters as \<open>remapImages\<close>, which takes the sprite, the frames and the table and changes
  the live objects. The sprite is used without a test.
\<close>

definition chunk_remap_palette_invert ::
  "(ObjectId \<Rightarrow> int \<Rightarrow> int \<Rightarrow> int list \<Rightarrow> 'o ObjectsContainer \<Rightarrow> 'o ObjectsContainer)
     \<Rightarrow> 'o inverter" where
  "chunk_remap_palette_invert remapImages label chunk ctx =
     (case chunk_data chunk of
        RemapPaletteData oid frame_from frame_to mapping \<Rightarrow>
          if length mapping \<noteq> 256 then Inl (BadChunk, ctx)
          else
            (let inv_map = inverse_mapping mapping
             in case chunk_remap_palette_new oid (sint frame_from) (sint frame_to) inv_map label ctx of
                  Inl e \<Rightarrow> Inl e
                | Inr (stream, objects) \<Rightarrow>
                    (case getSprite objects oid of
                       None \<Rightarrow> Inl (NullPointer, (stream, objects))
                     | Some sprite \<Rightarrow>
                         Inr (stream,
                              remapImages oid (sint frame_from) (sint frame_to) inv_map objects)))
      | _ \<Rightarrow> Inl (BadChunk, ctx))"

text \<open>
  \<^verbatim>\<open>chunk_set_mask_new\<close> and its inverter, which asserts that the document is there
  (\<^verbatim>\<open>ASSERT(document != NULL); if (document != NULL) ...\<close>).
  \<^verbatim>\<open>mask_copy\<close> makes the mask of the document a copy of the mask read.
\<close>

definition chunk_set_mask_new :: "ObjectId \<Rightarrow> 'o encoder" where
  "chunk_set_mask_new document label ctx =
     (case getDocument (snd ctx) document of
        None \<Rightarrow> Inl (NullPointer, ctx)
      | Some doc \<Rightarrow>
          undo_chunk_new label UNDO_TYPE_SET_MASK
            (sizeof_UndoChunkSetMask + get_raw_mask_size (doc_mask doc))
            (SetMaskData document (write_raw_mask (doc_mask doc))) ctx)"

definition chunk_set_mask_invert :: "'o inverter" where
  "chunk_set_mask_invert label chunk ctx =
     (case chunk_data chunk of
        SetMaskData doc_id raw_data \<Rightarrow>
          (case getDocument (snd ctx) doc_id of
             None \<Rightarrow> Inl (AssertFailed, ctx)
           | Some doc \<Rightarrow>
               (case read_raw_mask raw_data of
                  Inl e \<Rightarrow> Inl (e, ctx)
                | Inr msk \<Rightarrow>
                    and_then (chunk_set_mask_new doc_id label ctx)
                      (\<lambda>objects. objects(doc_id \<mapsto> ObjDocument (doc\<lparr>doc_mask := msk\<rparr>)))))
      | _ \<Rightarrow> Inl (BadChunk, ctx))"

text \<open>
  The encoders and the inverters of SET_IMGTYPE, SET_SIZE, SET_FRAME, SET_FRAMES and
  SET_FRLEN. Each encoder pushes the chunk and then reads the sprite;
  \<^verbatim>\<open>chunk_set_frlen_new\<close> asserts before that the frame is one of the sprite. Each
  inverter skips a sprite that is gone.
\<close>

definition chunk_set_imgtype_new :: "ObjectId \<Rightarrow> 'o encoder" where
  "chunk_set_imgtype_new sprite_id label ctx =
     (case getSprite (snd ctx) sprite_id of
        None \<Rightarrow>
          stopped NullPointer
            (undo_chunk_new label UNDO_TYPE_SET_IMGTYPE sizeof_UndoChunkSetImgType NoData ctx)
      | Some sprite \<Rightarrow>
          undo_chunk_new label UNDO_TYPE_SET_IMGTYPE sizeof_UndoChunkSetImgType
            (SetImgTypeData sprite_id (word_of_int (spr_imgtype sprite))) ctx)"

definition chunk_set_imgtype_invert :: "'o inverter" where
  "chunk_set_imgtype_invert label chunk ctx =
     (case chunk_data chunk of
        SetImgTypeData oid t \<Rightarrow>
          (case getSprite (snd ctx) oid of
             Some sprite \<Rightarrow>
               and_then (chunk_set_imgtype_new oid label ctx)
                 (\<lambda>objects. objects(oid \<mapsto> ObjSprite (sprite\<lparr>spr_imgtype := sint t\<rparr>)))
           | None \<Rightarrow> Inr ctx)
      | _ \<Rightarrow> Inl (BadChunk, ctx))"

definition chunk_set_size_new :: "ObjectId \<Rightarrow> 'o encoder" where
  "chunk_set_size_new sprite_id label ctx =
     (case getSprite (snd ctx) sprite_id of
        None \<Rightarrow>
          stopped NullPointer
            (undo_chunk_new label UNDO_TYPE_SET_SIZE sizeof_UndoChunkSetSize NoData ctx)
      | Some sprite \<Rightarrow>
          undo_chunk_new label UNDO_TYPE_SET_SIZE sizeof_UndoChunkSetSize
            (SetSizeData sprite_id (word_of_int (spr_width sprite)) (word_of_int (spr_height sprite)))
            ctx)"

definition chunk_set_size_invert :: "'o inverter" where
  "chunk_set_size_invert label chunk ctx =
     (case chunk_data chunk of
        SetSizeData oid width height \<Rightarrow>
          (case getSprite (snd ctx) oid of
             Some sprite \<Rightarrow>
               (case chunk_set_size_new oid label ctx of
                  Inl e \<Rightarrow> Inl e
                | Inr (stream, objects) \<Rightarrow>
                    Inr (stream,
                         objects(oid \<mapsto> ObjSprite
                           (sprite\<lparr>spr_width := sint width, spr_height := sint height\<rparr>))))
           | None \<Rightarrow> Inr ctx)
      | _ \<Rightarrow> Inl (BadChunk, ctx))"

definition chunk_set_frame_new :: "ObjectId \<Rightarrow> 'o encoder" where
  "chunk_set_frame_new sprite_id label ctx =
     (case getSprite (snd ctx) sprite_id of
        None \<Rightarrow>
          stopped NullPointer
            (undo_chunk_new label UNDO_TYPE_SET_FRAME sizeof_UndoChunkSetFrame NoData ctx)
      | Some sprite \<Rightarrow>
          undo_chunk_new label UNDO_TYPE_SET_FRAME sizeof_UndoChunkSetFrame
            (SetFrameData sprite_id (word_of_int (spr_frame sprite))) ctx)"

definition chunk_set_frame_invert :: "'o inverter" where
  "chunk_set_frame_invert label chunk ctx =
     (case chunk_data chunk of
        SetFrameData oid frame \<Rightarrow>
          (case getSprite (snd ctx) oid of
             Some sprite \<Rightarrow>
               and_then (chunk_set_frame_new oid label ctx)
                 (\<lambda>objects. objects(oid \<mapsto> ObjSprite (sprite\<lparr>spr_frame := sint frame\<rparr>)))
           | None \<Rightarrow> Inr ctx)
      | _ \<Rightarrow> Inl (BadChunk, ctx))"

definition chunk_set_frames_new :: "ObjectId \<Rightarrow> 'o encoder" where
  "chunk_set_frames_new sprite_id label ctx =
     (case getSprite (snd ctx) sprite_id of
        None \<Rightarrow>
          stopped NullPointer
            (undo_chunk_new label UNDO_TYPE_SET_FRAMES sizeof_UndoChunkSetFrames NoData ctx)
      | Some sprite \<Rightarrow>
          undo_chunk_new label UNDO_TYPE_SET_FRAMES sizeof_UndoChunkSetFrames
            (SetFramesData sprite_id (word_of_int (spr_frames sprite))) ctx)"

definition chunk_set_frames_invert :: "'o inverter" where
  "chunk_set_frames_invert label chunk ctx =
     (case chunk_data chunk of
        SetFramesData oid frames \<Rightarrow>
          (case getSprite (snd ctx) oid of
             Some sprite \<Rightarrow>
               and_then (chunk_set_frames_new oid label ctx)
                 (\<lambda>objects. objects(oid \<mapsto> ObjSprite (sprite\<lparr>spr_frames := sint frames\<rparr>)))
           | None \<Rightarrow> Inr ctx)
      | _ \<Rightarrow> Inl (BadChunk, ctx))"

definition chunk_set_frlen_new :: "ObjectId \<Rightarrow> int \<Rightarrow> 'o encoder" where
  "chunk_set_frlen_new sprite_id frame label ctx =
     (case getSprite (snd ctx) sprite_id of
        None \<Rightarrow> Inl (NullPointer, ctx)
      | Some sprite \<Rightarrow>
          if \<not> (frame \<ge> 0 \<and> frame < spr_frames sprite) then Inl (AssertFailed, ctx)
          else
            undo_chunk_new label UNDO_TYPE_SET_FRLEN sizeof_UndoChunkSetFrlen
              (SetFrlenData sprite_id (word_of_int frame) (word_of_int (spr_frlen sprite frame)))
              ctx)"

definition chunk_set_frlen_invert :: "'o inverter" where
  "chunk_set_frlen_invert label chunk ctx =
     (case chunk_data chunk of
        SetFrlenData oid frame duration \<Rightarrow>
          (case getSprite (snd ctx) oid of
             Some sprite \<Rightarrow>
               and_then (chunk_set_frlen_new oid (sint frame) label ctx)
                 (\<lambda>objects. objects(oid \<mapsto> ObjSprite
                    (sprite\<lparr>spr_frlen := (spr_frlen sprite)(sint frame := sint duration)\<rparr>)))
           | None \<Rightarrow> Inr ctx)
      | _ \<Rightarrow> Inl (BadChunk, ctx))"

text \<open>
  The table \<^verbatim>\<open>undo_actions[type].invert\<close>, in the order of the undo types.
\<close>

definition undo_actions_invert :: "gfx_codes \<Rightarrow> 'o env \<Rightarrow> undo_type \<Rightarrow> 'o inverter" where
  "undo_actions_invert gfx env t =
     (case t of
        UNDO_TYPE_OPEN \<Rightarrow> chunk_open_invert
      | UNDO_TYPE_CLOSE \<Rightarrow> chunk_close_invert
      | UNDO_TYPE_DATA \<Rightarrow> chunk_data_invert env
      | UNDO_TYPE_IMAGE \<Rightarrow> chunk_image_invert
      | UNDO_TYPE_FLIP \<Rightarrow> chunk_flip_invert
      | UNDO_TYPE_DIRTY \<Rightarrow> chunk_dirty_invert gfx
      | UNDO_TYPE_ADD_IMAGE \<Rightarrow> chunk_add_image_invert gfx
      | UNDO_TYPE_REMOVE_IMAGE \<Rightarrow> chunk_remove_image_invert gfx
      | UNDO_TYPE_REPLACE_IMAGE \<Rightarrow> chunk_replace_image_invert gfx
      | UNDO_TYPE_ADD_CEL \<Rightarrow> chunk_add_cel_invert env
      | UNDO_TYPE_REMOVE_CEL \<Rightarrow> chunk_remove_cel_invert env
      | UNDO_TYPE_SET_LAYER_NAME \<Rightarrow> chunk_set_layer_name_invert env
      | UNDO_TYPE_ADD_LAYER \<Rightarrow> chunk_add_layer_invert gfx env
      | UNDO_TYPE_REMOVE_LAYER \<Rightarrow> chunk_remove_layer_invert gfx env
      | UNDO_TYPE_MOVE_LAYER \<Rightarrow> chunk_move_layer_invert env
      | UNDO_TYPE_SET_LAYER \<Rightarrow> chunk_set_layer_invert
      | UNDO_TYPE_ADD_PALETTE \<Rightarrow> chunk_add_palette_invert env
      | UNDO_TYPE_REMOVE_PALETTE \<Rightarrow> chunk_remove_palette_invert env
      | UNDO_TYPE_SET_PALETTE_COLORS \<Rightarrow> chunk_set_palette_colors_invert
      | UNDO_TYPE_REMAP_PALETTE \<Rightarrow> chunk_remap_palette_invert (env_remapImages env)
      | UNDO_TYPE_SET_MASK \<Rightarrow> chunk_set_mask_invert
      | UNDO_TYPE_SET_IMGTYPE \<Rightarrow> chunk_set_imgtype_invert
      | UNDO_TYPE_SET_SIZE \<Rightarrow> chunk_set_size_invert
      | UNDO_TYPE_SET_FRAME \<Rightarrow> chunk_set_frame_invert
      | UNDO_TYPE_SET_FRAMES \<Rightarrow> chunk_set_frames_invert
      | UNDO_TYPE_SET_FRLEN \<Rightarrow> chunk_set_frlen_invert)"




section \<open>UndoHistory\<close>

text \<open>
  The members of \<^verbatim>\<open>UndoHistory\<close>. The objects container, which the history borrows, is
  kept with it. The two counters and the levels of the loops are C \<^verbatim>\<open>int\<close>s; they are
  taken not to overflow.
\<close>

datatype undo_state = DO_UNDO | DO_REDO

record 'o UndoHistory =
  m_objects :: "'o ObjectsContainer"
  m_undoStream :: UndoStream
  m_redoStream :: UndoStream
  m_diffCount :: int
  m_diffSaved :: int
  m_enabled :: bool
  m_label :: "string option"

definition UndoHistory_new :: "'o ObjectsContainer \<Rightarrow> 'o UndoHistory" where
  "UndoHistory_new objects =
     \<lparr>m_objects = objects, m_undoStream = stream_new, m_redoStream = stream_new,
      m_diffCount = 0, m_diffSaved = 0, m_enabled = True, m_label = None\<rparr>"

definition canUndo :: "'o UndoHistory \<Rightarrow> bool" where
  "canUndo h = (\<not> stream_empty (m_undoStream h))"

definition canRedo :: "'o UndoHistory \<Rightarrow> bool" where
  "canRedo h = (\<not> stream_empty (m_redoStream h))"

definition clearRedo :: "'o UndoHistory \<Rightarrow> 'o UndoHistory" where
  "clearRedo h =
     (if \<not> stream_empty (m_redoStream h) then h\<lparr>m_redoStream := stream_clear (m_redoStream h)\<rparr>
      else h)"

definition getLabel :: "'o UndoHistory \<Rightarrow> string option" where
  "getLabel h = m_label h"

definition setLabel :: "string option \<Rightarrow> 'o UndoHistory \<Rightarrow> 'o UndoHistory" where
  "setLabel label h = h\<lparr>m_label := label\<rparr>"

definition isSavedState :: "'o UndoHistory \<Rightarrow> bool" where
  "isSavedState h = (m_diffCount h = m_diffSaved h)"

definition markSavedState :: "'o UndoHistory \<Rightarrow> 'o UndoHistory" where
  "markSavedState h = h\<lparr>m_diffSaved := m_diffCount h\<rparr>"

definition source_stream :: "undo_state \<Rightarrow> 'o UndoHistory \<Rightarrow> UndoStream" where
  "source_stream state h = (if state = DO_UNDO then m_undoStream h else m_redoStream h)"

definition dest_stream :: "undo_state \<Rightarrow> 'o UndoHistory \<Rightarrow> UndoStream" where
  "dest_stream state h = (if state = DO_REDO then m_undoStream h else m_redoStream h)"

definition set_source_stream :: "undo_state \<Rightarrow> UndoStream \<Rightarrow> 'o UndoHistory \<Rightarrow> 'o UndoHistory" where
  "set_source_stream state s h =
     (if state = DO_UNDO then h\<lparr>m_undoStream := s\<rparr> else h\<lparr>m_redoStream := s\<rparr>)"

definition set_dest_stream :: "undo_state \<Rightarrow> UndoStream \<Rightarrow> 'o UndoHistory \<Rightarrow> 'o UndoHistory" where
  "set_dest_stream state s h =
     (if state = DO_REDO then h\<lparr>m_undoStream := s\<rparr> else h\<lparr>m_redoStream := s\<rparr>)"

text \<open>
  The body of the loop of \<^verbatim>\<open>runUndo\<close> on the chunk just popped (\<open>rest\<close> is the
  source stream without it): the label of the chunk becomes the label of the history, the
  inverter of the table runs on the other stream, the chunk is freed and the difference
  counter moves. An error of the inverter leaves the loop with the history as it is then.
\<close>

definition invert_step ::
  "(undo_type \<Rightarrow> 'o inverter) \<Rightarrow> undo_state \<Rightarrow> UndoChunk \<Rightarrow> UndoStream \<Rightarrow> 'o UndoHistory
     \<Rightarrow> (undo_error \<times> 'o UndoHistory) + 'o UndoHistory" where
  "invert_step actions state chunk rest h =
     (let h1 = setLabel (Some (chunk_label chunk)) (set_source_stream state rest h)
      in case actions (chunk_type chunk) (getLabel h1) chunk (dest_stream state h1, m_objects h1) of
           Inl (e, (stream, objects)) \<Rightarrow>
             Inl (e, set_dest_stream state stream (h1\<lparr>m_objects := objects\<rparr>))
         | Inr (stream, objects) \<Rightarrow>
             (let h2 = set_dest_stream state stream (h1\<lparr>m_objects := objects\<rparr>)
              in Inr (h2\<lparr>m_diffCount :=
                        (if state = DO_UNDO then m_diffCount h2 - 1 else m_diffCount h2 + 1)\<rparr>)))"

lemma invert_step_source:
  "invert_step actions state chunk rest h = Inr h' \<Longrightarrow> source_stream state h' = rest"
  by (cases state)
     (auto simp: invert_step_def Let_def source_stream_def set_source_stream_def
        set_dest_stream_def setLabel_def split: sum.splits prod.splits)

lemma popChunk_head_shorter:
  "popChunk False s = (Some chunk, rest) \<Longrightarrow> length (chunks rest) < length (chunks s)"
  by (auto simp: popChunk_def split: if_splits)

text \<open>
  The loop of \<^verbatim>\<open>runUndo\<close>: pop the head of the source stream, stop when there is none;
  run the body; go on while the level is not zero.
\<close>

function runUndo_loop ::
  "(undo_type \<Rightarrow> 'o inverter) \<Rightarrow> undo_state \<Rightarrow> int \<Rightarrow> 'o UndoHistory
     \<Rightarrow> (undo_error \<times> 'o UndoHistory) + 'o UndoHistory" where
  "runUndo_loop actions state level h =
     (case popChunk False (source_stream state h) of
        (None, rest) \<Rightarrow> Inr h
      | (Some chunk, rest) \<Rightarrow>
          (case invert_step actions state chunk rest h of
             Inl e \<Rightarrow> Inl e
           | Inr h' \<Rightarrow>
               if level_step level chunk \<noteq> 0
               then runUndo_loop actions state (level_step level chunk) h'
               else Inr h'))"
  by pat_completeness auto
termination
proof (relation "measure (\<lambda>(actions, state, level, h). length (chunks (source_stream state h)))")
  show "wf (measure (\<lambda>(actions, state, level, h). length (chunks (source_stream state h))))"
    by simp
next
  fix actions :: "undo_type \<Rightarrow> 'o inverter" and state level and h :: "'o UndoHistory"
    and x rest x2 chunk and h' :: "'o UndoHistory"
  assume "(x, rest) = popChunk False (source_stream state h)" and "x = Some chunk"
    and "invert_step actions state chunk rest h = Inr h'"
  then have "length (chunks (source_stream state h')) < length (chunks (source_stream state h))"
    using popChunk_head_shorter [of "source_stream state h" chunk rest] invert_step_source [of actions state chunk rest h h']
    by simp
  then show "((actions, state, level_step level chunk, h'), actions, state, level, h)
      \<in> measure (\<lambda>(actions, state, level, h). length (chunks (source_stream state h)))"
    by simp
qed


declare runUndo_loop.simps [simp del]

definition runUndo ::
  "(undo_type \<Rightarrow> 'o inverter) \<Rightarrow> undo_state \<Rightarrow> 'o UndoHistory
     \<Rightarrow> (undo_error \<times> 'o UndoHistory) + 'o UndoHistory" where
  "runUndo actions state h = runUndo_loop actions state 0 h"

definition doUndo ::
  "(undo_type \<Rightarrow> 'o inverter) \<Rightarrow> 'o UndoHistory \<Rightarrow> (undo_error \<times> 'o UndoHistory) + 'o UndoHistory" where
  "doUndo actions h = runUndo actions DO_UNDO h"

definition doRedo ::
  "(undo_type \<Rightarrow> 'o inverter) \<Rightarrow> 'o UndoHistory \<Rightarrow> (undo_error \<times> 'o UndoHistory) + 'o UndoHistory" where
  "doRedo actions h = runUndo actions DO_REDO h"

text \<open>The loop of \<^verbatim>\<open>discardTail\<close>, which pops from the tail and runs no inverter.\<close>

lemma popChunk_tail_shorter:
  "popChunk True s = (Some chunk, rest) \<Longrightarrow> length (chunks rest) < length (chunks s)"
  by (auto simp: popChunk_def split: if_splits)

function discardTail_loop :: "int \<Rightarrow> UndoStream \<Rightarrow> UndoStream" where
  "discardTail_loop level undo_stream =
     (case popChunk True undo_stream of
        (None, rest) \<Rightarrow> undo_stream
      | (Some chunk, rest) \<Rightarrow>
          if level_step level chunk \<noteq> 0
          then discardTail_loop (level_step level chunk) rest
          else rest)"
  by pat_completeness auto
termination
proof (relation "measure (\<lambda>(level, s). length (chunks s))")
  show "wf (measure (\<lambda>(level, s). length (chunks s)))" by simp
next
  fix level :: int and undo_stream x rest chunk
  assume "(x, rest) = popChunk True undo_stream" and "x = Some chunk"
  then have "length (chunks rest) < length (chunks undo_stream)"
    using popChunk_tail_shorter [of undo_stream chunk rest] by simp
  then show "((level_step level chunk, rest), level, undo_stream)
      \<in> measure (\<lambda>(level, s). length (chunks s))" by simp
qed

declare discardTail_loop.simps [simp del]

definition discardTail :: "'o UndoHistory \<Rightarrow> 'o UndoHistory" where
  "discardTail h = h\<lparr>m_undoStream := discardTail_loop 0 (m_undoStream h)\<rparr>"

text \<open>
  A C \<^verbatim>\<open>int\<close> has 32 bits. \<open>int32\<close> gives the value that a 32-bit two's complement
  \<^verbatim>\<open>int\<close> holds for a number: the number itself from \<open>-2^31\<close> up to \<open>2^31 - 1\<close>, and
  the number wrapped around into that range otherwise.
\<close>

definition int32 :: "int \<Rightarrow> int" where
  "int32 k = (k + 2147483648) mod 4294967296 - 2147483648"

text \<open>
  \<^verbatim>\<open>updateUndo\<close>. The configured \<^verbatim>\<open>Options/UndoSizeLimit\<close> (in MiB, 8 when not set)
  comes from the configuration of the editor and enters as \<open>UndoSizeLimit\<close>. The limit is
  \<^verbatim>\<open>int undo_size_limit = get_config_int(...)*1024*1024\<close>, a product of \<^verbatim>\<open>int\<close>s. The
  loop is \<^verbatim>\<open>while (groups > 1 && m_undoStream->getMemSize() > undo_size_limit)\<close>.
\<close>

function discard_loop :: "int \<Rightarrow> int \<Rightarrow> 'o UndoHistory \<Rightarrow> 'o UndoHistory" where
  "discard_loop undo_size_limit groups h =
     (if groups > 1 \<and> getMemSize (m_undoStream h) > undo_size_limit
      then discard_loop undo_size_limit (groups - 1) (discardTail h)
      else h)"
  by pat_completeness auto
termination
  by (relation "measure (\<lambda>(undo_size_limit, groups, h). nat groups)") auto

declare discard_loop.simps [simp del]

definition updateUndo :: "int \<Rightarrow> 'o UndoHistory \<Rightarrow> 'o UndoHistory" where
  "updateUndo UndoSizeLimit h =
     (let undo_size_limit = int32 (UndoSizeLimit * 1024 * 1024);
          h1 = h\<lparr>m_diffCount := m_diffCount h + 1\<rparr>;
          h2 = clearRedo h1
      in if out_of_group (m_undoStream h2)
         then discard_loop undo_size_limit (count_undo_groups (m_undoStream h2)) h2
         else h2)"

text \<open>
  The recording entry points all read
  \<^verbatim>\<open>chunk_<action>_new(m_undoStream, ...); updateUndo();\<close>. An encoder that fails ends the
  call before \<^verbatim>\<open>updateUndo\<close>.
\<close>

definition undo_record ::
  "'o encoder \<Rightarrow> int \<Rightarrow> 'o UndoHistory \<Rightarrow> (undo_error \<times> 'o UndoHistory) + 'o UndoHistory" where
  "undo_record chunk_new UndoSizeLimit h =
     (case chunk_new (getLabel h) (m_undoStream h, m_objects h) of
        Inl (e, (stream, objects)) \<Rightarrow> Inl (e, h\<lparr>m_undoStream := stream, m_objects := objects\<rparr>)
      | Inr (stream, objects) \<Rightarrow>
          Inr (updateUndo UndoSizeLimit (h\<lparr>m_undoStream := stream, m_objects := objects\<rparr>)))"

definition undo_open ::
  "int \<Rightarrow> 'o UndoHistory
     \<Rightarrow> (undo_error \<times> 'o UndoHistory) + 'o UndoHistory" where
  "undo_open = undo_record chunk_open_new"

definition undo_close ::
  "int \<Rightarrow> 'o UndoHistory
     \<Rightarrow> (undo_error \<times> 'o UndoHistory) + 'o UndoHistory" where
  "undo_close = undo_record chunk_close_new"

definition undo_data ::
  "'o env \<Rightarrow> ObjectId \<Rightarrow> 32 word \<Rightarrow> int \<Rightarrow> int \<Rightarrow> 'o UndoHistory
     \<Rightarrow> (undo_error \<times> 'o UndoHistory) + 'o UndoHistory" where
  "undo_data env object fieldOffset fieldSize = undo_record (chunk_data_new env object fieldOffset fieldSize)"

definition undo_image ::
  "ObjectId \<Rightarrow> int \<Rightarrow> int \<Rightarrow> int \<Rightarrow> int \<Rightarrow> int \<Rightarrow> 'o UndoHistory
     \<Rightarrow> (undo_error \<times> 'o UndoHistory) + 'o UndoHistory" where
  "undo_image img x y w h = undo_record (chunk_image_new img x y w h)"

definition undo_flip ::
  "ObjectId \<Rightarrow> int \<Rightarrow> int \<Rightarrow> int \<Rightarrow> int \<Rightarrow> bool \<Rightarrow> int \<Rightarrow> 'o UndoHistory
     \<Rightarrow> (undo_error \<times> 'o UndoHistory) + 'o UndoHistory" where
  "undo_flip img x1 y1 x2 y2 horz = undo_record (chunk_flip_new img x1 y1 x2 y2 horz)"

definition undo_dirty ::
  "gfx_codes \<Rightarrow> ObjectId \<Rightarrow> Dirty \<Rightarrow> int \<Rightarrow> 'o UndoHistory
     \<Rightarrow> (undo_error \<times> 'o UndoHistory) + 'o UndoHistory" where
  "undo_dirty gfx img dirty = undo_record (chunk_dirty_new gfx img dirty)"

definition undo_add_image ::
  "ObjectId \<Rightarrow> int \<Rightarrow> int \<Rightarrow> 'o UndoHistory
     \<Rightarrow> (undo_error \<times> 'o UndoHistory) + 'o UndoHistory" where
  "undo_add_image stock image_index = undo_record (chunk_add_image_new stock image_index)"

definition undo_remove_image ::
  "gfx_codes \<Rightarrow> ObjectId \<Rightarrow> int \<Rightarrow> int \<Rightarrow> 'o UndoHistory
     \<Rightarrow> (undo_error \<times> 'o UndoHistory) + 'o UndoHistory" where
  "undo_remove_image gfx stock image_index = undo_record (chunk_remove_image_new gfx stock image_index)"

definition undo_replace_image ::
  "gfx_codes \<Rightarrow> ObjectId \<Rightarrow> int \<Rightarrow> int \<Rightarrow> 'o UndoHistory
     \<Rightarrow> (undo_error \<times> 'o UndoHistory) + 'o UndoHistory" where
  "undo_replace_image gfx stock image_index = undo_record (chunk_replace_image_new gfx stock image_index)"

definition undo_add_cel ::
  "ObjectId \<Rightarrow> ObjectId \<Rightarrow> int \<Rightarrow> 'o UndoHistory
     \<Rightarrow> (undo_error \<times> 'o UndoHistory) + 'o UndoHistory" where
  "undo_add_cel layer cel = undo_record (chunk_add_cel_new layer cel)"

definition undo_remove_cel ::
  "ObjectId \<Rightarrow> ObjectId \<Rightarrow> int \<Rightarrow> 'o UndoHistory
     \<Rightarrow> (undo_error \<times> 'o UndoHistory) + 'o UndoHistory" where
  "undo_remove_cel layer cel = undo_record (chunk_remove_cel_new layer cel)"

definition undo_set_layer_name ::
  "ObjectId \<Rightarrow> int \<Rightarrow> 'o UndoHistory
     \<Rightarrow> (undo_error \<times> 'o UndoHistory) + 'o UndoHistory" where
  "undo_set_layer_name layer = undo_record (chunk_set_layer_name_new layer)"

definition undo_add_layer ::
  "ObjectId \<Rightarrow> ObjectId \<Rightarrow> int \<Rightarrow> 'o UndoHistory
     \<Rightarrow> (undo_error \<times> 'o UndoHistory) + 'o UndoHistory" where
  "undo_add_layer folder layer = undo_record (chunk_add_layer_new folder (Some layer))"

definition undo_remove_layer ::
  "gfx_codes \<Rightarrow> ObjectId \<Rightarrow> int \<Rightarrow> 'o UndoHistory
     \<Rightarrow> (undo_error \<times> 'o UndoHistory) + 'o UndoHistory" where
  "undo_remove_layer gfx layer = undo_record (chunk_remove_layer_new gfx layer)"

definition undo_move_layer ::
  "ObjectId \<Rightarrow> int \<Rightarrow> 'o UndoHistory
     \<Rightarrow> (undo_error \<times> 'o UndoHistory) + 'o UndoHistory" where
  "undo_move_layer layer = undo_record (chunk_move_layer_new layer)"

definition undo_set_layer ::
  "ObjectId \<Rightarrow> int \<Rightarrow> 'o UndoHistory
     \<Rightarrow> (undo_error \<times> 'o UndoHistory) + 'o UndoHistory" where
  "undo_set_layer sprite = undo_record (chunk_set_layer_new sprite)"

definition undo_add_palette ::
  "ObjectId \<Rightarrow> ObjectId \<Rightarrow> int \<Rightarrow> 'o UndoHistory
     \<Rightarrow> (undo_error \<times> 'o UndoHistory) + 'o UndoHistory" where
  "undo_add_palette sprite palette = undo_record (chunk_add_palette_new sprite palette)"

definition undo_remove_palette ::
  "ObjectId \<Rightarrow> ObjectId \<Rightarrow> int \<Rightarrow> 'o UndoHistory
     \<Rightarrow> (undo_error \<times> 'o UndoHistory) + 'o UndoHistory" where
  "undo_remove_palette sprite palette = undo_record (chunk_remove_palette_new sprite palette)"

definition undo_set_palette_colors ::
  "ObjectId \<Rightarrow> ObjectId \<Rightarrow> int \<Rightarrow> int \<Rightarrow> int \<Rightarrow> 'o UndoHistory
     \<Rightarrow> (undo_error \<times> 'o UndoHistory) + 'o UndoHistory" where
  "undo_set_palette_colors sprite palette from to = undo_record (chunk_set_palette_colors_new sprite palette from to)"

definition undo_remap_palette ::
  "ObjectId \<Rightarrow> int \<Rightarrow> int \<Rightarrow> int list \<Rightarrow> int \<Rightarrow> 'o UndoHistory
     \<Rightarrow> (undo_error \<times> 'o UndoHistory) + 'o UndoHistory" where
  "undo_remap_palette sprite frame_from frame_to mapping = undo_record (chunk_remap_palette_new sprite frame_from frame_to mapping)"

definition undo_set_mask ::
  "ObjectId \<Rightarrow> int \<Rightarrow> 'o UndoHistory
     \<Rightarrow> (undo_error \<times> 'o UndoHistory) + 'o UndoHistory" where
  "undo_set_mask document = undo_record (chunk_set_mask_new document)"

definition undo_set_imgtype ::
  "ObjectId \<Rightarrow> int \<Rightarrow> 'o UndoHistory
     \<Rightarrow> (undo_error \<times> 'o UndoHistory) + 'o UndoHistory" where
  "undo_set_imgtype sprite = undo_record (chunk_set_imgtype_new sprite)"

definition undo_set_size ::
  "ObjectId \<Rightarrow> int \<Rightarrow> 'o UndoHistory
     \<Rightarrow> (undo_error \<times> 'o UndoHistory) + 'o UndoHistory" where
  "undo_set_size sprite = undo_record (chunk_set_size_new sprite)"

definition undo_set_frame ::
  "ObjectId \<Rightarrow> int \<Rightarrow> 'o UndoHistory
     \<Rightarrow> (undo_error \<times> 'o UndoHistory) + 'o UndoHistory" where
  "undo_set_frame sprite = undo_record (chunk_set_frame_new sprite)"

definition undo_set_frames ::
  "ObjectId \<Rightarrow> int \<Rightarrow> 'o UndoHistory
     \<Rightarrow> (undo_error \<times> 'o UndoHistory) + 'o UndoHistory" where
  "undo_set_frames sprite = undo_record (chunk_set_frames_new sprite)"

definition undo_set_frlen ::
  "ObjectId \<Rightarrow> int \<Rightarrow> int \<Rightarrow> 'o UndoHistory
     \<Rightarrow> (undo_error \<times> 'o UndoHistory) + 'o UndoHistory" where
  "undo_set_frlen sprite frame = undo_record (chunk_set_frlen_new sprite frame)"


section \<open>Groups as the specification words them\<close>

text \<open>
  The running depth after each chunk, walking from the head, from the depth \<open>d\<close>.
\<close>

fun running_depths :: "int \<Rightarrow> UndoChunk list \<Rightarrow> int list" where
  "running_depths d [] = []"
| "running_depths d (c # cs) = level_step d c # running_depths (level_step d c) cs"

text \<open>The depth over a whole stream: the number of OPEN chunks minus the number of CLOSE chunks.\<close>

definition open_close_depth :: "UndoChunk list \<Rightarrow> int" where
  "open_close_depth cs =
     int (length (filter (\<lambda>c. chunk_type c = UNDO_TYPE_OPEN) cs))
     - int (length (filter (\<lambda>c. chunk_type c = UNDO_TYPE_CLOSE) cs))"

text \<open>How many times the running depth returns to zero while walking head to tail.\<close>

definition returns_to_zero :: "UndoChunk list \<Rightarrow> int" where
  "returns_to_zero cs = int (length (filter (\<lambda>d. d = 0) (running_depths 0 cs)))"

text \<open>Well formed: the running depth is never negative and every OPEN is matched by a CLOSE.\<close>

definition well_formed :: "UndoChunk list \<Rightarrow> bool" where
  "well_formed cs = (list_all (\<lambda>d. 0 \<le> d) (running_depths 0 cs) \<and> open_close_depth cs = 0)"

text \<open>
  The top-level entries: the chunks met at depth zero that are no group marker (single
  chunks), and the OPEN chunks met at depth zero (each starts one top-level group).
\<close>

definition top_level_singles :: "UndoChunk list \<Rightarrow> int" where
  "top_level_singles cs =
     int (length (filter (\<lambda>(d, c). d = 0 \<and> chunk_type c \<noteq> UNDO_TYPE_OPEN \<and> chunk_type c \<noteq> UNDO_TYPE_CLOSE)
       (zip (0 # running_depths 0 cs) cs)))"

definition top_level_groups :: "UndoChunk list \<Rightarrow> int" where
  "top_level_groups cs =
     int (length (filter (\<lambda>(d, c). d = 0 \<and> chunk_type c = UNDO_TYPE_OPEN)
       (zip (0 # running_depths 0 cs) cs)))"


section \<open>Entries of a stream and repeated calls\<close>


text \<open>
  The chunks at the head of a stream that make its first entry: the running depth is not
  zero before the last of them and is zero after it. A single chunk that is no group marker
  is one; so is a run from an OPEN to the CLOSE that matches it.
\<close>

definition head_entry :: "UndoChunk list \<Rightarrow> bool" where
  "head_entry g = (g \<noteq> [] \<and> list_all (\<lambda>d. d \<noteq> 0) (butlast (running_depths 0 g))
     \<and> last (running_depths 0 g) = 0)"

text \<open>Running the body of the loop on given chunks, one after the other.\<close>

fun apply_chunks ::
  "(undo_type \<Rightarrow> 'o inverter) \<Rightarrow> undo_state \<Rightarrow> UndoChunk list \<Rightarrow> 'o UndoHistory
     \<Rightarrow> (undo_error \<times> 'o UndoHistory) + 'o UndoHistory" where
  "apply_chunks actions state [] h = Inr h"
| "apply_chunks actions state (c # cs) h =
     (case invert_step actions state c (snd (popChunk False (source_stream state h))) h of
        Inl e \<Rightarrow> Inl e
      | Inr h' \<Rightarrow> apply_chunks actions state cs h')"



text \<open>\<^verbatim>\<open>doUndo\<close> called a number of times, stopping at an error.\<close>

fun doUndo_times ::
  "(undo_type \<Rightarrow> 'o inverter) \<Rightarrow> nat \<Rightarrow> 'o UndoHistory
     \<Rightarrow> (undo_error \<times> 'o UndoHistory) + 'o UndoHistory" where
  "doUndo_times actions 0 h = Inr h"
| "doUndo_times actions (Suc n) h =
     (case doUndo actions h of Inl e \<Rightarrow> Inl e | Inr h' \<Rightarrow> doUndo_times actions n h')"

text \<open>Recording entry points called one after the other, stopping at an error.\<close>

fun undo_record_all ::
  "'o encoder list \<Rightarrow> int \<Rightarrow> 'o UndoHistory \<Rightarrow> (undo_error \<times> 'o UndoHistory) + 'o UndoHistory" where
  "undo_record_all [] UndoSizeLimit h = Inr h"
| "undo_record_all (chunk_new # encoders) UndoSizeLimit h =
     (case undo_record chunk_new UndoSizeLimit h of
        Inl e \<Rightarrow> Inl e
      | Inr h' \<Rightarrow> undo_record_all encoders UndoSizeLimit h')"


section \<open>What a call leaves on the stream\<close>

text \<open>The context a call ends with, returned or at the error.\<close>

definition result_ctx :: "'o result \<Rightarrow> 'o stream_ctx" where
  "result_ctx r = (case r of Inl (e, ctx) \<Rightarrow> ctx | Inr ctx \<Rightarrow> ctx)"

text \<open>The chunk a call has put on the stream: the head of the stream it ends with.\<close>

definition emitted :: "'o result \<Rightarrow> UndoChunk" where
  "emitted r = hd (chunks (fst (result_ctx r)))"




section \<open>Rectangles of an image\<close>


text \<open>An image whose lines are as many and as long as its size says.\<close>

definition image_ok :: "Image \<Rightarrow> bool" where
  "image_ok img = (length (img_line img) = nat (img_h img)
     \<and> list_all (\<lambda>row. length row = nat (image_line_size img (img_w img))) (img_line img))"



section \<open>Counters used in the proofs\<close>

text \<open>The count of the returns to zero, with the depth carried along.\<close>

fun returns_from :: "int \<Rightarrow> UndoChunk list \<Rightarrow> int" where
  "returns_from d [] = 0"
| "returns_from d (c # cs) = (if level_step d c = 0 then 1 else 0) + returns_from (level_step d c) cs"

text \<open>The chunks met at depth zero that are no CLOSE.\<close>

fun entries_from :: "int \<Rightarrow> UndoChunk list \<Rightarrow> int" where
  "entries_from d [] = 0"
| "entries_from d (c # cs) =
     (if d = 0 \<and> chunk_type c \<noteq> UNDO_TYPE_CLOSE then 1 else 0) + entries_from (level_step d c) cs"

text \<open>The step of the level on a chunk, as a number.\<close>

definition level_delta :: "UndoChunk \<Rightarrow> int" where
  "level_delta c = level_step 0 c"

text \<open>The positions before which the running depth is zero.\<close>

fun zeros_from :: "int \<Rightarrow> UndoChunk list \<Rightarrow> int" where
  "zeros_from d [] = 0"
| "zeros_from d (c # cs) = (if d = 0 then 1 else 0) + zeros_from (level_step d c) cs"

section \<open>Example data\<close>

text \<open>A chunk without tail, as \<^verbatim>\<open>undo_chunk_new\<close> makes it when the history has no label.\<close>

definition plain_chunk :: "undo_type \<Rightarrow> UndoChunk" where
  "plain_chunk t = \<lparr>chunk_type = t, chunk_size = sizeof_UndoChunk,
     chunk_label = undo_action_name t, chunk_data = NoData\<rparr>"

text \<open>A stream with a single chunk, a group with a nested group, and another single chunk.\<close>

definition example_stream :: UndoStream where
  "example_stream =
     \<lparr>chunks = map plain_chunk
        [UNDO_TYPE_SET_FRAME, UNDO_TYPE_OPEN, UNDO_TYPE_DATA, UNDO_TYPE_OPEN, UNDO_TYPE_DATA,
         UNDO_TYPE_CLOSE, UNDO_TYPE_CLOSE, UNDO_TYPE_FLIP],
      memSize = 128\<rparr>"



definition example_objects :: "unit ObjectsContainer" where
  "example_objects = [1 \<mapsto> ObjImage \<lparr>img_imgtype = IMAGE_INDEXED, img_w = 2, img_h = 2,
       img_mask_color = 0, img_line = [[1, 2], [3, 4]]\<rparr>,
     2 \<mapsto> ObjSprite \<lparr>spr_width = 100, spr_height = 100, spr_imgtype = 2, spr_frame = 0,
       spr_frames = 1, spr_frlen = (\<lambda>frame. 100), spr_layer = None,
       spr_palettes = (\<lambda>frame. None), spr_stock = 3\<rparr>]"



text \<open>A group around a SET_SIZE chunk of a live sprite, in front of a single chunk.\<close>

definition group_history :: "unit UndoHistory" where
  "group_history = (UndoHistory_new example_objects)
     \<lparr>m_undoStream := \<lparr>chunks =
         [plain_chunk UNDO_TYPE_OPEN,
          \<lparr>chunk_type = UNDO_TYPE_SET_SIZE, chunk_size = sizeof_UndoChunkSetSize,
           chunk_label = ''set_size'', chunk_data = SetSizeData 2 50 50\<rparr>,
          plain_chunk UNDO_TYPE_CLOSE,
          plain_chunk UNDO_TYPE_SET_FRAME],
        memSize = 80\<rparr>, m_diffCount := 4\<rparr>"

text \<open>A history marked as saved after one recording.\<close>

definition saved_history :: "unit UndoHistory" where
  "saved_history = markSavedState (projr (undo_set_size 2 8 (UndoHistory_new example_objects)))"




text \<open>
  The table that swaps the colors 0 and 1 (scenario S3 of the specification) and a
  REMAP_PALETTE chunk with it.
\<close>

definition swap_mapping :: "byte list" where
  "swap_mapping = map of_nat ([1, 0] @ [2..<256])"

definition swap_chunk :: UndoChunk where
  "swap_chunk = \<lparr>chunk_type = UNDO_TYPE_REMAP_PALETTE, chunk_size = sizeof_UndoChunkRemapPalette,
     chunk_label = ''remap_palette'', chunk_data = RemapPaletteData 2 0 1 swap_mapping\<rparr>"

text \<open>An image layer named "Layer 1" without cels, and a stock without images.\<close>

definition example_layer :: Layer where
  "example_layer = LayerImage 5 ''Layer 1'' 0 2 []"

definition example_gfx :: gfx_codes where
  "example_gfx = \<lparr>code_layer_image = 2, code_layer_folder = 3, code_imgtype = (\<lambda>t. 0)\<rparr>"


text \<open>
  An inverter table for the examples: the methods that enter as parameters leave the live
  objects as they are and a field has no bytes.
\<close>

definition example_env :: "unit env" where
  "example_env =
     \<lparr>env_remapImages = (\<lambda>sprite frame_from frame_to mapping objects. objects),
      env_deletePalette = (\<lambda>sprite palette objects. objects),
      env_setPalette = (\<lambda>sprite palette truncate objects. objects),
      env_addCel = (\<lambda>layer cel objects. objects),
      env_removeCel = (\<lambda>layer cel objects. objects),
      env_setName = (\<lambda>layer name objects. objects),
      env_add_layer = (\<lambda>folder layer objects. objects),
      env_remove_layer = (\<lambda>folder layer objects. objects),
      env_move_layer = (\<lambda>folder layer after objects. objects),
      env_field = (\<lambda>objects object fieldOffset fieldSize. []),
      env_set_field = (\<lambda>object fieldOffset bytes objects. objects),
      env_new_id = (\<lambda>objects. 0)\<rparr>"

definition example_actions :: "undo_type \<Rightarrow> unit inverter" where
  "example_actions = undo_actions_invert example_gfx example_env"

text \<open>The history marked as saved above after its recording has been undone: its chunk is on the redo stream.\<close>

definition redo_history :: "unit UndoHistory" where
  "redo_history = projr (doUndo example_actions saved_history)"

text \<open>
  The undo stream after the recordings \<^verbatim>\<open>undo_set_size\<close>, \<^verbatim>\<open>undo_open\<close>,
  \<^verbatim>\<open>undo_set_size\<close> and \<^verbatim>\<open>undo_close\<close> on a new history.
\<close>

definition recorded_stream :: UndoStream where
  "recorded_stream = m_undoStream (projr (undo_record_all
     [chunk_set_size_new 2, chunk_open_new, chunk_set_size_new 2, chunk_close_new] 8
     (UndoHistory_new (example_objects :: unit ObjectsContainer))))"


text \<open>The definitions that the examples unfold.\<close>

lemmas eval_defs = image_rect_def chunk_row_def runUndo_def runUndo_loop.simps popChunk_def source_stream_def dest_stream_def
  set_source_stream_def set_dest_stream_def invert_step_def setLabel_def getLabel_def Let_def
  example_actions_def example_env_def undo_actions_invert_def stopped_def and_then_def chunk_open_invert_def chunk_close_invert_def
  chunk_open_new_def chunk_close_new_def undo_chunk_new_def pushChunk_def
  chunk_image_invert_def chunk_image_new_def chunk_set_size_invert_def chunk_set_size_new_def
  chunk_set_frame_invert_def chunk_set_frame_new_def sizeof_UndoChunkSetFrame_def
  getImage_def getSprite_def example_objects_def UndoHistory_new_def stream_new_def
  plain_chunk_def level_step_def sizeof_UndoChunk_def sizeof_UndoChunkImage_def
  sizeof_UndoChunkSetSize_def undo_action_name_def

lemmas record_defs = undo_record_def undo_set_size_def updateUndo_def int32_def clearRedo_def
  stream_empty_def stream_clear_def out_of_group_def out_of_group_loop.simps
  count_undo_groups_def count_groups_loop.simps discard_loop.simps getMemSize_def
  discardTail_def discardTail_loop.simps markSavedState_def isSavedState_def doUndo_def

section \<open>Properties of the group counters\<close>

lemma depth_Cons: "open_close_depth (c # cs) = level_step 0 c + open_close_depth cs"
  by (simp add: open_close_depth_def level_step_def)

lemma level_step_add: "level_step d c = d + level_step 0 c"
  by (simp add: level_step_def)

lemma depth_append: "open_close_depth (xs @ ys) = open_close_depth xs + open_close_depth ys"
  by (simp add: open_close_depth_def)

lemma returns_from_depths: "returns_from d cs = int (length (filter (\<lambda>d. d = 0) (running_depths d cs)))"
  by (induction cs arbitrary: d) auto

lemma walk_group_returns:
  "returns_from level (c # it) =
     (if fst (walk_group level (c # it)) = 0 then 1 else 0) + returns_from 0 (snd (walk_group level (c # it)))"
proof (induction it arbitrary: level c)
  case Nil
  then show ?case by (simp add: Let_def)
next
  case (Cons a it)
  show ?case
  proof (cases "level_step level c = 0")
    case True
    then show ?thesis by (simp add: Let_def)
  next
    case False
    then show ?thesis using Cons.IH [of "level_step level c" a] by (simp add: Let_def)
  qed
qed

lemma count_groups_loop_returns: "count_groups_loop groups it = groups + returns_from 0 it"
proof (induction groups it rule: count_groups_loop.induct)
  case (1 groups it)
  show ?case
  proof (cases it)
    case Nil
    then show ?thesis by (simp add: count_groups_loop.simps)
  next
    case (Cons c cs)
    obtain level it' where w: "walk_group 0 it = (level, it')" by (cases "walk_group 0 it")
    have ne: "it \<noteq> []" using Cons by simp
    have "count_groups_loop groups it = count_groups_loop (if level = 0 then groups + 1 else groups) it'"
      using ne w by (subst count_groups_loop.simps) simp
    also have "\<dots> = (if level = 0 then groups + 1 else groups) + returns_from 0 it'"
      using "1.IH" [OF ne w [symmetric]] .
    also have "\<dots> = groups + returns_from 0 it"
      using walk_group_returns [of 0 c cs] w Cons by simp
    finally show ?thesis .
  qed
qed

lemma walk_group_depth:
  "fst (walk_group level (c # it)) + open_close_depth (snd (walk_group level (c # it)))
     = level + open_close_depth (c # it)"
proof (induction it arbitrary: level c)
  case Nil
  then show ?case by (simp add: Let_def depth_Cons level_step_add [of level])
next
  case (Cons a it)
  show ?case
  proof (cases "level_step level c = 0")
    case True
    then show ?thesis by (simp add: Let_def depth_Cons [of c] level_step_add [of level])
  next
    case False
    then show ?thesis using Cons.IH [of "level_step level c" a]
      by (simp add: Let_def depth_Cons [of c] level_step_add [of level])
  qed
qed

lemma walk_group_rest: "snd (walk_group level (c # it)) \<noteq> [] \<Longrightarrow> fst (walk_group level (c # it)) = 0"
proof (induction it arbitrary: level c)
  case Nil
  then show ?case by (simp add: Let_def)
next
  case (Cons a it)
  then show ?case by (cases "level_step level c = 0") (simp_all add: Let_def)
qed

lemma out_of_group_loop_depth:
  "out_of_group_loop level it = (if it = [] then level else open_close_depth it)"
proof (induction level it rule: out_of_group_loop.induct)
  case (1 level it)
  show ?case
  proof (cases it)
    case Nil
    then show ?thesis by (simp add: out_of_group_loop.simps)
  next
    case (Cons c cs)
    obtain level' it' where w: "walk_group 0 it = (level', it')" by (cases "walk_group 0 it")
    have ne: "it \<noteq> []" using Cons by simp
    have d: "level' + open_close_depth it' = open_close_depth it"
      using walk_group_depth [of 0 c cs] w Cons by simp
    have z: "it' \<noteq> [] \<Longrightarrow> level' = 0"
      using walk_group_rest [of 0 c cs] w Cons by simp
    have "out_of_group_loop level it = out_of_group_loop level' it'"
      using ne w by (subst out_of_group_loop.simps) simp
    also have "\<dots> = (if it' = [] then level' else open_close_depth it')"
      using "1.IH" [OF ne w [symmetric]] .
    also have "\<dots> = open_close_depth it"
      using d z by (cases "it' = []") (simp_all add: open_close_depth_def)
    finally show ?thesis using ne by simp
  qed
qed

lemma top_level_entries_from:
  "int (length (filter (\<lambda>(d, c). d = 0 \<and> chunk_type c \<noteq> UNDO_TYPE_OPEN \<and> chunk_type c \<noteq> UNDO_TYPE_CLOSE)
       (zip (d # running_depths d cs) cs)))
   + int (length (filter (\<lambda>(d, c). d = 0 \<and> chunk_type c = UNDO_TYPE_OPEN)
       (zip (d # running_depths d cs) cs))) = entries_from d cs"
  by (induction cs arbitrary: d) auto

lemma running_depths_last:
  "list_all (\<lambda>d. 0 \<le> d) (running_depths d cs) \<Longrightarrow> 0 \<le> d \<Longrightarrow> 0 \<le> d + open_close_depth cs"
proof (induction cs arbitrary: d)
  case Nil
  then show ?case by (simp add: open_close_depth_def)
next
  case (Cons c cs)
  then have "0 \<le> level_step d c + open_close_depth cs" by simp
  then show ?case by (simp add: depth_Cons level_step_add [of d])
qed

lemma entries_returns:
  "list_all (\<lambda>d. 0 \<le> d) (running_depths d cs) \<Longrightarrow> 0 \<le> d \<Longrightarrow>
   entries_from d cs + (if 0 < d then 1 else 0)
     = returns_from d cs + (if 0 < d + open_close_depth cs then 1 else 0)"
proof (induction cs arbitrary: d)
  case Nil
  then show ?case by (simp add: open_close_depth_def)
next
  case (Cons c cs)
  let ?d = "level_step d c"
  have nn: "0 \<le> ?d" and rest: "list_all (\<lambda>d. 0 \<le> d) (running_depths ?d cs)"
    using Cons.prems by simp_all
  have ih: "entries_from ?d cs + (if 0 < ?d then 1 else 0)
     = returns_from ?d cs + (if 0 < ?d + open_close_depth cs then 1 else 0)"
    using Cons.IH [OF rest nn] .
  have dd: "d + open_close_depth (c # cs) = ?d + open_close_depth cs"
    by (simp add: depth_Cons level_step_add [of d])
  have close: "d = 0 \<Longrightarrow> chunk_type c \<noteq> UNDO_TYPE_CLOSE"
    using nn by (auto simp: level_step_def split: if_splits)
  show ?case using ih nn Cons.prems(2) close unfolding dd
    by (cases "d = 0"; cases "?d = 0") (auto split: if_splits)
qed

text \<open>
  C6. \<^verbatim>\<open>out_of_group\<close> returns true exactly when the depth over the whole stream, the
  number of OPEN chunks minus the number of CLOSE chunks, is zero; its inner loop resets the
  level only where it is zero already.
\<close>

theorem out_of_group_iff_depth_zero:
  "out_of_group s \<longleftrightarrow> open_close_depth (chunks s) = 0"
  by (cases "chunks s = []") (simp_all add: out_of_group_def out_of_group_loop_depth open_close_depth_def)




section \<open>Properties of the history\<close>

lemma clearRedo_empty: "stream_empty (m_redoStream (clearRedo h))"
  by (simp add: clearRedo_def stream_empty_def stream_clear_def)

lemma discardTail_redo: "m_redoStream (discardTail h) = m_redoStream h"
  by (simp add: discardTail_def)

lemma discard_loop_redo: "m_redoStream (discard_loop limit groups h) = m_redoStream h"
proof (induction limit groups h rule: discard_loop.induct)
  case (1 limit groups h)
  show ?case
  proof (cases "groups > 1 \<and> getMemSize (m_undoStream h) > limit")
    case True
    then show ?thesis using "1.IH"
      by (simp add: discard_loop.simps [of limit groups h] discardTail_redo)
  next
    case False
    then show ?thesis by (auto simp: discard_loop.simps [of limit groups h])
  qed
qed

lemma updateUndo_redo_empty: "stream_empty (m_redoStream (updateUndo limit h))"
  by (simp add: updateUndo_def Let_def discard_loop_redo clearRedo_empty)

lemma undo_chunk_new_head_returns:
  "\<not> isl (undo_chunk_new label t sizeof_UndoChunk tail ctx)"
  by (simp add: undo_chunk_new_def Let_def)

text \<open>
  C4. A recording entry point \<^verbatim>\<open>undo_<action>\<close> whose encoder returns completes, and
  after it has completed, whatever its encoder, the redo stream is empty: \<^verbatim>\<open>canRedo\<close>
  returns false. \<^verbatim>\<open>undo_open\<close> and \<^verbatim>\<open>undo_close\<close> always complete.
\<close>

theorem undo_record_clears_redo:
  "(chunk_new (getLabel h) (m_undoStream h, m_objects h) = Inr ctx \<longrightarrow>
      \<not> isl (undo_record chunk_new UndoSizeLimit h)
      \<and> \<not> canRedo (projr (undo_record chunk_new UndoSizeLimit h)))
   \<and> (undo_record chunk_new UndoSizeLimit h = Inr h' \<longrightarrow> \<not> canRedo h')
   \<and> \<not> isl (undo_open UndoSizeLimit h) \<and> \<not> canRedo (projr (undo_open UndoSizeLimit h))
   \<and> \<not> isl (undo_close UndoSizeLimit h) \<and> \<not> canRedo (projr (undo_close UndoSizeLimit h))"
proof -
  have gen: "\<And>enc :: 'a encoder. \<not> isl (enc (getLabel h) (m_undoStream h, m_objects h)) \<Longrightarrow>
      \<not> isl (undo_record enc UndoSizeLimit h)
      \<and> \<not> canRedo (projr (undo_record enc UndoSizeLimit h))"
    by (auto simp: undo_record_def canRedo_def updateUndo_redo_empty split: sum.splits prod.splits)
  have a: "chunk_new (getLabel h) (m_undoStream h, m_objects h) = Inr ctx \<longrightarrow>
      \<not> isl (undo_record chunk_new UndoSizeLimit h)
      \<and> \<not> canRedo (projr (undo_record chunk_new UndoSizeLimit h))"
    using gen [of chunk_new] by simp
  have b: "undo_record chunk_new UndoSizeLimit h = Inr h' \<longrightarrow> \<not> canRedo h'"
    by (auto simp: undo_record_def canRedo_def updateUndo_redo_empty split: sum.splits prod.splits)
  have c: "\<not> isl (undo_open UndoSizeLimit h) \<and> \<not> canRedo (projr (undo_open UndoSizeLimit h))"
    unfolding undo_open_def
    by (rule gen) (simp add: chunk_open_new_def undo_chunk_new_head_returns)
  have d: "\<not> isl (undo_close UndoSizeLimit h) \<and> \<not> canRedo (projr (undo_close UndoSizeLimit h))"
    unfolding undo_close_def
    by (rule gen) (simp add: chunk_close_new_def undo_chunk_new_head_returns)
  show ?thesis using a b c d by blast
qed

theorem undo_record_clears_redo_witness:
  "canRedo redo_history
   \<and> chunk_open_new (getLabel redo_history) (m_undoStream redo_history, m_objects redo_history)
       = Inr (pushChunk \<lparr>chunk_type = UNDO_TYPE_OPEN, chunk_size = sizeof_UndoChunk,
                chunk_label = ''set_size'', chunk_data = NoData\<rparr> (m_undoStream redo_history),
              m_objects redo_history)
   \<and> \<not> isl (undo_record chunk_open_new 8 redo_history)
   \<and> \<not> canRedo (projr (undo_record chunk_open_new 8 redo_history))
   \<and> undo_record chunk_open_new 8 redo_history
       = Inr (projr (undo_record chunk_open_new 8 redo_history))"
proof -
  have r: "canRedo redo_history"
    by (simp add: redo_history_def saved_history_def canRedo_def record_defs eval_defs)
  have l: "getLabel redo_history = Some ''set_size''"
    by (simp add: redo_history_def saved_history_def record_defs eval_defs)
  have e: "chunk_open_new (getLabel redo_history) (m_undoStream redo_history, m_objects redo_history)
       = Inr (pushChunk \<lparr>chunk_type = UNDO_TYPE_OPEN, chunk_size = sizeof_UndoChunk,
                chunk_label = ''set_size'', chunk_data = NoData\<rparr> (m_undoStream redo_history),
              m_objects redo_history)"
    unfolding l by (simp add: chunk_open_new_def undo_chunk_new_def Let_def)
  note t = undo_record_clears_redo [of chunk_open_new redo_history _ 8
      "projr (undo_record chunk_open_new 8 redo_history)"]
  have c: "\<not> isl (undo_record chunk_open_new 8 redo_history)
      \<and> \<not> canRedo (projr (undo_record chunk_open_new 8 redo_history))"
    using t [THEN conjunct1] e by (rule mp)
  have q: "undo_record chunk_open_new 8 redo_history
       = Inr (projr (undo_record chunk_open_new 8 redo_history))"
    using c by simp
  have n: "\<not> canRedo (projr (undo_record chunk_open_new 8 redo_history))"
    using t [THEN conjunct2, THEN conjunct1] q by (rule mp)
  show ?thesis by (intro conjI) (rule r, rule e, rule c [THEN conjunct1], rule n, rule q)
qed

text \<open>
  C10. \<^verbatim>\<open>doUndo\<close> on an empty undo stream, and \<^verbatim>\<open>doRedo\<close> on an empty redo stream,
  returns with the history as it was: the difference counter, both streams, the label and
  the live objects are unchanged, and no inverter of the table is run (the result is the
  same for every table).
\<close>

theorem runUndo_empty_noop:
  "(\<not> canUndo h \<longrightarrow> doUndo actions h = Inr h) \<and> (\<not> canRedo h \<longrightarrow> doRedo actions h = Inr h)"
  by (simp add: canUndo_def canRedo_def doUndo_def doRedo_def runUndo_def runUndo_loop.simps
        source_stream_def popChunk_def stream_empty_def)


theorem runUndo_empty_noop_witness:
  "\<not> canUndo (UndoHistory_new Map.empty :: unit UndoHistory)
   \<and> doUndo example_actions (UndoHistory_new Map.empty) = Inr (UndoHistory_new Map.empty)
   \<and> \<not> canRedo (UndoHistory_new Map.empty :: unit UndoHistory)
   \<and> doRedo example_actions (UndoHistory_new Map.empty) = Inr (UndoHistory_new Map.empty)"
proof -
  have u: "\<not> canUndo (UndoHistory_new Map.empty :: unit UndoHistory)"
    and r: "\<not> canRedo (UndoHistory_new Map.empty :: unit UndoHistory)"
    by (simp_all add: canUndo_def canRedo_def UndoHistory_new_def stream_empty_def stream_new_def)
  from runUndo_empty_noop [of "UndoHistory_new Map.empty" example_actions] u r
  show ?thesis by blast
qed


section \<open>The budget\<close>

lemma level_step_delta: "level_step d c = d + level_delta c"
  by (simp add: level_step_def level_delta_def)

lemma depth_Cons_delta: "open_close_depth (c # cs) = level_delta c + open_close_depth cs"
  by (simp add: open_close_depth_def level_step_def level_delta_def)


lemma returns_from_append:
  "returns_from d (xs @ ys) = returns_from d xs + returns_from (d + open_close_depth xs) ys"
proof (induction xs arbitrary: d)
  case Nil
  then show ?case by (simp add: open_close_depth_def)
next
  case (Cons c xs)
  have "level_step d c + open_close_depth xs = d + open_close_depth (c # xs)"
    by (simp add: depth_Cons level_step_add [of d])
  then show ?case using Cons.IH [of "level_step d c"] by simp
qed

lemma returns_zeros:
  "returns_from d cs + (if d = 0 then 1 else 0)
     = zeros_from d cs + (if d + open_close_depth cs = 0 then 1 else 0)"
proof (induction cs arbitrary: d)
  case Nil
  then show ?case by (simp add: open_close_depth_def)
next
  case (Cons c cs)
  have "level_step d c + open_close_depth cs = d + open_close_depth (c # cs)"
    by (simp add: depth_Cons level_step_add [of d])
  then show ?case using Cons.IH [of "level_step d c"] by simp
qed

lemma depth_rev: "open_close_depth (rev cs) = open_close_depth cs"
  by (simp add: open_close_depth_def rev_filter [symmetric])

lemma returns_rev:
  "returns_from d (rev cs) = zeros_from (- (d + open_close_depth cs)) cs"
proof (induction cs arbitrary: d)
  case Nil
  then show ?case by simp
next
  case (Cons c cs)
  have s: "level_step (- (d + open_close_depth (c # cs))) c = - (d + open_close_depth cs)"
    by (simp add: depth_Cons_delta level_step_delta)
  have "returns_from d (rev (c # cs))
      = returns_from d (rev cs) + (if level_step (d + open_close_depth cs) c = 0 then 1 else 0)"
    by (simp add: returns_from_append depth_rev)
  also have "\<dots> = zeros_from (- (d + open_close_depth cs)) cs
      + (if d + open_close_depth (c # cs) = 0 then 1 else 0)"
    using Cons.IH [of d]
    by (simp add: depth_Cons_delta level_step_delta add.commute add.left_commute)
  also have "\<dots> = zeros_from (- (d + open_close_depth (c # cs))) (c # cs)"
    using s by simp
  finally show ?case .
qed

lemma returns_rev_balanced:
  "open_close_depth cs = 0 \<Longrightarrow> returns_from 0 (rev cs) = returns_from 0 cs"
  using returns_rev [of 0 cs] returns_zeros [of 0 cs] by simp





lemma returns_from_nonneg: "0 \<le> returns_from d cs"
  by (induction cs arbitrary: d) (auto intro: add_nonneg_nonneg)

lemma returns_from_Nil_iff: "open_close_depth cs = 0 \<Longrightarrow> returns_from 0 cs = 0 \<Longrightarrow> cs = []"
proof (rule ccontr)
  assume bal: "open_close_depth cs = 0" and r: "returns_from 0 cs = 0" and ne: "cs \<noteq> []"
  then obtain xs x where cs: "cs = xs @ [x]" by (metis rev_exhaust)
  have "level_step (open_close_depth xs) x = 0"
    using bal cs by (simp add: depth_append depth_Cons_delta level_step_delta) (simp add: open_close_depth_def)
  then have "returns_from 0 cs = returns_from 0 xs + 1"
    using cs by (simp add: returns_from_append)
  then show False using r returns_from_nonneg [of 0 xs] by simp
qed










section \<open>Groups counted from either end\<close>

lemma well_formed_entries:
  assumes "well_formed cs"
  shows "returns_to_zero cs = top_level_singles cs + top_level_groups cs"
proof -
  have wf: "list_all (\<lambda>d. 0 \<le> d) (running_depths 0 cs)" and z: "open_close_depth cs = 0"
    using assms by (simp_all add: well_formed_def)
  have "entries_from 0 cs = returns_from 0 cs"
    using entries_returns [OF wf] z by simp
  then show ?thesis
    using top_level_entries_from [of 0 cs]
    by (simp add: returns_to_zero_def returns_from_depths top_level_singles_def top_level_groups_def)
qed

text \<open>
  C5. On a well-formed stream (the running depth is never negative and every OPEN is matched
  by a CLOSE), \<^verbatim>\<open>count_undo_groups\<close> returns the number of times the running depth
  returns to zero while walking head to tail, and that number is the number of top-level
  entries: top-level single chunks plus top-level groups. The recordings leave the newest
  chunk at the head, so a group recorded by \<^verbatim>\<open>undo_open\<close> ... \<^verbatim>\<open>undo_close\<close> reads
  from its CLOSE to its OPEN: such a stream is well formed in the order of recording, from
  the tail to the head. On it too \<^verbatim>\<open>count_undo_groups\<close> returns the number of returns
  to zero of the walk from the head, which is the number of returns to zero and the number
  of top-level entries in the order of recording.
\<close>

theorem count_undo_groups_well_formed:
  "(well_formed (chunks s) \<longrightarrow>
      count_undo_groups s = returns_to_zero (chunks s)
      \<and> returns_to_zero (chunks s) = top_level_singles (chunks s) + top_level_groups (chunks s))
   \<and> (well_formed (rev (chunks s)) \<longrightarrow>
      count_undo_groups s = returns_to_zero (chunks s)
      \<and> returns_to_zero (chunks s) = returns_to_zero (rev (chunks s))
      \<and> returns_to_zero (chunks s)
          = top_level_singles (rev (chunks s)) + top_level_groups (rev (chunks s)))"
proof -
  have a: "count_undo_groups s = returns_to_zero (chunks s)"
    by (simp add: count_undo_groups_def count_groups_loop_returns returns_to_zero_def returns_from_depths)
  have m: "returns_to_zero (chunks s) = returns_to_zero (rev (chunks s))"
    if "well_formed (rev (chunks s))"
  proof -
    have "open_close_depth (chunks s) = 0"
      using that depth_rev [of "chunks s"] by (simp add: well_formed_def)
    then show ?thesis
      using returns_rev_balanced [of "chunks s"]
      by (simp add: returns_to_zero_def returns_from_depths)
  qed
  show ?thesis using a m well_formed_entries [of "chunks s"] well_formed_entries [of "rev (chunks s)"]
    by simp
qed

theorem count_undo_groups_well_formed_witness:
  "well_formed (chunks example_stream) \<and> count_undo_groups example_stream = 3
     \<and> top_level_singles (chunks example_stream) = 2
     \<and> top_level_groups (chunks example_stream) = 1
     \<and> map chunk_type (chunks recorded_stream)
         = [UNDO_TYPE_CLOSE, UNDO_TYPE_SET_SIZE, UNDO_TYPE_OPEN, UNDO_TYPE_SET_SIZE]
     \<and> well_formed (rev (chunks recorded_stream)) \<and> count_undo_groups recorded_stream = 2
     \<and> top_level_singles (rev (chunks recorded_stream)) = 1
     \<and> top_level_groups (rev (chunks recorded_stream)) = 1"
proof -
  have wf: "well_formed (chunks example_stream)"
    by (simp add: well_formed_def example_stream_def plain_chunk_def level_step_def
          open_close_depth_def)
  have s: "top_level_singles (chunks example_stream) = 2"
    by (simp add: top_level_singles_def example_stream_def plain_chunk_def level_step_def)
  have g: "top_level_groups (chunks example_stream) = 1"
    by (simp add: top_level_groups_def example_stream_def plain_chunk_def level_step_def)
  from count_undo_groups_well_formed [of example_stream, THEN conjunct1, THEN mp, OF wf] s g
  have c: "count_undo_groups example_stream = 3" by simp
  have r: "map chunk_type (chunks recorded_stream)
         = [UNDO_TYPE_CLOSE, UNDO_TYPE_SET_SIZE, UNDO_TYPE_OPEN, UNDO_TYPE_SET_SIZE]"
    by (simp add: recorded_stream_def record_defs eval_defs)
  have ts: "\<And>cs. map chunk_type cs
         = [UNDO_TYPE_CLOSE, UNDO_TYPE_SET_SIZE, UNDO_TYPE_OPEN, UNDO_TYPE_SET_SIZE]
      \<Longrightarrow> \<exists>c1 c2 c3 c4. cs = [c1, c2, c3, c4] \<and> chunk_type c1 = UNDO_TYPE_CLOSE
            \<and> chunk_type c2 = UNDO_TYPE_SET_SIZE \<and> chunk_type c3 = UNDO_TYPE_OPEN
            \<and> chunk_type c4 = UNDO_TYPE_SET_SIZE"
    by auto
  obtain c1 c2 c3 c4 where cs: "chunks recorded_stream = [c1, c2, c3, c4]"
      "chunk_type c1 = UNDO_TYPE_CLOSE" "chunk_type c2 = UNDO_TYPE_SET_SIZE"
      "chunk_type c3 = UNDO_TYPE_OPEN" "chunk_type c4 = UNDO_TYPE_SET_SIZE"
    using ts [OF r] by blast
  have wr: "well_formed (rev (chunks recorded_stream))"
    using cs by (simp add: well_formed_def level_step_def open_close_depth_def)
  have sr: "top_level_singles (rev (chunks recorded_stream)) = 1"
    using cs by (simp add: top_level_singles_def level_step_def)
  have gr: "top_level_groups (rev (chunks recorded_stream)) = 1"
    using cs by (simp add: top_level_groups_def level_step_def)
  from count_undo_groups_well_formed [of recorded_stream, THEN conjunct2, THEN mp, OF wr] sr gr
  have cr: "count_undo_groups recorded_stream = 2" by simp
  show ?thesis
    by (intro conjI) (rule wf, rule c, rule s, rule g, rule r, rule wr, rule cr, rule sr, rule gr)
qed


section \<open>Undoing and the saved state\<close>

lemma running_depths_nonempty: "running_depths d cs = [] \<longleftrightarrow> cs = []"
  by (cases cs) simp_all

lemma popChunk_head_Cons:
  "chunks s = c # cs \<Longrightarrow> popChunk False s = (Some c, s\<lparr>chunks := cs, memSize := memSize s - chunk_size c\<rparr>)"
  by (simp add: popChunk_def)

lemma runUndo_loop_entry:
  assumes "chunks (source_stream state h) = g @ rest" and "g \<noteq> []"
    and "list_all (\<lambda>d. d \<noteq> 0) (butlast (running_depths level g))"
    and "last (running_depths level g) = 0"
  shows "runUndo_loop actions state level h = apply_chunks actions state g h"
  using assms
proof (induction g arbitrary: level h)
  case Nil
  then show ?case by simp
next
  case (Cons c g)
  let ?rest = "(source_stream state h)\<lparr>chunks := g @ rest,
      memSize := memSize (source_stream state h) - chunk_size c\<rparr>"
  have pop: "popChunk False (source_stream state h) = (Some c, ?rest)"
    using Cons.prems(1) popChunk_head_Cons [of "source_stream state h" c "g @ rest"] by simp
  show ?case
  proof (cases "invert_step actions state c ?rest h")
    case (Inl e)
    then show ?thesis using pop
      by (simp add: runUndo_loop.simps [of actions state level h])
  next
    case (Inr h')
    have src: "chunks (source_stream state h') = g @ rest"
      using invert_step_source [OF Inr] by simp
    show ?thesis
    proof (cases "g = []")
      case True
      then have "level_step level c = 0" using Cons.prems(4) by simp
      then show ?thesis using pop Inr True
        by (simp add: runUndo_loop.simps [of actions state level h])
    next
      case False
      then have ne: "running_depths (level_step level c) g \<noteq> []"
        by (simp add: running_depths_nonempty)
      have nz: "level_step level c \<noteq> 0"
        and a: "list_all (\<lambda>d. d \<noteq> 0) (butlast (running_depths (level_step level c) g))"
        and b: "last (running_depths (level_step level c) g) = 0"
        using Cons.prems(3,4) ne by simp_all
      have "runUndo_loop actions state (level_step level c) h' = apply_chunks actions state g h'"
        using Cons.IH [OF src False a b] .
      then show ?thesis using pop Inr nz
        by (simp add: runUndo_loop.simps [of actions state level h])
    qed
  qed
qed

lemma invert_step_counters:
  "invert_step actions state c rest h = Inr h' \<Longrightarrow>
     m_diffCount h' = m_diffCount h + (if state = DO_UNDO then - 1 else 1)
     \<and> m_diffSaved h' = m_diffSaved h"
  by (cases state)
     (auto simp: invert_step_def Let_def set_source_stream_def set_dest_stream_def setLabel_def
        split: sum.splits prod.splits)

lemma apply_chunks_result:
  "apply_chunks actions state g h = Inr h' \<Longrightarrow> chunks (source_stream state h) = g @ rest \<Longrightarrow>
     chunks (source_stream state h') = rest
     \<and> m_diffCount h' = m_diffCount h + (if state = DO_UNDO then - int (length g) else int (length g))
     \<and> m_diffSaved h' = m_diffSaved h"
proof (induction g arbitrary: h)
  case Nil
  then show ?case by simp
next
  case (Cons c g)
  let ?rest = "(source_stream state h)\<lparr>chunks := g @ rest,
      memSize := memSize (source_stream state h) - chunk_size c\<rparr>"
  have pop: "popChunk False (source_stream state h) = (Some c, ?rest)"
    using Cons.prems(2) popChunk_head_Cons [of "source_stream state h" c "g @ rest"] by simp
  obtain h1 where s: "invert_step actions state c ?rest h = Inr h1"
    and r: "apply_chunks actions state g h1 = Inr h'"
    using Cons.prems(1) pop by (auto split: sum.splits)
  have src: "chunks (source_stream state h1) = g @ rest"
    using invert_step_source [OF s] by simp
  show ?case using Cons.IH [OF r src] invert_step_counters [OF s] by auto
qed

lemma walk_group_entry:
  "\<exists>p. c # it = p @ snd (walk_group level (c # it)) \<and> p \<noteq> []
     \<and> list_all (\<lambda>d. d \<noteq> 0) (butlast (running_depths level p))
     \<and> last (running_depths level p) = fst (walk_group level (c # it))"
proof (induction it arbitrary: level c)
  case Nil
  have "[c] = [c] @ snd (walk_group level [c]) \<and> [c] \<noteq> []
     \<and> list_all (\<lambda>d. d \<noteq> 0) (butlast (running_depths level [c]))
     \<and> last (running_depths level [c]) = fst (walk_group level [c])"
    by (simp add: Let_def)
  then show ?case by blast
next
  case (Cons a it)
  show ?case
  proof (cases "level_step level c = 0")
    case True
    then have "c # a # it = [c] @ snd (walk_group level (c # a # it)) \<and> [c] \<noteq> []
     \<and> list_all (\<lambda>d. d \<noteq> 0) (butlast (running_depths level [c]))
     \<and> last (running_depths level [c]) = fst (walk_group level (c # a # it))"
      by (simp add: Let_def)
    then show ?thesis by blast
  next
    case False
    obtain p where p: "a # it = p @ snd (walk_group (level_step level c) (a # it))" "p \<noteq> []"
      "list_all (\<lambda>d. d \<noteq> 0) (butlast (running_depths (level_step level c) p))"
      "last (running_depths (level_step level c) p) = fst (walk_group (level_step level c) (a # it))"
      using Cons.IH [of a "level_step level c"] by blast
    have ne: "running_depths (level_step level c) p \<noteq> []"
      using p(2) by (simp add: running_depths_nonempty)
    have w: "walk_group level (c # a # it) = walk_group (level_step level c) (a # it)"
      using False by (simp add: Let_def)
    have "c # a # it = (c # p) @ snd (walk_group level (c # a # it)) \<and> c # p \<noteq> []
     \<and> list_all (\<lambda>d. d \<noteq> 0) (butlast (running_depths level (c # p)))
     \<and> last (running_depths level (c # p)) = fst (walk_group level (c # a # it))"
      unfolding w using False p ne by (simp del: walk_group.simps)
    then show ?thesis by blast
  qed
qed

lemma first_entry_split:
  assumes ne: "new \<noteq> []" and bal: "open_close_depth new = 0"
  shows "\<exists>g new'. new = g @ new' \<and> head_entry g \<and> open_close_depth new' = 0
           \<and> returns_from 0 new = 1 + returns_from 0 new'"
proof -
  obtain c it where ci: "new = c # it" using ne by (cases new) auto
  let ?w = "walk_group 0 (c # it)"
  obtain p where p: "c # it = p @ snd ?w" "p \<noteq> []"
      "list_all (\<lambda>d. d \<noteq> 0) (butlast (running_depths 0 p))"
      "last (running_depths 0 p) = fst ?w"
    using walk_group_entry [of c it 0] by blast
  have d: "fst ?w + open_close_depth (snd ?w) = 0"
    using walk_group_depth [of 0 c it] bal ci by simp
  have z: "fst ?w = 0"
  proof (cases "snd ?w = []")
    case True
    then show ?thesis using d by (simp add: open_close_depth_def)
  next
    case False
    then show ?thesis using walk_group_rest [of 0 c it] by simp
  qed
  have n: "new = p @ snd ?w" using ci p(1) by (rule trans)
  have e: "head_entry p" using p(2,3) p(4) [unfolded z] by (simp add: head_entry_def)
  have b: "open_close_depth (snd ?w) = 0" using d z by (simp del: walk_group.simps)
  have r: "returns_from 0 new = 1 + returns_from 0 (snd ?w)"
    using walk_group_returns [of 0 c it] z ci by (simp del: walk_group.simps)
  show ?thesis using n e b r by blast
qed

lemma doUndo_times_counters:
  "doUndo_times actions j h1 = Inr h2 \<Longrightarrow> chunks (m_undoStream h1) = new @ old \<Longrightarrow>
   open_close_depth new = 0 \<Longrightarrow> returns_from 0 new = int j \<Longrightarrow>
     m_diffCount h2 = m_diffCount h1 - int (length new) \<and> m_diffSaved h2 = m_diffSaved h1
     \<and> chunks (m_undoStream h2) = old"
proof (induction j arbitrary: h1 new)
  case 0
  then have "new = []" using returns_from_Nil_iff by simp
  then show ?case using 0 by simp
next
  case (Suc j)
  have ne: "new \<noteq> []" using Suc.prems(4) by auto
  obtain g new' where g: "new = g @ new'" "head_entry g" "open_close_depth new' = 0"
      "returns_from 0 new = 1 + returns_from 0 new'"
    using first_entry_split [OF ne Suc.prems(3)] by blast
  obtain h' where u: "doUndo actions h1 = Inr h'" and r: "doUndo_times actions j h' = Inr h2"
    using Suc.prems(1) by (auto split: sum.splits)
  have src: "chunks (source_stream DO_UNDO h1) = g @ (new' @ old)"
    using Suc.prems(2) g(1) by (simp add: source_stream_def)
  have "runUndo_loop actions DO_UNDO 0 h1 = apply_chunks actions DO_UNDO g h1"
    using runUndo_loop_entry [OF src] g(2) by (simp add: head_entry_def)
  then have a: "apply_chunks actions DO_UNDO g h1 = Inr h'"
    using u by (simp add: doUndo_def runUndo_def)
  note res = apply_chunks_result [OF a src]
  have s': "chunks (m_undoStream h') = new' @ old" using res by (simp add: source_stream_def)
  have j: "returns_from 0 new' = int j" using g(4) Suc.prems(4) by simp
  show ?case using Suc.IH [OF r s' g(3) j] res g(1) by simp
qed

lemma discardTail_counters:
  "m_diffCount (discardTail h) = m_diffCount h \<and> m_diffSaved (discardTail h) = m_diffSaved h"
  by (simp add: discardTail_def)

lemma discard_loop_counters:
  "m_diffCount (discard_loop limit groups h) = m_diffCount h
     \<and> m_diffSaved (discard_loop limit groups h) = m_diffSaved h"
proof (induction limit groups h rule: discard_loop.induct)
  case (1 limit groups h)
  show ?case
  proof (cases "groups > 1 \<and> getMemSize (m_undoStream h) > limit")
    case True
    then show ?thesis using "1.IH"
      by (simp add: discard_loop.simps [of limit groups h] discardTail_counters)
  next
    case False
    then show ?thesis by (auto simp: discard_loop.simps [of limit groups h])
  qed
qed

lemma updateUndo_counters:
  "m_diffCount (updateUndo limit h) = m_diffCount h + 1
     \<and> m_diffSaved (updateUndo limit h) = m_diffSaved h"
  by (simp add: updateUndo_def Let_def discard_loop_counters clearRedo_def)

lemma undo_record_counters:
  "undo_record chunk_new limit h = Inr h' \<Longrightarrow>
     m_diffCount h' = m_diffCount h + 1 \<and> m_diffSaved h' = m_diffSaved h"
  by (auto simp: undo_record_def updateUndo_counters split: sum.splits prod.splits)

lemma undo_record_all_counters:
  "undo_record_all encoders limit h = Inr h' \<Longrightarrow>
     m_diffCount h' = m_diffCount h + int (length encoders) \<and> m_diffSaved h' = m_diffSaved h"
proof (induction encoders arbitrary: h)
  case Nil
  then show ?case by simp
next
  case (Cons e encoders)
  obtain h1 where a: "undo_record e limit h = Inr h1" and b: "undo_record_all encoders limit h1 = Inr h'"
    using Cons.prems by (auto split: sum.splits)
  show ?case using Cons.IH [OF b] undo_record_counters [OF a] by simp
qed

lemma plain_chunks_depths:
  "list_all (\<lambda>c. chunk_type c \<noteq> UNDO_TYPE_OPEN \<and> chunk_type c \<noteq> UNDO_TYPE_CLOSE) cs \<Longrightarrow>
     running_depths d cs = replicate (length cs) d"
  by (induction cs) (simp_all add: level_step_def)

text \<open>
  C2. The saved-state law. Right after \<^verbatim>\<open>markSavedState\<close>, \<^verbatim>\<open>isSavedState\<close> is true. A
  recording made while it is true makes it false, whatever is recorded. After \<open>n\<close>
  recordings whose \<open>n\<close> chunks are on top of the undo stream, whatever is left below them
  (the budget evicted none of the \<open>n\<close>), and that form \<open>j\<close> complete top-level entries,
  \<open>j\<close> calls of \<^verbatim>\<open>doUndo\<close> that raise no error make it true again. Chunks none of which
  is a group marker are balanced and form as many entries as they are, so \<open>j\<close> is \<open>n\<close>
  when no recording is \<^verbatim>\<open>undo_open\<close> or \<^verbatim>\<open>undo_close\<close>. Below, \<open>new\<close> are the
  chunks of the recordings and \<open>old\<close> is what the undo stream holds below them.
\<close>

theorem saved_state_law:
  "isSavedState (markSavedState h)
   \<and> (isSavedState h \<and> undo_record chunk_new UndoSizeLimit h = Inr h' \<longrightarrow> \<not> isSavedState h')
   \<and> (isSavedState h \<and> undo_record_all encoders UndoSizeLimit h = Inr h1
        \<and> chunks (m_undoStream h1) = new @ old
        \<and> length new = length encoders
        \<and> open_close_depth new = 0 \<and> returns_to_zero new = int j
        \<and> doUndo_times actions j h1 = Inr h2
      \<longrightarrow> isSavedState h2)
   \<and> (list_all (\<lambda>c. chunk_type c \<noteq> UNDO_TYPE_OPEN \<and> chunk_type c \<noteq> UNDO_TYPE_CLOSE) cs
      \<longrightarrow> open_close_depth cs = 0 \<and> returns_to_zero cs = int (length cs))"
proof (intro conjI impI)
  show "isSavedState (markSavedState h)" by (simp add: isSavedState_def markSavedState_def)
next
  assume "list_all (\<lambda>c. chunk_type c \<noteq> UNDO_TYPE_OPEN \<and> chunk_type c \<noteq> UNDO_TYPE_CLOSE) cs"
  then show "open_close_depth cs = 0" and "returns_to_zero cs = int (length cs)"
    using plain_chunks_depths [of cs 0]
    by (simp_all add: open_close_depth_def returns_to_zero_def list_all_iff)
next
  assume "isSavedState h \<and> undo_record chunk_new UndoSizeLimit h = Inr h'"
  then show "\<not> isSavedState h'"
    using undo_record_counters [of chunk_new UndoSizeLimit h h'] by (simp add: isSavedState_def)
next
  assume a: "isSavedState h \<and> undo_record_all encoders UndoSizeLimit h = Inr h1
        \<and> chunks (m_undoStream h1) = new @ old
        \<and> length new = length encoders
        \<and> open_close_depth new = 0 \<and> returns_to_zero new = int j
        \<and> doUndo_times actions j h1 = Inr h2"
  then have r: "returns_from 0 new = int j"
    by (simp add: returns_to_zero_def returns_from_depths)
  from a have "m_diffCount h1 = m_diffCount h + int (length encoders) \<and> m_diffSaved h1 = m_diffSaved h"
    using undo_record_all_counters by blast
  moreover from a r have "m_diffCount h2 = m_diffCount h1 - int (length new) \<and> m_diffSaved h2 = m_diffSaved h1"
    using doUndo_times_counters [of actions j h1 h2 new old] by blast
  ultimately show "isSavedState h2" using a by (simp add: isSavedState_def)
qed

theorem saved_state_law_witness:
  "isSavedState saved_history
   \<and> \<not> isSavedState (projr (undo_record chunk_open_new 8 saved_history))
   \<and> isSavedState (projr (doUndo_times example_actions 1
         (projr (undo_record_all [chunk_open_new, chunk_close_new] 8 saved_history))))
   \<and> length (chunks (m_undoStream saved_history)) = 1
   \<and> length (chunks (m_undoStream
         (projr (undo_record_all [chunk_set_size_new 2] 0 saved_history)))) = 1
   \<and> isSavedState (projr (doUndo_times example_actions 1
         (projr (undo_record_all [chunk_set_size_new 2] 0 saved_history))))"
proof -
  let ?h1 = "projr (undo_record_all [chunk_open_new, chunk_close_new] 8 saved_history)"
  let ?h2 = "projr (doUndo_times example_actions 1 ?h1)"
  let ?h' = "projr (undo_record chunk_open_new 8 saved_history)"
  let ?new = "take 2 (chunks (m_undoStream ?h1))"
  let ?k1 = "projr (undo_record_all [chunk_set_size_new 2] 0 saved_history)"
  let ?k2 = "projr (doUndo_times example_actions 1 ?k1)"
  have s: "isSavedState saved_history"
    by (simp add: saved_history_def record_defs eval_defs)
  have "\<not> isl (undo_record chunk_open_new 8 saved_history)"
    by (simp add: saved_history_def record_defs eval_defs)
  then have r1: "undo_record chunk_open_new 8 saved_history = Inr ?h'" by simp
  have "\<not> isl (undo_record_all [chunk_open_new, chunk_close_new] 8 saved_history)"
    by (simp add: saved_history_def record_defs eval_defs)
  then have r2: "undo_record_all [chunk_open_new, chunk_close_new] 8 saved_history = Inr ?h1"
    by simp
  have "\<not> isl (doUndo_times example_actions 1 ?h1)"
    by (simp add: saved_history_def record_defs eval_defs)
  then have r3: "doUndo_times example_actions 1 ?h1 = Inr ?h2" by simp
  have c: "chunks (m_undoStream ?h1) = ?new @ chunks (m_undoStream saved_history)"
    by (simp add: saved_history_def record_defs eval_defs)
  have l: "length ?new = length [chunk_open_new :: unit encoder, chunk_close_new]"
    by (simp add: saved_history_def record_defs eval_defs)
  have b: "open_close_depth ?new = 0"
    by (simp add: saved_history_def record_defs eval_defs open_close_depth_def)
  have z: "returns_to_zero ?new = int 1"
    by (simp add: saved_history_def record_defs eval_defs returns_to_zero_def)
  note t = saved_state_law [where h = saved_history and chunk_new = chunk_open_new
      and UndoSizeLimit = 8 and h' = ?h' and encoders = "[chunk_open_new, chunk_close_new]"
      and ?h1.0 = ?h1 and new = ?new and old = "chunks (m_undoStream saved_history)" and j = 1
      and actions = example_actions and ?h2.0 = ?h2]
  have a: "\<not> isSavedState ?h'"
    using t [THEN conjunct2, THEN conjunct1] s r1 by blast
  have d: "isSavedState ?h2"
    using t [THEN conjunct2, THEN conjunct2, THEN conjunct1] s r2 c l b z r3 by blast
  have o: "length (chunks (m_undoStream saved_history)) = 1"
    by (simp add: saved_history_def record_defs eval_defs)
  have "\<not> isl (undo_record_all [chunk_set_size_new 2] 0 saved_history)"
    by (simp add: saved_history_def record_defs eval_defs)
  then have q2: "undo_record_all [chunk_set_size_new 2] 0 saved_history = Inr ?k1" by simp
  have "\<not> isl (doUndo_times example_actions 1 ?k1)"
    by (simp add: saved_history_def record_defs eval_defs)
  then have q3: "doUndo_times example_actions 1 ?k1 = Inr ?k2" by simp
  have kc: "chunks (m_undoStream ?k1) = chunks (m_undoStream ?k1) @ []" by simp
  have kl: "length (chunks (m_undoStream ?k1)) = length [chunk_set_size_new 2 :: unit encoder]"
    by (simp add: saved_history_def record_defs eval_defs)
  have kb: "open_close_depth (chunks (m_undoStream ?k1)) = 0"
    by (simp add: saved_history_def record_defs eval_defs open_close_depth_def)
  have kz: "returns_to_zero (chunks (m_undoStream ?k1)) = int 1"
    by (simp add: saved_history_def record_defs eval_defs returns_to_zero_def)
  note u = saved_state_law [where h = saved_history and UndoSizeLimit = 0
      and encoders = "[chunk_set_size_new 2]" and ?h1.0 = ?k1
      and new = "chunks (m_undoStream ?k1)" and old = "[]" and j = 1
      and actions = example_actions and ?h2.0 = ?k2]
  have k: "isSavedState ?k2"
    using u [THEN conjunct2, THEN conjunct2, THEN conjunct1] s q2 kc kl kb kz q3 by blast
  have kl1: "length (chunks (m_undoStream ?k1)) = 1" using kl by simp
  show ?thesis by (intro conjI) (rule s, rule a, rule d, rule o, rule kl1, rule k)
qed

text \<open>
  C2 does not hold with the same count of \<^verbatim>\<open>doUndo\<close> calls as of recordings. On a
  saved history with one chunk, \<^verbatim>\<open>undo_open\<close> and \<^verbatim>\<open>undo_close\<close> followed by two
  calls of \<^verbatim>\<open>doUndo\<close>: the first call pops the group, the second the older chunk. On
  the same history with a size limit of zero, two \<^verbatim>\<open>undo_set_size\<close> followed by two
  calls of \<^verbatim>\<open>doUndo\<close>: the budget has evicted the first recording, so only one chunk is
  left to undo.
\<close>

theorem saved_state_same_count_counterexample:
  "isSavedState saved_history
   \<and> \<not> isl (undo_record_all [chunk_open_new, chunk_close_new] 8 saved_history)
   \<and> \<not> isl (doUndo_times example_actions 2
          (projr (undo_record_all [chunk_open_new, chunk_close_new] 8 saved_history)))
   \<and> \<not> isSavedState (projr (doUndo_times example_actions 2
          (projr (undo_record_all [chunk_open_new, chunk_close_new] 8 saved_history))))
   \<and> \<not> isl (undo_record_all [chunk_set_size_new 2, chunk_set_size_new 2] 0 saved_history)
   \<and> \<not> isl (doUndo_times example_actions 2
          (projr (undo_record_all [chunk_set_size_new 2, chunk_set_size_new 2] 0 saved_history)))
   \<and> \<not> isSavedState (projr (doUndo_times example_actions 2
          (projr (undo_record_all [chunk_set_size_new 2, chunk_set_size_new 2] 0 saved_history))))"
  by (simp add: saved_history_def record_defs eval_defs numeral_2_eq_2)

lemma undo_chunk_new_pushes:
  "undo_chunk_new label t sz tail (stream, objects) = Inr (stream', objects') \<Longrightarrow>
     \<exists>c'. stream' = pushChunk c' stream \<and> chunk_type c' = t \<and> objects' = objects"
  by (auto simp: undo_chunk_new_def Let_def split: if_splits)

lemma stopped_returns: "stopped e r = Inr x \<longleftrightarrow> False"
  by (simp add: stopped_def split: sum.splits)

lemma and_then_returns:
  "and_then r f = Inr (stream', objects') \<longleftrightarrow>
     (\<exists>objects''. r = Inr (stream', objects'') \<and> objects' = f objects'')"
  by (auto simp: and_then_def split: sum.splits prod.splits)



































































lemma undo_chunk_new_quiet: "undo_chunk_new label t sz tail ctx \<noteq> Inl (UndoException msg, ctx')"
  by (simp add: undo_chunk_new_def Let_def)











































































section \<open>Inverting an IMAGE chunk\<close>

lemma bytes_per_pixel_pos: "0 < bytes_per_pixel t"
  by (cases t) (simp_all add: bytes_per_pixel_def)



lemma image_write_row_other:
  "nat y' \<noteq> nat y \<Longrightarrow> img_line (image_write img x y bs) ! nat y' = img_line img ! nat y'"
  by (simp add: image_write_def Let_def)









section \<open>Inverting a REMAP_PALETTE chunk\<close>

lemma byte_unat_less: "unat (b :: byte) < 256"
  using unsigned_less [of b, where 'a = nat] by simp

lemma inverse_fold_length:
  "length (fold (\<lambda>c tbl. tbl[unat ((m :: byte list) ! c) := int c]) cs tbl) = length tbl"
  by (induction cs arbitrary: tbl) simp_all

lemma inverse_fold:
  assumes "distinct (m :: byte list)" and "n \<le> length m" and "length tbl = 256"
  shows "\<forall>i < n. fold (\<lambda>c tbl. tbl[unat (m ! c) := int c]) [0..<n] tbl ! unat (m ! i) = int i"
  using assms(2)
proof (induction n)
  case 0
  then show ?case by simp
next
  case (Suc n)
  let ?f = "fold (\<lambda>c tbl. tbl[unat (m ! c) := int c]) [0..<n] tbl"
  have len: "length ?f = 256" using assms(3) by (simp add: inverse_fold_length)
  have ih: "\<forall>i < n. ?f ! unat (m ! i) = int i" using Suc by simp
  show ?case
  proof (intro allI impI)
    fix i assume i: "i < Suc n"
    show "fold (\<lambda>c tbl. tbl[unat (m ! c) := int c]) [0..<Suc n] tbl ! unat (m ! i) = int i"
    proof (cases "i = n")
      case True
      then show ?thesis using len byte_unat_less [of "m ! n"] by simp
    next
      case False
      then have lt: "i < n" using i by simp
      have "m ! i \<noteq> m ! n"
        using assms(1) Suc.prems lt by (simp add: nth_eq_iff_index_eq)
      then have "unat (m ! i) \<noteq> unat (m ! n)" by (simp add: word_unat_eq_iff)
      then show ?thesis using ih lt by simp
    qed
  qed
qed

lemma inverse_mapping_length: "length (inverse_mapping m) = 256"
  by (simp add: inverse_mapping_def inverse_fold_length)

lemma inverse_mapping_left:
  "distinct m \<Longrightarrow> length m = 256 \<Longrightarrow> i < 256 \<Longrightarrow> inverse_mapping m ! unat (m ! i) = int i"
  using inverse_fold [of m 256 "replicate 256 0"] by (simp add: inverse_mapping_def)

lemma permutation_onto:
  assumes "distinct m" and "length m = 256"
  shows "\<exists>i < 256. m ! i = (b :: byte)"
proof -
  have "card (set m) = 256" using assms by (simp add: distinct_card)
  moreover have "card (UNIV :: byte set) = 256" by (simp add: card_word)
  ultimately have "set m = UNIV"
    by (metis card_subset_eq finite_code subset_UNIV)
  then have "b \<in> set m" by simp
  then show ?thesis using assms(2) by (metis in_set_conv_nth)
qed

lemma inverse_mapping_right:
  assumes "distinct m" and "length m = 256" and "j < 256"
  shows "0 \<le> inverse_mapping m ! j \<and> inverse_mapping m ! j < 256
       \<and> unat (m ! nat (inverse_mapping m ! j)) = j"
proof -
  obtain i where i: "i < 256" "m ! i = (of_nat j :: byte)"
    using permutation_onto [OF assms(1,2)] by blast
  have "unat (of_nat j :: byte) = j" using assms(3) by (simp add: unat_of_nat)
  then have u: "unat (m ! i) = j" using i(2) by simp
  have "inverse_mapping m ! j = int i"
    using inverse_mapping_left [OF assms(1,2) i(1)] u by simp
  then show ?thesis using i(1) u by simp
qed

lemma stored_inverse_distinct:
  assumes "distinct m" and "length m = 256"
  shows "distinct (stored_mapping (inverse_mapping m))"
proof -
  have "inj_on (\<lambda>c. word_of_int (inverse_mapping m ! c) :: byte) {0..<256}"
  proof (rule inj_onI)
    fix a b assume "a \<in> {0..<256::nat}" and "b \<in> {0..<256::nat}"
      and e: "(word_of_int (inverse_mapping m ! a) :: byte) = word_of_int (inverse_mapping m ! b)"
    then have a: "a < 256" and b: "b < 256" by simp_all
    note ra = inverse_mapping_right [OF assms a] and rb = inverse_mapping_right [OF assms b]
    have ta: "take_bit 8 (inverse_mapping m ! a) = inverse_mapping m ! a"
      using ra by (simp add: take_bit_int_eq_self)
    have tb: "take_bit 8 (inverse_mapping m ! b) = inverse_mapping m ! b"
      using rb by (simp add: take_bit_int_eq_self)
    have "take_bit 8 (inverse_mapping m ! a) = take_bit 8 (inverse_mapping m ! b)"
      using e by (simp add: word_of_int_eq_iff)
    then have "inverse_mapping m ! a = inverse_mapping m ! b" using ta tb by simp
    then show "a = b" using ra rb by metis
  qed
  then show ?thesis by (simp add: stored_mapping_def distinct_map)
qed

lemma stored_inverse_nth:
  assumes "distinct m" and "length m = 256" and "i < 256"
  shows "unat (stored_mapping (inverse_mapping m) ! unat (m ! i)) = i"
proof -
  have "stored_mapping (inverse_mapping m) ! unat (m ! i)
      = word_of_int (inverse_mapping m ! unat (m ! i))"
    using byte_unat_less [of "m ! i"] by (simp add: stored_mapping_def)
  also have "\<dots> = (word_of_int (int i) :: byte)"
    using inverse_mapping_left [OF assms] by simp
  finally show ?thesis using assms(3) by (simp add: unat_of_nat)
qed

lemma inverse_twice:
  assumes "distinct m" and "length m = 256"
  shows "stored_mapping (inverse_mapping (stored_mapping (inverse_mapping m))) = m"
proof (rule nth_equalityI)
  show "length (stored_mapping (inverse_mapping (stored_mapping (inverse_mapping m)))) = length m"
    using assms(2) by (simp add: stored_mapping_def)
next
  fix i assume "i < length (stored_mapping (inverse_mapping (stored_mapping (inverse_mapping m))))"
  then have i: "i < 256" by (simp add: stored_mapping_def)
  let ?m1 = "stored_mapping (inverse_mapping m)"
  have d1: "distinct ?m1" using stored_inverse_distinct [OF assms] .
  have l1: "length ?m1 = 256" by (simp add: stored_mapping_def)
  have j: "unat (m ! i) < 256" by (rule byte_unat_less)
  have "inverse_mapping ?m1 ! unat (?m1 ! unat (m ! i)) = int (unat (m ! i))"
    using inverse_mapping_left [OF d1 l1 j] .
  then have "inverse_mapping ?m1 ! i = int (unat (m ! i))"
    using stored_inverse_nth [OF assms i] by simp
  then show "stored_mapping (inverse_mapping ?m1) ! i = m ! i"
    using i by (simp add: stored_mapping_def)
qed

lemma remap_invert_emitted:
  assumes "chunk_data chunk = RemapPaletteData sid ff ft m" and "length m = 256"
  shows "chunk_data (emitted (chunk_remap_palette_invert remapImages label chunk (stream, objects)))
      = RemapPaletteData sid ff ft (stored_mapping (inverse_mapping m))"
  using assms
  by (simp add: chunk_remap_palette_invert_def chunk_remap_palette_new_def undo_chunk_new_def
        Let_def emitted_def result_ctx_def pushChunk_def inverse_mapping_length stored_mapping_def
        sizeof_UndoChunk_def sizeof_UndoChunkRemapPalette_def
      split: option.splits)

text \<open>
  C7. The inverter of a REMAP_PALETTE chunk builds \<open>inverse[mapping[i]] = i\<close> for the
  256 entries. When the table of the chunk is a permutation of the 256 byte values (256
  distinct bytes), the inverse composed with the table is the identity, either way round,
  the chunk pushed by the inverter carries the inverse table, and the chunk pushed by
  inverting that chunk carries the table of the first chunk again.
\<close>

theorem remap_palette_inverse:
  assumes "chunk_data chunk = RemapPaletteData sid ff ft m" and "length m = 256" and "distinct m"
  shows "(\<forall>i < 256. inverse_mapping m ! unat (m ! i) = int i)
     \<and> (\<forall>j < 256. unat (m ! nat (inverse_mapping m ! j)) = j)
     \<and> chunk_data (emitted (chunk_remap_palette_invert remapImages label chunk (stream, objects)))
         = RemapPaletteData sid ff ft (stored_mapping (inverse_mapping m))
     \<and> chunk_data (emitted (chunk_remap_palette_invert remapImages label'
           (emitted (chunk_remap_palette_invert remapImages label chunk (stream, objects)))
           (stream', objects')))
         = chunk_data chunk"
proof (intro conjI)
  show "\<forall>i < 256. inverse_mapping m ! unat (m ! i) = int i"
    using inverse_mapping_left [OF assms(3,2)] by blast
  show "\<forall>j < 256. unat (m ! nat (inverse_mapping m ! j)) = j"
    using inverse_mapping_right [OF assms(3,2)] by blast
  show e: "chunk_data (emitted (chunk_remap_palette_invert remapImages label chunk (stream, objects)))
         = RemapPaletteData sid ff ft (stored_mapping (inverse_mapping m))"
    using remap_invert_emitted [OF assms(1,2)] .
  have l1: "length (stored_mapping (inverse_mapping m)) = 256" by (simp add: stored_mapping_def)
  show "chunk_data (emitted (chunk_remap_palette_invert remapImages label'
           (emitted (chunk_remap_palette_invert remapImages label chunk (stream, objects)))
           (stream', objects')))
         = chunk_data chunk"
    using remap_invert_emitted [OF e l1, of remapImages label' stream' objects']
      inverse_twice [OF assms(3,2)] assms(1) by simp
qed


lemma swap_mapping_perm: "length swap_mapping = 256 \<and> distinct swap_mapping"
proof -
  have inj: "inj_on (of_nat :: nat \<Rightarrow> byte) {0..<256}"
  proof (rule inj_onI)
    fix a b :: nat assume "a \<in> {0..<256}" and "b \<in> {0..<256}"
      and e: "(of_nat a :: byte) = of_nat b"
    then have a: "a < 2 ^ 8" and b: "b < 2 ^ 8" by simp_all
    have "take_bit 8 a = take_bit 8 b" using e by (simp add: word_of_nat_eq_iff)
    then show "a = b" using a b by (simp add: take_bit_nat_eq_self)
  qed
  have sub: "set ([1, 0] @ [2..<256]) \<subseteq> {0..<256::nat}"
    by (auto simp del: upt_rec_numeral)
  have d: "distinct ([1, 0] @ [2..<256::nat])"
    by (simp del: upt_rec_numeral)
  have "distinct swap_mapping"
    unfolding swap_mapping_def using d inj_on_subset [OF inj sub]
    by (simp only: distinct_map)
  moreover have "length swap_mapping = 256"
    by (simp add: swap_mapping_def del: upt_rec_numeral)
  ultimately show ?thesis by simp
qed

theorem remap_palette_inverse_witness:
  "chunk_data swap_chunk = RemapPaletteData 2 0 1 swap_mapping
   \<and> length swap_mapping = 256 \<and> distinct swap_mapping
   \<and> inverse_mapping swap_mapping ! unat (swap_mapping ! 0) = int 0
   \<and> unat (swap_mapping ! nat (inverse_mapping swap_mapping ! 1)) = 1
   \<and> chunk_data (emitted (chunk_remap_palette_invert
         (\<lambda>sprite frame_from frame_to mapping objects. objects) None swap_chunk
         (stream_new, example_objects)))
       = RemapPaletteData 2 0 1 (stored_mapping (inverse_mapping swap_mapping))
   \<and> chunk_data (emitted (chunk_remap_palette_invert
         (\<lambda>sprite frame_from frame_to mapping objects. objects) None
         (emitted (chunk_remap_palette_invert
            (\<lambda>sprite frame_from frame_to mapping objects. objects) None swap_chunk
            (stream_new, example_objects)))
         (stream_new, example_objects)))
       = chunk_data swap_chunk"
proof -
  have c: "chunk_data swap_chunk = RemapPaletteData 2 0 1 swap_mapping"
    by (simp add: swap_chunk_def)
  have l: "length swap_mapping = 256" and d: "distinct swap_mapping"
    using swap_mapping_perm by simp_all
  note t = remap_palette_inverse [OF c l d,
      of "\<lambda>sprite frame_from frame_to mapping objects. objects" None stream_new example_objects
         None stream_new example_objects]
  have a1: "inverse_mapping swap_mapping ! unat (swap_mapping ! 0) = int 0"
    using t [THEN conjunct1] by simp
  have a2: "unat (swap_mapping ! nat (inverse_mapping swap_mapping ! 1)) = 1"
    using t [THEN conjunct2, THEN conjunct1] by simp
  note a3 = t [THEN conjunct2, THEN conjunct2, THEN conjunct1]
  note a4 = t [THEN conjunct2, THEN conjunct2, THEN conjunct2]
  show ?thesis by (intro conjI) (rule c, rule l, rule d, rule a1, rule a2, rule a3, rule a4)
qed

section \<open>The size of raw layer data\<close>

lemma write_layer_head_length:
  "int (length (write_layer_head layer_id name flags type_code sprite_id))
     = 4 + 2 + int (length name) + 1 + 2 + 4"
  by (simp add: write_layer_head_def write_raw_uint32_def write_raw_uint16_def
        write_raw_uint8_def write_raw_data_def)

lemma write_raw_cel_length: "int (length (write_raw_cel cel)) = get_raw_cel_size cel"
  by (simp add: write_raw_cel_def get_raw_cel_size_def write_raw_uint32_def
        write_raw_uint16_def write_raw_int16_def)

lemma rows_length:
  "\<forall>c < n. length (rows ! c) = k \<Longrightarrow>
     length (concat (map (\<lambda>c. take k (rows ! c)) [0..<n])) = n * k"
  by (induction n) simp_all

lemma write_raw_image_length:
  assumes "image_ok img" and "0 \<le> img_w img" and "0 \<le> img_h img"
  shows "int (length (write_raw_image gfx (oid, img))) = get_raw_image_size img"
proof -
  let ?sz = "image_line_size img (img_w img)"
  have sz0: "0 \<le> ?sz" using assms(2) bytes_per_pixel_pos [of "img_imgtype img"]
    by (simp add: image_line_size_def)
  have "\<forall>c < nat (img_h img). length (img_line img ! c) = nat ?sz"
    using assms(1) by (simp add: image_ok_def list_all_length)
  then have "length (concat (map (\<lambda>c. take (nat ?sz) (img_line img ! c)) [0..<nat (img_h img)]))
      = nat (img_h img) * nat ?sz" by (rule rows_length)
  then have "int (length (concat (map (\<lambda>c. write_raw_data (img_line img ! c) ?sz)
      [0..<nat (img_h img)]))) = ?sz * img_h img"
    using sz0 assms(3) by (simp add: write_raw_data_def)
  then show ?thesis
    by (simp add: write_raw_image_def Let_def get_raw_image_size_def write_raw_uint32_def
          write_raw_uint16_def write_raw_uint8_def)
qed

lemma get_raw_cels_size_written:
  assumes "\<And>i oid img. stock i = Some (oid, img) \<Longrightarrow> image_ok img \<and> 0 \<le> img_w img \<and> 0 \<le> img_h img"
  shows "get_raw_cels_size stock cels sz
     = (case write_raw_cels gfx stock cels of
          Inl e \<Rightarrow> Inl e
        | Inr bytes \<Rightarrow> Inr (sz + int (length bytes)))"
proof (induction cels arbitrary: sz)
  case Nil
  then show ?case by simp
next
  case (Cons cel cels)
  show ?case
  proof (cases "stock (cel_image cel)")
    case None
    then show ?thesis by simp
  next
    case (Some im)
    obtain oid img where im: "im = (oid, img)" by (cases im)
    have "int (length (write_raw_image gfx im)) = get_raw_image_size (snd im)"
      using write_raw_image_length [of img gfx oid] assms [of "cel_image cel" oid img] Some im
      by simp
    then show ?thesis using Some Cons.IH write_raw_cel_length [of cel]
      by (simp add: write_raw_uint8_def split: sum.splits)
  qed
qed

lemma raw_layer_size_excess:
  assumes "\<And>i oid img. stock i = Some (oid, img) \<Longrightarrow> image_ok img \<and> 0 \<le> img_w img \<and> 0 \<le> img_h img"
  shows "get_raw_layer_size stock layer
     = (case write_raw_layer gfx stock layer of
          Inl e \<Rightarrow> Inl e
        | Inr bytes \<Rightarrow> Inr (int (length bytes) + image_layers layer))"
    and "get_raw_layers_size stock layers sz
     = (case write_raw_layers gfx stock layers of
          Inl e \<Rightarrow> Inl e
        | Inr bytes \<Rightarrow> Inr (sz + int (length bytes) + image_layers_list layers))"
proof (induction layer and layers arbitrary: and sz rule: image_layers_image_layers_list.induct)
  case (1 layer_id name flags sprite_id cels)
  show ?case
    using get_raw_cels_size_written [OF assms, where cels = cels and gfx = gfx]
      write_layer_head_length [of layer_id name flags "code_layer_image gfx" sprite_id]
    by (simp add: Let_def write_raw_uint16_def split: sum.splits)
next
  case (2 layer_id name flags sprite_id layers)
  show ?case
    using 2 [of "4 + 2 + int (length name) + 1 + 2 + 4 + 2"]
      write_layer_head_length [of layer_id name flags "code_layer_folder gfx" sprite_id]
    by (simp add: Let_def write_raw_uint16_def split: sum.splits)
next
  case 3
  show ?case by simp
next
  case (4 layer layers)
  show ?case using 4(1) 4(2) by (simp split: sum.splits)
qed

text \<open>
  C8. \<^verbatim>\<open>get_raw_layer_size\<close> is to give the number of bytes that \<^verbatim>\<open>write_raw_layer\<close>
  writes. The code counts one byte more for every image layer (the "blend mode" byte, which
  no writer writes): for an image layer named "Layer 1" without cels it returns 23, and
  \<^verbatim>\<open>write_raw_layer\<close> writes 22 bytes.
\<close>

theorem raw_layer_size_one_more:
  "get_raw_layer_size (\<lambda>i. None) example_layer = Inr 23
   \<and> write_raw_layer example_gfx (\<lambda>i. None) example_layer
       = Inr [5, 0, 0, 0, 7, 0, 76, 97, 121, 101, 114, 32, 49, 0, 2, 0, 2, 0, 0, 0, 0, 0]
   \<and> length [5, 0, 0, 0, 7, 0, 76, 97, 121, 101, 114, 32, 49, 0, 2, 0, 2, 0, 0, 0, 0, 0 :: byte] = 22"
  by (simp add: example_layer_def example_gfx_def write_layer_head_def write_raw_uint32_def
        write_raw_uint16_def write_raw_uint8_def write_raw_data_def)

end
